theory Spec2Isabelle
  imports Complex_Main "HOL-Library.Product_Lexorder" "HOL-Library.List_Lexorder"
    "HOL-Library.Char_ord" "HOL-Library.Multiset" "HOL-Library.Log_Nat"
begin

section \<open>Time values and the Date operations of the scheduler\<close>

text \<open>
  A JavaScript \<open>Date\<close> holds a time value: the number of milliseconds since
  1970-01-01T00:00:00Z. The storage module computes the next run of a schedule with the
  local-time accessors \<open>getMinutes/setMinutes\<close>, \<open>getHours/setHours\<close> and
  \<open>getDate/setDate\<close>. They are modelled as ECMAScript defines them (section
  "Date Objects": Day, TimeWithinDay, YearFromTime, MonthFromTime, DateFromTime, MakeTime,
  MakeDay, MakeDate, LocalTime, UTC, TimeClip). The offset of the host's time zone is a
  parameter: \<open>tz t True\<close> is the offset in milliseconds at the UTC time value \<open>t\<close>,
  \<open>tz t False\<close> the offset by which the local time value \<open>t\<close> is interpreted
  (LocalTZA(t, isUTC) in ECMAScript).
\<close>

type_synonym tzinfo = "int \<Rightarrow> bool \<Rightarrow> int"

definition msPerDay :: int where "msPerDay = 86400000"
definition msPerHour :: int where "msPerHour = 3600000"
definition msPerMinute :: int where "msPerMinute = 60000"
definition msPerSecond :: int where "msPerSecond = 1000"

definition Day :: "int \<Rightarrow> int" where
  "Day t = t div msPerDay"

definition TimeWithinDay :: "int \<Rightarrow> int" where
  "TimeWithinDay t = t mod msPerDay"

definition DaysInYear :: "int \<Rightarrow> int" where
  "DaysInYear y =
     (if y mod 4 \<noteq> 0 then 365
      else if y mod 100 \<noteq> 0 then 366
      else if y mod 400 \<noteq> 0 then 365
      else 366)"

definition DayFromYear :: "int \<Rightarrow> int" where
  "DayFromYear y =
     365 * (y - 1970) + (y - 1969) div 4 - (y - 1901) div 100 + (y - 1601) div 400"

lemma DayFromYear_less: "DayFromYear (y - 1) < DayFromYear y"
proof -
  define a0 where "a0 = (y - 1 - 1969) div 4"
  define a1 where "a1 = (y - 1969) div 4"
  define b0 where "b0 = (y - 1 - 1901) div 100"
  define b1 where "b1 = (y - 1901) div 100"
  define c0 where "c0 = (y - 1 - 1601) div 400"
  define c1 where "c1 = (y - 1601) div 400"
  have a: "a0 \<le> a1" unfolding a0_def a1_def by (rule zdiv_mono1) simp_all
  have c: "c0 \<le> c1" unfolding c0_def c1_def by (rule zdiv_mono1) simp_all
  have b: "b1 \<le> b0 + 1"
  proof -
    have "(y - 1901) div 100 \<le> (y - 1 - 1901 + 100) div 100"
      by (rule zdiv_mono1) simp_all
    also have "\<dots> = (y - 1 - 1901) div 100 + 1" by simp
    finally show ?thesis unfolding b0_def b1_def .
  qed
  have "DayFromYear (y - 1) = 365 * (y - 1 - 1970) + a0 - b0 + c0"
    by (simp add: DayFromYear_def a0_def b0_def c0_def)
  moreover have "DayFromYear y = 365 * (y - 1970) + a1 - b1 + c1"
    by (simp add: DayFromYear_def a1_def b1_def c1_def)
  ultimately show ?thesis using a b c by simp
qed

lemma DayFromYear_less_succ: "DayFromYear y < DayFromYear (y + 1)"
  using DayFromYear_less [of "y + 1"] by simp

text \<open>
  YearFromTime is "the largest integer y such that TimeFromYear(y) \<le> t". It is found
  from an estimate by stepping down while the year starts after the day, then up while
  the next year starts on or before it.
\<close>

function yearDown :: "int \<Rightarrow> int \<Rightarrow> int" where
  "yearDown d y = (if DayFromYear y \<le> d then y else yearDown d (y - 1))"
  by pat_completeness auto
termination
proof (relation "measure (\<lambda>(d, y). nat (DayFromYear y - d))")
  show "wf (measure (\<lambda>(d, y). nat (DayFromYear y - d)))" by simp
next
  fix d y :: int
  assume "\<not> DayFromYear y \<le> d"
  then show "((d, y - 1), (d, y)) \<in> measure (\<lambda>(d, y). nat (DayFromYear y - d))"
    using DayFromYear_less [of y] by simp
qed

function yearUp :: "int \<Rightarrow> int \<Rightarrow> int" where
  "yearUp d y = (if d < DayFromYear (y + 1) then y else yearUp d (y + 1))"
  by pat_completeness auto
termination
proof (relation "measure (\<lambda>(d, y). nat (d + 1 - DayFromYear (y + 1)))")
  show "wf (measure (\<lambda>(d, y). nat (d + 1 - DayFromYear (y + 1))))" by simp
next
  fix d y :: int
  assume "\<not> d < DayFromYear (y + 1)"
  moreover have "DayFromYear (y + 1) < DayFromYear (y + 1 + 1)"
    by (rule DayFromYear_less_succ)
  ultimately have "nat (d + 1 - DayFromYear (y + 1 + 1)) < nat (d + 1 - DayFromYear (y + 1))"
    by linarith
  then show "((d, y + 1), (d, y)) \<in> measure (\<lambda>(d, y). nat (d + 1 - DayFromYear (y + 1)))"
    by simp
qed

declare yearDown.simps [simp del] yearUp.simps [simp del]

definition YearFromTime :: "int \<Rightarrow> int" where
  "YearFromTime t = (let d = Day t in yearUp d (yearDown d (1970 + d div 365)))"

definition InLeapYear :: "int \<Rightarrow> int" where
  "InLeapYear t = (if DaysInYear (YearFromTime t) = 366 then 1 else 0)"

definition DayWithinYear :: "int \<Rightarrow> int" where
  "DayWithinYear t = Day t - DayFromYear (YearFromTime t)"

definition MonthFromTime :: "int \<Rightarrow> int" where
  "MonthFromTime t =
     (let d = DayWithinYear t; l = InLeapYear t in
      if d < 31 then 0
      else if d < 59 + l then 1
      else if d < 90 + l then 2
      else if d < 120 + l then 3
      else if d < 151 + l then 4
      else if d < 181 + l then 5
      else if d < 212 + l then 6
      else if d < 243 + l then 7
      else if d < 273 + l then 8
      else if d < 304 + l then 9
      else if d < 334 + l then 10
      else 11)"

definition DateFromTime :: "int \<Rightarrow> int" where
  "DateFromTime t =
     (let d = DayWithinYear t; l = InLeapYear t; m = MonthFromTime t in
      if m = 0 then d + 1
      else if m = 1 then d - 30
      else if m = 2 then d - 58 - l
      else if m = 3 then d - 89 - l
      else if m = 4 then d - 119 - l
      else if m = 5 then d - 150 - l
      else if m = 6 then d - 180 - l
      else if m = 7 then d - 211 - l
      else if m = 8 then d - 242 - l
      else if m = 9 then d - 272 - l
      else if m = 10 then d - 303 - l
      else d - 333 - l)"

definition HourFromTime :: "int \<Rightarrow> int" where
  "HourFromTime t = (t div msPerHour) mod 24"

definition MinFromTime :: "int \<Rightarrow> int" where
  "MinFromTime t = (t div msPerMinute) mod 60"

definition SecFromTime :: "int \<Rightarrow> int" where
  "SecFromTime t = (t div msPerSecond) mod 60"

definition msFromTime :: "int \<Rightarrow> int" where
  "msFromTime t = t mod msPerSecond"

definition MakeTime :: "int \<Rightarrow> int \<Rightarrow> int \<Rightarrow> int \<Rightarrow> int" where
  "MakeTime hour mn sec ms = hour * msPerHour + mn * msPerMinute + sec * msPerSecond + ms"

text \<open>
  MakeDay finds the day number of the first day of month \<open>mn\<close> in year \<open>ym\<close> and adds
  \<open>date - 1\<close>; \<open>monthStart\<close> is the day within the year on which a month begins.
\<close>

definition monthStart :: "int \<Rightarrow> int \<Rightarrow> int" where
  "monthStart mn l =
     (if mn = 0 then 0
      else if mn = 1 then 31
      else if mn = 2 then 59 + l
      else if mn = 3 then 90 + l
      else if mn = 4 then 120 + l
      else if mn = 5 then 151 + l
      else if mn = 6 then 181 + l
      else if mn = 7 then 212 + l
      else if mn = 8 then 243 + l
      else if mn = 9 then 273 + l
      else if mn = 10 then 304 + l
      else 334 + l)"

definition MakeDay :: "int \<Rightarrow> int \<Rightarrow> int \<Rightarrow> int" where
  "MakeDay year month date =
     (let ym = year + month div 12; mn = month mod 12;
          l = (if DaysInYear ym = 366 then 1 else 0)
      in DayFromYear ym + monthStart mn l + date - 1)"

definition MakeDate :: "int \<Rightarrow> int \<Rightarrow> int" where
  "MakeDate day time = day * msPerDay + time"

definition LocalTime :: "tzinfo \<Rightarrow> int \<Rightarrow> int" where
  "LocalTime tz t = t + tz t True"

definition UTC :: "tzinfo \<Rightarrow> int \<Rightarrow> int" where
  "UTC tz t = t - tz t False"

text \<open>TimeClip: a time value beyond 8.64e15 ms is no time value (\<open>None\<close>, an Invalid Date).\<close>

definition TimeClip :: "int \<Rightarrow> int option" where
  "TimeClip time = (if \<bar>time\<bar> > 8640000000000000 then None else Some time)"

definition getMinutes :: "tzinfo \<Rightarrow> int \<Rightarrow> int" where
  "getMinutes tz t = MinFromTime (LocalTime tz t)"

definition setMinutes :: "tzinfo \<Rightarrow> int \<Rightarrow> int \<Rightarrow> int option" where
  "setMinutes tz thisTime m =
     (let t = LocalTime tz thisTime;
          date = MakeDate (Day t) (MakeTime (HourFromTime t) m (SecFromTime t) (msFromTime t))
      in TimeClip (UTC tz date))"

definition getHours :: "tzinfo \<Rightarrow> int \<Rightarrow> int" where
  "getHours tz t = HourFromTime (LocalTime tz t)"

definition setHours :: "tzinfo \<Rightarrow> int \<Rightarrow> int \<Rightarrow> int option" where
  "setHours tz thisTime h =
     (let t = LocalTime tz thisTime;
          date = MakeDate (Day t) (MakeTime h (MinFromTime t) (SecFromTime t) (msFromTime t))
      in TimeClip (UTC tz date))"

definition getDate :: "tzinfo \<Rightarrow> int \<Rightarrow> int" where
  "getDate tz t = DateFromTime (LocalTime tz t)"

definition setDate :: "tzinfo \<Rightarrow> int \<Rightarrow> int \<Rightarrow> int option" where
  "setDate tz thisTime dt =
     (let t = LocalTime tz thisTime;
          newDate = MakeDate (MakeDay (YearFromTime t) (MonthFromTime t) dt) (TimeWithinDay t)
      in TimeClip (UTC tz newDate))"

datatype ScheduleInterval = Every15min | Hourly | Daily | Weekly

text \<open>
  \<open>calculateNextRunTime(interval, fromDate?)\<close>: \<open>clock\<close> is the reading of
  \<open>new Date()\<close>, used when no \<open>fromDate\<close> is passed.
\<close>

definition calculateNextRunTime ::
    "tzinfo \<Rightarrow> int \<Rightarrow> ScheduleInterval \<Rightarrow> int option \<Rightarrow> int option" where
  "calculateNextRunTime tz clock interval fromDate =
     (let now = (case fromDate of Some d \<Rightarrow> d | None \<Rightarrow> clock);
          next = now
      in case interval of
           Every15min \<Rightarrow> setMinutes tz next (getMinutes tz next + 15)
         | Hourly \<Rightarrow> setHours tz next (getHours tz next + 1)
         | Daily \<Rightarrow> setDate tz next (getDate tz next + 1)
         | Weekly \<Rightarrow> setDate tz next (getDate tz next + 7))"

text \<open>Two hosts: one on UTC, one on US Eastern time around the end of DST in 2026
  (2026-11-01T06:00:00Z, when 02:00 EDT becomes 01:00 EST). A local time that occurs twice
  is read with the offset before the transition, as ECMAScript requires.\<close>

definition tzUTC :: tzinfo where
  "tzUTC t isUTC = 0"

definition tzEastern2026 :: tzinfo where
  "tzEastern2026 t isUTC =
     (if isUTC then (if t < 1793512800000 then - 14400000 else - 18000000)
      else (if t < 1793512800000 - 14400000 then - 14400000 else - 18000000))"

section \<open>JavaScript values\<close>

text \<open>
  The values that cross the database driver and the HTTP boundary: \<open>undefined\<close>,
  \<open>null\<close>, booleans, numbers (the integer columns and counters of this program),
  strings, Date objects (by their time value), arrays and plain objects.
\<close>

datatype jsval =
    Undefined
  | Null
  | JBool bool
  | JNum int
  | JStr string
  | JDate int
  | JArr "jsval list"
  | JObj "(string \<times> jsval) list"

fun truthy :: "jsval \<Rightarrow> bool" where
  "truthy Undefined = False"
| "truthy Null = False"
| "truthy (JBool b) = b"
| "truthy (JNum n) = (n \<noteq> 0)"
| "truthy (JStr s) = (s \<noteq> [])"
| "truthy (JDate t) = True"
| "truthy (JArr xs) = True"
| "truthy (JObj kvs) = True"

text \<open>\<open>a || b\<close>, \<open>a ?? b\<close> and \<open>Boolean(a)\<close>.\<close>

definition js_or :: "jsval \<Rightarrow> jsval \<Rightarrow> jsval" where
  "js_or a b = (if truthy a then a else b)"

definition js_nullish :: "jsval \<Rightarrow> jsval \<Rightarrow> jsval" where
  "js_nullish a b = (if a = Undefined \<or> a = Null then b else a)"

definition nullish :: "jsval \<Rightarrow> bool" where
  "nullish v \<longleftrightarrow> v = Null \<or> v = Undefined"

definition Boolean :: "jsval \<Rightarrow> bool" where
  "Boolean a = truthy a"

text \<open>Reading a property of an object: a missing property reads as \<open>undefined\<close>.\<close>

type_synonym jsobject = "(string \<times> jsval) list"

definition getProp :: "jsobject \<Rightarrow> string \<Rightarrow> jsval" where
  "getProp obj k = (case map_of obj k of None \<Rightarrow> Undefined | Some v \<Rightarrow> v)"

subsection \<open>Text of numbers and dates\<close>

definition digit :: "int \<Rightarrow> char" where
  "digit n = char_of (48 + n)"

definition pad2 :: "int \<Rightarrow> string" where
  "pad2 n = [digit (n div 10 mod 10), digit (n mod 10)]"

definition pad3 :: "int \<Rightarrow> string" where
  "pad3 n = digit (n div 100 mod 10) # pad2 n"

definition pad4 :: "int \<Rightarrow> string" where
  "pad4 n = digit (n div 1000 mod 10) # pad3 n"

definition pad6 :: "int \<Rightarrow> string" where
  "pad6 n = [digit (n div 100000 mod 10), digit (n div 10000 mod 10)] @ pad4 n"

text \<open>
  \<open>Date.prototype.toISOString\<close>: the UTC fields as \<open>YYYY-MM-DDTHH:mm:ss.sssZ\<close>, with a
  signed six-digit year outside 0..9999.
\<close>

definition toISOString :: "int \<Rightarrow> string" where
  "toISOString t =
     (let y = YearFromTime t;
          year = (if 0 \<le> y \<and> y \<le> 9999 then pad4 y
                  else if y < 0 then CHR ''-'' # pad6 (- y)
                  else CHR ''+'' # pad6 y)
      in year @ ''-'' @ pad2 (MonthFromTime t + 1) @ ''-'' @ pad2 (DateFromTime t)
         @ ''T'' @ pad2 (HourFromTime t) @ '':'' @ pad2 (MinFromTime t)
         @ '':'' @ pad2 (SecFromTime t) @ ''.'' @ pad3 (msFromTime t) @ ''Z'')"

fun natDigits :: "nat \<Rightarrow> string" where
  "natDigits n = (if n < 10 then [digit (int n)] else natDigits (n div 10) @ [digit (int (n mod 10))])"

declare natDigits.simps [simp del]

definition intText :: "int \<Rightarrow> string" where
  "intText n = (if n < 0 then CHR ''-'' # natDigits (nat (- n)) else natDigits (nat n))"

fun joinComma :: "string list \<Rightarrow> string" where
  "joinComma [] = []"
| "joinComma [s] = s"
| "joinComma (s # t # ss) = s @ '','' @ joinComma (t # ss)"

text \<open>
  \<open>String(v)\<close>. The text of a Date is host-defined and is not modelled (it is given as the
  empty text): the storage code never applies \<open>String\<close> to a Date, which takes the
  \<open>toISOString\<close> branch.
\<close>

fun jsString :: "jsval \<Rightarrow> string" where
  "jsString Undefined = ''undefined''"
| "jsString Null = ''null''"
| "jsString (JBool b) = (if b then ''true'' else ''false'')"
| "jsString (JNum n) = intText n"
| "jsString (JStr s) = s"
| "jsString (JDate t) = []"
| "jsString (JArr xs) =
     joinComma (map (\<lambda>x. if x = Undefined \<or> x = Null then [] else jsString x) xs)"
| "jsString (JObj kvs) = ''[object Object]''"

section \<open>The tables\<close>

text \<open>
  A row of the rule table. SQL \<open>NULL\<close> is \<open>None\<close>; every column but the key may hold
  it, since the row mapper below is written for rows whose columns are null. Timestamps are
  time values, JSONB columns hold the parsed document.
\<close>

record RuleRow =
  c_id :: string
  c_userId :: "string option"
  c_name :: "string option"
  c_description :: "string option"
  c_isActive :: "bool option"
  c_priority :: "int option"
  c_acceptedTriggers :: "jsval option"
  c_topicCondition :: "string option"
  c_executionSteps :: "jsval option"
  c_outputConfig :: "jsval option"
  c_executionCount :: "int option"
  c_lastExecutedAt :: "int option"
  c_createdAt :: "int option"
  c_updatedAt :: "int option"
  c_activationMode :: "string option"
  c_scheduleEnabled :: "bool option"
  c_scheduleInterval :: "string option"
  c_scheduleLastRun :: "int option"
  c_scheduleNextRun :: "int option"

text \<open>
  A row of the log table, after the DDL in the log storage module: \<open>rule_id\<close>,
  \<open>rule_name\<close>, \<open>user_id\<close>, \<open>trigger_slug\<close>, \<open>status\<close> and \<open>created_at\<close> are
  \<open>NOT NULL\<close>, \<open>status\<close> is one of three texts, and no column refers to the rule
  table (there is no foreign key).
\<close>

datatype LogStatus = Success | Failure | Partial

record LogRow =
  l_id :: string
  l_ruleId :: string
  l_ruleName :: string
  l_userId :: string
  l_triggerSlug :: string
  l_status :: LogStatus
  l_stepsJson :: "jsval option"
  l_outputText :: "string option"
  l_errorText :: "string option"
  l_durationMs :: "int option"
  l_createdAt :: int

record db =
  ruleTable :: "RuleRow list"
  logTable :: "LogRow list"

datatype storage_error = UniqueViolation | InvalidTimestamp | Thrown string

subsection \<open>Rows as the driver returns them\<close>

text \<open>
  The driver returns a row as an object keyed by column name: snake case on Supabase
  (\<open>isSupabase\<close>), camel case on the local database.
\<close>

definition colKey :: "bool \<Rightarrow> string \<Rightarrow> string \<Rightarrow> string" where
  "colKey isSupabase snake camel = (if isSupabase then snake else camel)"

definition jsText :: "string option \<Rightarrow> jsval" where
  "jsText v = (case v of None \<Rightarrow> Null | Some s \<Rightarrow> JStr s)"

definition jsBoolean :: "bool option \<Rightarrow> jsval" where
  "jsBoolean v = (case v of None \<Rightarrow> Null | Some b \<Rightarrow> JBool b)"

definition jsInteger :: "int option \<Rightarrow> jsval" where
  "jsInteger v = (case v of None \<Rightarrow> Null | Some n \<Rightarrow> JNum n)"

definition jsTimestamp :: "int option \<Rightarrow> jsval" where
  "jsTimestamp v = (case v of None \<Rightarrow> Null | Some t \<Rightarrow> JDate t)"

definition jsJson :: "jsval option \<Rightarrow> jsval" where
  "jsJson v = (case v of None \<Rightarrow> Null | Some j \<Rightarrow> j)"

definition ruleRowObject :: "bool \<Rightarrow> RuleRow \<Rightarrow> jsobject" where
  "ruleRowObject isSupabase r =
     [(''id'', JStr (c_id r)),
      (colKey isSupabase ''user_id'' ''userId'', jsText (c_userId r)),
      (''name'', jsText (c_name r)),
      (''description'', jsText (c_description r)),
      (colKey isSupabase ''is_active'' ''isActive'', jsBoolean (c_isActive r)),
      (''priority'', jsInteger (c_priority r)),
      (colKey isSupabase ''accepted_triggers'' ''acceptedTriggers'', jsJson (c_acceptedTriggers r)),
      (colKey isSupabase ''topic_condition'' ''topicCondition'', jsText (c_topicCondition r)),
      (colKey isSupabase ''execution_steps'' ''executionSteps'', jsJson (c_executionSteps r)),
      (colKey isSupabase ''output_config'' ''outputConfig'', jsJson (c_outputConfig r)),
      (colKey isSupabase ''execution_count'' ''executionCount'', jsInteger (c_executionCount r)),
      (colKey isSupabase ''last_executed_at'' ''lastExecutedAt'', jsTimestamp (c_lastExecutedAt r)),
      (colKey isSupabase ''created_at'' ''createdAt'', jsTimestamp (c_createdAt r)),
      (colKey isSupabase ''updated_at'' ''updatedAt'', jsTimestamp (c_updatedAt r)),
      (colKey isSupabase ''activation_mode'' ''activationMode'', jsText (c_activationMode r)),
      (colKey isSupabase ''schedule_enabled'' ''scheduleEnabled'', jsBoolean (c_scheduleEnabled r)),
      (colKey isSupabase ''schedule_interval'' ''scheduleInterval'', jsText (c_scheduleInterval r)),
      (colKey isSupabase ''schedule_last_run'' ''scheduleLastRun'', jsTimestamp (c_scheduleLastRun r)),
      (colKey isSupabase ''schedule_next_run'' ''scheduleNextRun'', jsTimestamp (c_scheduleNextRun r))]"

definition statusText :: "LogStatus \<Rightarrow> string" where
  "statusText s = (case s of Success \<Rightarrow> ''success'' | Failure \<Rightarrow> ''failure'' | Partial \<Rightarrow> ''partial'')"

definition logRowObject :: "bool \<Rightarrow> LogRow \<Rightarrow> jsobject" where
  "logRowObject isSupabase r =
     [(''id'', JStr (l_id r)),
      (colKey isSupabase ''rule_id'' ''ruleId'', JStr (l_ruleId r)),
      (colKey isSupabase ''rule_name'' ''ruleName'', JStr (l_ruleName r)),
      (colKey isSupabase ''user_id'' ''userId'', JStr (l_userId r)),
      (colKey isSupabase ''trigger_slug'' ''triggerSlug'', JStr (l_triggerSlug r)),
      (''status'', JStr (statusText (l_status r))),
      (colKey isSupabase ''steps_json'' ''stepsJson'', jsJson (l_stepsJson r)),
      (colKey isSupabase ''output_text'' ''outputText'', jsText (l_outputText r)),
      (colKey isSupabase ''error_text'' ''errorText'', jsText (l_errorText r)),
      (colKey isSupabase ''duration_ms'' ''durationMs'', jsInteger (l_durationMs r)),
      (colKey isSupabase ''created_at'' ''createdAt'', JDate (l_createdAt r))]"

section \<open>Rule storage\<close>

subsection \<open>mapRuleRow\<close>

record ExecutionRule =
  id' :: jsval
  userId :: jsval
  name :: jsval
  description :: jsval
  isActive :: bool
  priority :: jsval
  acceptedTriggers :: jsval
  topicCondition :: jsval
  executionSteps :: jsval
  outputConfig :: jsval
  executionCount :: jsval
  lastExecutedAt :: jsval
  createdAt :: string
  updatedAt :: string
  activationMode :: jsval
  scheduleEnabled :: bool
  scheduleInterval :: jsval
  scheduleLastRun :: jsval
  scheduleNextRun :: jsval

text \<open>\<open>v instanceof Date ? v.toISOString() : v\<close> and
  \<open>v instanceof Date ? v.toISOString() : String(v)\<close>.\<close>

definition isoIfDate :: "jsval \<Rightarrow> jsval" where
  "isoIfDate v = (case v of JDate t \<Rightarrow> JStr (toISOString t) | _ \<Rightarrow> v)"

definition isoOrString :: "jsval \<Rightarrow> string" where
  "isoOrString v = (case v of JDate t \<Rightarrow> toISOString t | _ \<Rightarrow> jsString v)"

definition defaultOutputConfig :: jsval where
  "defaultOutputConfig = JObj [(''platform'', JStr ''none''), (''format'', JStr ''summary'')]"

definition mapRuleRow :: "jsobject \<Rightarrow> ExecutionRule" where
  "mapRuleRow row =
     (let userId = js_or (getProp row ''userId'') (getProp row ''user_id'');
          isActive = js_nullish (getProp row ''isActive'') (getProp row ''is_active'');
          acceptedTriggers = js_or (getProp row ''acceptedTriggers'') (getProp row ''accepted_triggers'');
          topicCondition = js_or (getProp row ''topicCondition'') (getProp row ''topic_condition'');
          executionSteps = js_or (getProp row ''executionSteps'') (getProp row ''execution_steps'');
          outputConfig = js_or (getProp row ''outputConfig'') (getProp row ''output_config'');
          executionCount = js_nullish (getProp row ''executionCount'') (getProp row ''execution_count'');
          lastExecutedAt = js_or (getProp row ''lastExecutedAt'') (getProp row ''last_executed_at'');
          createdAt = js_or (getProp row ''createdAt'') (getProp row ''created_at'');
          updatedAt = js_or (getProp row ''updatedAt'') (getProp row ''updated_at'');
          activationMode = js_or (getProp row ''activationMode'') (getProp row ''activation_mode'');
          scheduleEnabled = js_nullish (getProp row ''scheduleEnabled'') (getProp row ''schedule_enabled'');
          scheduleInterval = js_or (getProp row ''scheduleInterval'') (getProp row ''schedule_interval'');
          scheduleLastRun = js_or (getProp row ''scheduleLastRun'') (getProp row ''schedule_last_run'');
          scheduleNextRun = js_or (getProp row ''scheduleNextRun'') (getProp row ''schedule_next_run'')
      in \<lparr> id' = getProp row ''id'',
           userId = userId,
           name = getProp row ''name'',
           description = getProp row ''description'',
           isActive = Boolean isActive,
           priority = js_or (getProp row ''priority'') (JNum 0),
           acceptedTriggers = js_or acceptedTriggers (JArr []),
           topicCondition = topicCondition,
           executionSteps = js_or executionSteps (JArr []),
           outputConfig = js_or outputConfig defaultOutputConfig,
           executionCount = js_or executionCount (JNum 0),
           lastExecutedAt = isoIfDate lastExecutedAt,
           createdAt = isoOrString createdAt,
           updatedAt = isoOrString updatedAt,
           activationMode = js_or activationMode (JStr ''trigger''),
           scheduleEnabled = Boolean scheduleEnabled,
           scheduleInterval = scheduleInterval,
           scheduleLastRun = isoIfDate scheduleLastRun,
           scheduleNextRun = isoIfDate scheduleNextRun \<rparr>)"

subsection \<open>Inputs\<close>

text \<open>
  Modelled from the spec: the declarations of \<open>ExecutionRuleInput\<close>, \<open>ActivationMode\<close>
  and \<open>ScheduleInterval\<close> (module \<open>./types\<close>) are not among the sources. The spec gives
  \<open>activationMode: enum{trigger, scheduled, manual, all}\<close>,
  \<open>scheduleInterval: enum{15min, hourly, daily, weekly}\<close>, \<open>priority: int\<close>,
  \<open>acceptedTriggers\<close> a collection of trigger-type identifiers and \<open>executionSteps\<close> an
  ordered sequence of steps; which fields are optional is read off the storage code
  (\<open>??\<close> and \<open>||\<close> defaults in \<open>create\<close>). An absent field is \<open>None\<close>.
\<close>

datatype ActivationMode = ModeTrigger | ModeScheduled | ModeManual | ModeAll

definition activationModeText :: "ActivationMode \<Rightarrow> string" where
  "activationModeText m =
     (case m of ModeTrigger \<Rightarrow> ''trigger'' | ModeScheduled \<Rightarrow> ''scheduled''
              | ModeManual \<Rightarrow> ''manual'' | ModeAll \<Rightarrow> ''all'')"

definition intervalText :: "ScheduleInterval \<Rightarrow> string" where
  "intervalText i =
     (case i of Every15min \<Rightarrow> ''15min'' | Hourly \<Rightarrow> ''hourly''
              | Daily \<Rightarrow> ''daily'' | Weekly \<Rightarrow> ''weekly'')"

record ExecutionRuleInput =
  in_name :: string
  in_description :: "string option"
  in_isActive :: "bool option"
  in_priority :: "int option"
  in_acceptedTriggers :: "string list option"
  in_topicCondition :: string
  in_executionSteps :: "jsval list"
  in_outputConfig :: jsval
  in_activationMode :: "ActivationMode option"
  in_scheduleEnabled :: "bool option"
  in_scheduleInterval :: "ScheduleInterval option"

text \<open>\<open>Partial<ExecutionRuleInput>\<close>: every field may be absent.\<close>

record ExecutionRuleUpdate =
  upd_name :: "string option"
  upd_description :: "string option"
  upd_isActive :: "bool option"
  upd_priority :: "int option"
  upd_acceptedTriggers :: "string list option"
  upd_topicCondition :: "string option"
  upd_executionSteps :: "jsval list option"
  upd_outputConfig :: "jsval option"
  upd_activationMode :: "ActivationMode option"
  upd_scheduleEnabled :: "bool option"
  upd_scheduleInterval :: "ScheduleInterval option"

subsection \<open>Queries\<close>

text \<open>
  \<open>ORDER BY x DESC\<close> and \<open>ORDER BY x ASC\<close> as sort keys: PostgreSQL puts \<open>NULL\<close> first
  when descending and last when ascending. SQL leaves the order of rows that are equal in
  the keys of the query to the engine, and it can differ from one execution to the next.
  \<open>tie\<close> is the engine's choice at this execution: the rank it gives each row (where the
  row lies in the heap or in the index it scans). Rows equal in the keys of the query come
  out by that rank, so that of two different such rows either can come first.
\<close>

type_synonym tieOrder = "RuleRow \<Rightarrow> nat"

definition descKey :: "int option \<Rightarrow> int \<times> int" where
  "descKey v = (case v of None \<Rightarrow> (0, 0) | Some n \<Rightarrow> (1, - n))"

definition ascKey :: "int option \<Rightarrow> int \<times> int" where
  "ascKey v = (case v of None \<Rightarrow> (1, 0) | Some n \<Rightarrow> (0, n))"

text \<open>\<open>SELECT * FROM rule WHERE userId = $1 ORDER BY priority DESC, updatedAt DESC\<close>\<close>

definition select_byUserId :: "tieOrder \<Rightarrow> 'a db_scheme \<Rightarrow> string \<Rightarrow> RuleRow list" where
  "select_byUserId tie d uid =
     sort_key (\<lambda>r. ((descKey (c_priority r), descKey (c_updatedAt r)), tie r))
       (filter (\<lambda>r. c_userId r = Some uid) (ruleTable d))"

definition rules_getByUserId ::
    "bool \<Rightarrow> tieOrder \<Rightarrow> 'a db_scheme \<Rightarrow> string \<Rightarrow> ExecutionRule list" where
  "rules_getByUserId isSupabase tie d uid =
     map (\<lambda>r. mapRuleRow (ruleRowObject isSupabase r)) (select_byUserId tie d uid)"

text \<open>\<open>SELECT * FROM rule WHERE userId = $1 AND isActive = true ORDER BY priority DESC\<close>\<close>

definition select_activeByUserId :: "tieOrder \<Rightarrow> 'a db_scheme \<Rightarrow> string \<Rightarrow> RuleRow list" where
  "select_activeByUserId tie d uid =
     sort_key (\<lambda>r. (descKey (c_priority r), tie r))
       (filter (\<lambda>r. c_userId r = Some uid \<and> c_isActive r = Some True) (ruleTable d))"

definition rules_getActiveByUserId ::
    "bool \<Rightarrow> tieOrder \<Rightarrow> 'a db_scheme \<Rightarrow> string \<Rightarrow> ExecutionRule list" where
  "rules_getActiveByUserId isSupabase tie d uid =
     map (\<lambda>r. mapRuleRow (ruleRowObject isSupabase r)) (select_activeByUserId tie d uid)"

text \<open>
  \<open>SELECT * FROM rule WHERE id = $1\<close>, first row or \<open>undefined\<close>. The key \<open>id\<close> is
  unique, so there is at most one row to return.
\<close>

definition rules_get :: "bool \<Rightarrow> 'a db_scheme \<Rightarrow> string \<Rightarrow> ExecutionRule option" where
  "rules_get isSupabase d rid =
     (case filter (\<lambda>r. c_id r = rid) (ruleTable d) of
        [] \<Rightarrow> None
      | r # rest \<Rightarrow> Some (mapRuleRow (ruleRowObject isSupabase r)))"

text \<open>\<open>SELECT * FROM rule WHERE id = $1 AND userId = $2\<close>, first row or \<open>undefined\<close>.\<close>

definition rules_getByIdAndUser ::
    "bool \<Rightarrow> 'a db_scheme \<Rightarrow> string \<Rightarrow> string \<Rightarrow> ExecutionRule option" where
  "rules_getByIdAndUser isSupabase d rid uid =
     (case filter (\<lambda>r. c_id r = rid \<and> c_userId r = Some uid) (ruleTable d) of
        [] \<Rightarrow> None
      | r # rest \<Rightarrow> Some (mapRuleRow (ruleRowObject isSupabase r)))"

text \<open>\<open>SELECT 1 FROM rule WHERE userId = $1 AND isActive = true LIMIT 1\<close>\<close>

definition rules_hasActiveRules :: "'a db_scheme \<Rightarrow> string \<Rightarrow> bool" where
  "rules_hasActiveRules d uid =
     (filter (\<lambda>r. c_userId r = Some uid \<and> c_isActive r = Some True) (ruleTable d) \<noteq> [])"

text \<open>
  The rules a user may invoke by hand, \<open>ORDER BY priority DESC, name ASC\<close>. Names are
  compared as sequences of characters (the collation of the database is not modelled).
\<close>

definition nameKey :: "string option \<Rightarrow> int \<times> string" where
  "nameKey v = (case v of None \<Rightarrow> (1, []) | Some s \<Rightarrow> (0, s))"

definition select_manualRules :: "tieOrder \<Rightarrow> 'a db_scheme \<Rightarrow> string \<Rightarrow> RuleRow list" where
  "select_manualRules tie d uid =
     sort_key (\<lambda>r. ((descKey (c_priority r), nameKey (c_name r)), tie r))
       (filter (\<lambda>r. c_userId r = Some uid \<and> c_isActive r = Some True
                  \<and> (c_activationMode r = Some ''manual'' \<or> c_activationMode r = Some ''all''))
          (ruleTable d))"

definition rules_getManualRules ::
    "bool \<Rightarrow> tieOrder \<Rightarrow> 'a db_scheme \<Rightarrow> string \<Rightarrow> ExecutionRule list" where
  "rules_getManualRules isSupabase tie d uid =
     map (\<lambda>r. mapRuleRow (ruleRowObject isSupabase r)) (select_manualRules tie d uid)"

text \<open>The rules due at the database's \<open>NOW()\<close>, by \<open>scheduleNextRun\<close> ascending.\<close>

definition select_scheduledRulesDue :: "tieOrder \<Rightarrow> int \<Rightarrow> 'a db_scheme \<Rightarrow> RuleRow list" where
  "select_scheduledRulesDue tie dbNow d =
     sort_key (\<lambda>r. (ascKey (c_scheduleNextRun r), tie r))
       (filter (\<lambda>r. c_scheduleEnabled r = Some True
                  \<and> (case c_scheduleNextRun r of None \<Rightarrow> False | Some t \<Rightarrow> t \<le> dbNow)
                  \<and> c_isActive r = Some True
                  \<and> (c_activationMode r = Some ''scheduled'' \<or> c_activationMode r = Some ''all''))
          (ruleTable d))"

definition rules_getScheduledRulesDue ::
    "bool \<Rightarrow> tieOrder \<Rightarrow> int \<Rightarrow> 'a db_scheme \<Rightarrow> ExecutionRule list" where
  "rules_getScheduledRulesDue isSupabase tie dbNow d =
     map (\<lambda>r. mapRuleRow (ruleRowObject isSupabase r)) (select_scheduledRulesDue tie dbNow d)"

subsection \<open>create\<close>

text \<open>
  \<open>clock\<close> is the reading of \<open>new Date()\<close> in the server, \<open>dbNow\<close> the database's
  \<open>NOW()\<close>, \<open>newId\<close> the identifier \<open>generateId\<close> draws. The key \<open>id\<close> is unique, as in
  the log table's DDL: inserting a second row with a key fails. A Date parameter that is an
  Invalid Date has no timestamp text, and the statement fails.
\<close>

text \<open>The row of the \<open>INSERT\<close> statement: its columns and the values bound to them.\<close>

definition insertedRule ::
    "string \<Rightarrow> string \<Rightarrow> ExecutionRuleInput \<Rightarrow> int \<Rightarrow> int option \<Rightarrow> RuleRow" where
  "insertedRule newId uid input dbNow nextRun =
     \<lparr> c_id = newId,
       c_userId = Some uid,
       c_name = Some (in_name input),
       c_description =
         (case in_description input of
            None \<Rightarrow> None
          | Some s \<Rightarrow> if s = [] then None else Some s),
       c_isActive = Some (case in_isActive input of None \<Rightarrow> True | Some b \<Rightarrow> b),
       c_priority = Some (case in_priority input of None \<Rightarrow> 0 | Some p \<Rightarrow> p),
       c_acceptedTriggers =
         Some (JArr (map JStr (case in_acceptedTriggers input of None \<Rightarrow> [] | Some ts \<Rightarrow> ts))),
       c_topicCondition = Some (in_topicCondition input),
       c_executionSteps = Some (JArr (in_executionSteps input)),
       c_outputConfig = Some (in_outputConfig input),
       c_executionCount = Some 0,
       c_lastExecutedAt = None,
       c_createdAt = Some dbNow,
       c_updatedAt = Some dbNow,
       c_activationMode =
         Some (case in_activationMode input of
                 None \<Rightarrow> ''trigger'' | Some m \<Rightarrow> activationModeText m),
       c_scheduleEnabled = Some (case in_scheduleEnabled input of None \<Rightarrow> False | Some b \<Rightarrow> b),
       c_scheduleInterval = map_option intervalText (in_scheduleInterval input),
       c_scheduleLastRun = None,
       c_scheduleNextRun = nextRun \<rparr>"

text \<open>
  \<open>scheduleNextRun\<close> below is \<open>None\<close> for \<open>null\<close> and \<open>Some\<close> of what
  \<open>calculateNextRunTime\<close> returns otherwise.
\<close>

definition rules_create ::
    "tzinfo \<Rightarrow> int \<Rightarrow> int \<Rightarrow> string \<Rightarrow> bool \<Rightarrow> 'a db_scheme \<Rightarrow> string \<Rightarrow> ExecutionRuleInput
       \<Rightarrow> storage_error + (ExecutionRule \<times> 'a db_scheme)" where
  "rules_create tz clock dbNow newId isSupabase d uid input =
     (let scheduleNextRun =
            (case in_scheduleInterval input of
               None \<Rightarrow> None
             | Some i \<Rightarrow>
                 if in_scheduleEnabled input = Some True
                 then Some (calculateNextRunTime tz clock i None)
                 else None)
      in if scheduleNextRun = Some None then Inl InvalidTimestamp
         else if newId \<in> set (map c_id (ruleTable d)) then Inl UniqueViolation
         else
             let d' = d\<lparr>ruleTable := ruleTable d
                          @ [insertedRule newId uid input dbNow
                               (case scheduleNextRun of None \<Rightarrow> None | Some t \<Rightarrow> t)]\<rparr>
             in case rules_get isSupabase d' newId of
                  None \<Rightarrow> Inl (Thrown ''Failed to create execution rule'')
                | Some created \<Rightarrow> Inr (created, d'))"

subsection \<open>update\<close>

text \<open>One \<open>column = $n\<close> clause of the \<open>UPDATE\<close> statement with its parameter.\<close>

datatype assignment =
    SetName string
  | SetDescription string
  | SetIsActive bool
  | SetPriority int
  | SetAcceptedTriggers jsval
  | SetTopicCondition string
  | SetExecutionSteps jsval
  | SetOutputConfig jsval
  | SetActivationMode string
  | SetScheduleEnabled bool
  | SetScheduleInterval string
  | SetScheduleNextRun "int option"

definition setClauses :: "tzinfo \<Rightarrow> int \<Rightarrow> ExecutionRuleUpdate \<Rightarrow> assignment list" where
  "setClauses tz clock input =
     (case upd_name input of None \<Rightarrow> [] | Some v \<Rightarrow> [SetName v])
     @ (case upd_description input of None \<Rightarrow> [] | Some v \<Rightarrow> [SetDescription v])
     @ (case upd_isActive input of None \<Rightarrow> [] | Some v \<Rightarrow> [SetIsActive v])
     @ (case upd_priority input of None \<Rightarrow> [] | Some v \<Rightarrow> [SetPriority v])
     @ (case upd_acceptedTriggers input of None \<Rightarrow> []
        | Some v \<Rightarrow> [SetAcceptedTriggers (JArr (map JStr v))])
     @ (case upd_topicCondition input of None \<Rightarrow> [] | Some v \<Rightarrow> [SetTopicCondition v])
     @ (case upd_executionSteps input of None \<Rightarrow> [] | Some v \<Rightarrow> [SetExecutionSteps (JArr v)])
     @ (case upd_outputConfig input of None \<Rightarrow> [] | Some v \<Rightarrow> [SetOutputConfig v])
     @ (case upd_activationMode input of None \<Rightarrow> []
        | Some v \<Rightarrow> [SetActivationMode (activationModeText v)])
     @ (case upd_scheduleEnabled input of None \<Rightarrow> [] | Some v \<Rightarrow> [SetScheduleEnabled v])
     @ (case upd_scheduleInterval input of None \<Rightarrow> []
        | Some v \<Rightarrow>
            SetScheduleInterval (intervalText v)
            # (if upd_scheduleEnabled input \<noteq> Some False
               then [SetScheduleNextRun (calculateNextRunTime tz clock v None)]
               else []))"

fun applyAssignment :: "assignment \<Rightarrow> RuleRow \<Rightarrow> RuleRow" where
  "applyAssignment (SetName v) r = r\<lparr>c_name := Some v\<rparr>"
| "applyAssignment (SetDescription v) r = r\<lparr>c_description := Some v\<rparr>"
| "applyAssignment (SetIsActive v) r = r\<lparr>c_isActive := Some v\<rparr>"
| "applyAssignment (SetPriority v) r = r\<lparr>c_priority := Some v\<rparr>"
| "applyAssignment (SetAcceptedTriggers v) r = r\<lparr>c_acceptedTriggers := Some v\<rparr>"
| "applyAssignment (SetTopicCondition v) r = r\<lparr>c_topicCondition := Some v\<rparr>"
| "applyAssignment (SetExecutionSteps v) r = r\<lparr>c_executionSteps := Some v\<rparr>"
| "applyAssignment (SetOutputConfig v) r = r\<lparr>c_outputConfig := Some v\<rparr>"
| "applyAssignment (SetActivationMode v) r = r\<lparr>c_activationMode := Some v\<rparr>"
| "applyAssignment (SetScheduleEnabled v) r = r\<lparr>c_scheduleEnabled := Some v\<rparr>"
| "applyAssignment (SetScheduleInterval v) r = r\<lparr>c_scheduleInterval := Some v\<rparr>"
| "applyAssignment (SetScheduleNextRun v) r = r\<lparr>c_scheduleNextRun := v\<rparr>"

definition rules_update ::
    "tzinfo \<Rightarrow> int \<Rightarrow> bool \<Rightarrow> 'a db_scheme \<Rightarrow> string \<Rightarrow> ExecutionRuleUpdate
       \<Rightarrow> storage_error + (ExecutionRule option \<times> 'a db_scheme)" where
  "rules_update tz clock isSupabase d rid input =
     (let cs = setClauses tz clock input
      in if cs = [] then Inr (rules_get isSupabase d rid, d)
         else if SetScheduleNextRun None \<in> set cs then Inl InvalidTimestamp
         else
           let d' = d\<lparr>ruleTable := map (\<lambda>r. if c_id r = rid then fold applyAssignment cs r else r)
                                    (ruleTable d)\<rparr>
           in Inr (rules_get isSupabase d' rid, d'))"

subsection \<open>delete, incrementExecutionCount, updateScheduleRun\<close>

definition rules_delete :: "'a db_scheme \<Rightarrow> string \<Rightarrow> bool \<times> 'a db_scheme" where
  "rules_delete d rid =
     (filter (\<lambda>r. c_id r = rid) (ruleTable d) \<noteq> [],
      d\<lparr>ruleTable := filter (\<lambda>r. c_id r \<noteq> rid) (ruleTable d)\<rparr>)"

definition rules_incrementExecutionCount :: "int \<Rightarrow> 'a db_scheme \<Rightarrow> string \<Rightarrow> 'a db_scheme" where
  "rules_incrementExecutionCount dbNow d rid =
     d\<lparr>ruleTable := map (\<lambda>r. if c_id r = rid
                           then r\<lparr>c_executionCount := map_option (\<lambda>n. n + 1) (c_executionCount r),
                                  c_lastExecutedAt := Some dbNow\<rparr>
                           else r) (ruleTable d)\<rparr>"

definition rules_updateScheduleRun ::
    "tzinfo \<Rightarrow> int \<Rightarrow> int \<Rightarrow> 'a db_scheme \<Rightarrow> string \<Rightarrow> ScheduleInterval
       \<Rightarrow> storage_error + 'a db_scheme" where
  "rules_updateScheduleRun tz clock dbNow d rid interval =
     (case calculateNextRunTime tz clock interval None of
        None \<Rightarrow> Inl InvalidTimestamp
      | Some nextRun \<Rightarrow>
          Inr (d\<lparr>ruleTable := map (\<lambda>r. if c_id r = rid
                                    then r\<lparr>c_scheduleLastRun := Some dbNow,
                                           c_scheduleNextRun := Some nextRun,
                                           c_executionCount :=
                                             map_option (\<lambda>n. n + 1) (c_executionCount r),
                                           c_lastExecutedAt := Some dbNow\<rparr>
                                    else r) (ruleTable d)\<rparr>))"

section \<open>Execution log storage\<close>

record ExecutionLogEntry =
  e_id :: jsval
  e_ruleId :: jsval
  e_ruleName :: jsval
  e_userId :: jsval
  e_triggerSlug :: jsval
  e_status :: jsval
  e_stepsJson :: jsval
  e_outputText :: jsval
  e_errorText :: jsval
  e_durationMs :: jsval
  e_createdAt :: string

definition mapLogRow :: "jsobject \<Rightarrow> ExecutionLogEntry" where
  "mapLogRow row =
     (let ruleId = js_or (getProp row ''ruleId'') (getProp row ''rule_id'');
          ruleName = js_or (getProp row ''ruleName'') (getProp row ''rule_name'');
          userId = js_or (getProp row ''userId'') (getProp row ''user_id'');
          triggerSlug = js_or (getProp row ''triggerSlug'') (getProp row ''trigger_slug'');
          stepsJson = js_or (getProp row ''stepsJson'') (getProp row ''steps_json'');
          outputText = js_or (getProp row ''outputText'') (getProp row ''output_text'');
          errorText = js_or (getProp row ''errorText'') (getProp row ''error_text'');
          durationMs = js_nullish (getProp row ''durationMs'') (getProp row ''duration_ms'');
          createdAt = js_or (getProp row ''createdAt'') (getProp row ''created_at'')
      in \<lparr> e_id = getProp row ''id'',
           e_ruleId = ruleId,
           e_ruleName = ruleName,
           e_userId = userId,
           e_triggerSlug = triggerSlug,
           e_status = getProp row ''status'',
           e_stepsJson = js_or stepsJson (JArr []),
           e_outputText = js_or outputText Undefined,
           e_errorText = js_or errorText Undefined,
           e_durationMs = js_or durationMs Undefined,
           e_createdAt = isoOrString createdAt \<rparr>)"

text \<open>The entry to log: an \<open>ExecutionLogEntry\<close> without \<open>id\<close> and \<open>createdAt\<close>.\<close>

record LogInput =
  li_ruleId :: string
  li_ruleName :: string
  li_userId :: string
  li_triggerSlug :: string
  li_status :: LogStatus
  li_stepsJson :: "jsval list option"
  li_outputText :: "string option"
  li_errorText :: "string option"
  li_durationMs :: "int option"

definition insertedLog :: "string \<Rightarrow> LogInput \<Rightarrow> int \<Rightarrow> LogRow" where
  "insertedLog newId entry dbNow =
     \<lparr> l_id = newId,
       l_ruleId = li_ruleId entry,
       l_ruleName = li_ruleName entry,
       l_userId = li_userId entry,
       l_triggerSlug = li_triggerSlug entry,
       l_status = li_status entry,
       l_stepsJson = Some (JArr (case li_stepsJson entry of None \<Rightarrow> [] | Some xs \<Rightarrow> xs)),
       l_outputText =
         (case li_outputText entry of None \<Rightarrow> None | Some s \<Rightarrow> if s = [] then None else Some s),
       l_errorText =
         (case li_errorText entry of None \<Rightarrow> None | Some s \<Rightarrow> if s = [] then None else Some s),
       l_durationMs =
         (case li_durationMs entry of None \<Rightarrow> None | Some n \<Rightarrow> if n = 0 then None else Some n),
       l_createdAt = dbNow \<rparr>"

definition log_create ::
    "int \<Rightarrow> string \<Rightarrow> bool \<Rightarrow> 'a db_scheme \<Rightarrow> LogInput
       \<Rightarrow> storage_error + (ExecutionLogEntry \<times> 'a db_scheme)" where
  "log_create dbNow newId isSupabase d entry =
     (if newId \<in> set (map l_id (logTable d)) then Inl UniqueViolation
      else
        let d' = d\<lparr>logTable := logTable d @ [insertedLog newId entry dbNow]\<rparr>
        in case filter (\<lambda>r. l_id r = newId) (logTable d') of
             [] \<Rightarrow> Inl (Thrown ''TypeError'')
           | r # rest \<Rightarrow> Inr (mapLogRow (logRowObject isSupabase r), d'))"

subsection \<open>Statistics\<close>

text \<open>
  A JavaScript Number is an IEEE 754 binary64 value; a finite one is kept here as the
  rational it denotes. \<open>toDouble x\<close> is the Number value for \<open>x\<close> (ECMAScript 6.1.6.1):
  the binary64 value nearest to \<open>x\<close>, the one with the even significand when two are
  equally near. \<open>binade x\<close> is the exponent \<open>e\<close> with \<open>2^e \<le> |x| < 2^(e+1)\<close>; the
  values near \<open>x\<close> are the multiples of \<open>2^(e-52)\<close>, and below \<open>2^(-1022)\<close> those of
  \<open>2^(-1074)\<close>. The numbers rounded here are counts, which PostgreSQL holds in a
  \<open>bigint\<close>, their quotient and a percentage: all are below \<open>2^1024\<close>, where the Number
  value would be an infinity, and \<open>toDouble\<close> has no case for it. None is negative, and the
  sign of a zero is not kept.
\<close>

definition binade :: "rat \<Rightarrow> int" where
  "binade x =
     (case quotient_of \<bar>x\<bar> of
        (p, q) \<Rightarrow> let e = bitlen p - bitlen q in if 2 powi e \<le> \<bar>x\<bar> then e else e - 1)"

definition roundTiesToEven :: "rat \<Rightarrow> int" where
  "roundTiesToEven x =
     (let n = \<lfloor>x\<rfloor>; r = x - of_int n
      in if r < 1 / 2 then n else if 1 / 2 < r then n + 1 else if even n then n else n + 1)"

definition toDouble :: "rat \<Rightarrow> rat" where
  "toDouble x =
     (if x = 0 then 0
      else let u = 2 powi (max (binade x) (- 1022) - 52)
           in of_int (roundTiesToEven (x / u)) * u)"

text \<open>
  The aggregate row of \<open>SELECT COUNT(*), COUNT(*) FILTER (WHERE status = 'success'),
  AVG(durationMs)\<close> over the rows in scope. \<open>AVG\<close> skips \<open>NULL\<close> and is \<open>NULL\<close> when no
  row has a value. The driver hands the counts and the average over as decimal text. The
  row keeps each count as the integer its text spells, and \<open>parseInt\<close> makes a Number of
  it. PostgreSQL computes the average of an \<open>INTEGER\<close> column exactly, as a \<open>numeric\<close>,
  and prints sixteen or more significant digits of it; \<open>parseFloat\<close> of that text is within
  one part in \<open>10^15\<close> of the average, which moves the result of \<open>Math.round\<close> only for
  an average that close to a half-integer without being one. The row keeps the exact
  average, and \<open>Math.round\<close> is applied to it.
\<close>

record StatsRow =
  total_runs :: int
  success_count :: int
  avg_duration_ms :: "rat option"

definition sqlAvg :: "int option list \<Rightarrow> rat option" where
  "sqlAvg xs =
     (let vs = concat (map (\<lambda>x. case x of None \<Rightarrow> [] | Some v \<Rightarrow> [v]) xs)
      in if vs = [] then None else Some (of_int (sum_list vs) / of_int (int (length vs))))"

definition select_stats :: "(LogRow \<Rightarrow> bool) \<Rightarrow> 'a db_scheme \<Rightarrow> StatsRow" where
  "select_stats scope d =
     (let rows = filter scope (logTable d)
      in \<lparr> total_runs = int (length rows),
           success_count = int (length (filter (\<lambda>r. l_status r = Success) rows)),
           avg_duration_ms = sqlAvg (map l_durationMs rows) \<rparr>)"

text \<open>
  \<open>parseInt(text, 10)\<close> of the decimal text of an integer. A JavaScript quotient and
  product are the Number values for the exact quotient and product; dividing by zero gives
  \<open>NaN\<close> or an infinity, which is \<open>None\<close> here. \<open>Math.round\<close> rounds to the nearest
  integer, halves upwards.
\<close>

definition parseInt :: "int \<Rightarrow> rat" where
  "parseInt n = toDouble (of_int n)"

definition jsDivide :: "rat \<Rightarrow> rat \<Rightarrow> rat option" where
  "jsDivide a b = (if b = 0 then None else Some (toDouble (a / b)))"

definition jsTimes :: "rat \<Rightarrow> rat \<Rightarrow> rat" where
  "jsTimes a b = toDouble (a * b)"

definition mathRound :: "rat \<Rightarrow> int" where
  "mathRound x = \<lfloor>x + 1 / 2\<rfloor>"

text \<open>
  The statistics \<open>getStats\<close> and \<open>getStatsByRuleId\<close> build from the aggregate row:
  \<open>totalRuns\<close> and \<open>successRate\<close> are Numbers (\<open>successRate\<close> is \<open>None\<close> when it is not
  finite), \<open>avgDurationMs\<close> is the integer \<open>Math.round\<close> returns.
\<close>

record ExecutionLogStats =
  totalRuns :: rat
  successRate :: "rat option"
  avgDurationMs :: int

definition statsOfRow :: "StatsRow \<Rightarrow> ExecutionLogStats" where
  "statsOfRow row =
     (let totalRuns =
            (if parseInt (total_runs row) \<noteq> 0 then parseInt (total_runs row) else 0);
          successCount =
            (if parseInt (success_count row) \<noteq> 0 then parseInt (success_count row) else 0)
      in \<lparr> totalRuns = totalRuns,
           successRate =
             (if totalRuns > 0
              then map_option (\<lambda>q. jsTimes q 100) (jsDivide successCount totalRuns)
              else Some 0),
           avgDurationMs =
             (case avg_duration_ms row of None \<Rightarrow> 0 | Some a \<Rightarrow> mathRound a) \<rparr>)"

definition log_getStats :: "'a db_scheme \<Rightarrow> string \<Rightarrow> ExecutionLogStats" where
  "log_getStats d uid = statsOfRow (select_stats (\<lambda>r. l_userId r = uid) d)"

definition log_getStatsByRuleId :: "'a db_scheme \<Rightarrow> string \<Rightarrow> ExecutionLogStats" where
  "log_getStatsByRuleId d rid = statsOfRow (select_stats (\<lambda>r. l_ruleId r = rid) d)"

section \<open>The manual invocation route\<close>

text \<open>
  \<open>POST /api/automations/invoke\<close>. The session is \<open>None\<close> when nobody is signed in; the
  body is \<open>None\<close> when it is not JSON (reading it throws, and the handler answers 500).
  \<open>processManual\<close> of the trigger processing service is not among the sources and is a
  parameter: it runs the rule's steps and writes the log, so it takes the state and returns
  the state it leaves, with its result or what it threw.
\<close>

record Session =
  session_userId :: string

record InvokeRequest =
  req_ruleId :: jsval
  req_context :: "string option"
  req_conversationHistory :: "jsval option"

record ProcessResult =
  res_success :: jsval
  res_output :: jsval
  res_error :: jsval

record Response =
  status :: nat
  body :: jsval

definition errorResponse :: "nat \<Rightarrow> string \<Rightarrow> Response" where
  "errorResponse code msg = \<lparr> status = code, body = JObj [(''error'', JStr msg)] \<rparr>"

fun isString :: "jsval \<Rightarrow> bool" where
  "isString (JStr s) = True"
| "isString v = False"

fun stringOf :: "jsval \<Rightarrow> string" where
  "stringOf (JStr s) = s"
| "stringOf v = jsString v"

definition POST ::
    "bool \<Rightarrow> int
      \<Rightarrow> (string \<Rightarrow> ExecutionRule \<Rightarrow> string \<Rightarrow> jsval option \<Rightarrow> 'a db_scheme
            \<Rightarrow> (storage_error + ProcessResult) \<times> 'a db_scheme)
      \<Rightarrow> Session option \<Rightarrow> InvokeRequest option \<Rightarrow> 'a db_scheme
      \<Rightarrow> Response \<times> 'a db_scheme" where
  "POST isSupabase clock processManual session request d =
     (case session of
        None \<Rightarrow> (errorResponse 401 ''Unauthorized'', d)
      | Some s \<Rightarrow>
          (case request of
             None \<Rightarrow> (errorResponse 500 ''Failed to invoke execution rule'', d)
           | Some b \<Rightarrow>
               if \<not> truthy (req_ruleId b) \<or> \<not> isString (req_ruleId b)
               then (errorResponse 400 ''Rule ID is required'', d)
               else
                 (case rules_getByIdAndUser isSupabase d (stringOf (req_ruleId b)) (session_userId s) of
                    None \<Rightarrow> (errorResponse 404 ''Rule not found'', d)
                  | Some rule \<Rightarrow>
                      if \<not> isActive rule
                      then (errorResponse 400 ''Rule is not active'', d)
                      else if activationMode rule \<noteq> JStr ''manual''
                              \<and> activationMode rule \<noteq> JStr ''all''
                      then (errorResponse 400 ''Rule does not support manual invocation'', d)
                      else
                        (case processManual (session_userId s) rule
                                (case req_context b of None \<Rightarrow> [] | Some c \<Rightarrow> c)
                                (req_conversationHistory b) d of
                           (Inl e, d') \<Rightarrow> (errorResponse 500 ''Failed to invoke execution rule'', d')
                         | (Inr result, d') \<Rightarrow>
                             (\<lparr> status = 200,
                                 body = JObj [(''success'', JBool True),
                                              (''result'',
                                               JObj [(''success'', res_success result),
                                                     (''ruleId'', id' rule),
                                                     (''ruleName'', name rule),
                                                     (''output'', res_output result),
                                                     (''error'', res_error result),
                                                     (''executedAt'', JStr (toISOString clock))])] \<rparr>,
                              d')))))"

section \<open>Example data\<close>

definition ex_emptyDb :: db where
  "ex_emptyDb = \<lparr> ruleTable = [], logTable = [] \<rparr>"

definition ex_dailyInput :: ExecutionRuleInput where
  "ex_dailyInput =
     \<lparr> in_name = ''Daily digest'',
       in_description = None,
       in_isActive = Some True,
       in_priority = Some 10,
       in_acceptedTriggers = Some [''gmail_new_email''],
       in_topicCondition = ''When emails pile up'',
       in_executionSteps = [JStr ''Fetch unread emails''],
       in_outputConfig = JObj [(''platform'', JStr ''slack''), (''format'', JStr ''summary'')],
       in_activationMode = Some ModeScheduled,
       in_scheduleEnabled = Some True,
       in_scheduleInterval = Some Daily \<rparr>"

definition ex_rule1 :: RuleRow where
  "ex_rule1 =
     \<lparr> c_id = ''rule_1'',
       c_userId = Some ''u1'',
       c_name = Some ''Daily digest'',
       c_description = None,
       c_isActive = Some True,
       c_priority = Some 5,
       c_acceptedTriggers = Some (JArr [JStr ''gmail_new_email'']),
       c_topicCondition = Some ''When emails pile up'',
       c_executionSteps = Some (JArr [JStr ''Fetch unread emails'']),
       c_outputConfig = Some (JObj [(''platform'', JStr ''slack''), (''format'', JStr ''summary'')]),
       c_executionCount = Some 0,
       c_lastExecutedAt = None,
       c_createdAt = Some 1793361600000,
       c_updatedAt = Some 1793361600000,
       c_activationMode = Some ''scheduled'',
       c_scheduleEnabled = Some True,
       c_scheduleInterval = Some ''hourly'',
       c_scheduleLastRun = None,
       c_scheduleNextRun = Some 1793448000000 \<rparr>"

definition ex_rule2 :: RuleRow where
  "ex_rule2 =
     ex_rule1\<lparr> c_id := ''rule_2'', c_name := Some ''Manual helper'',
               c_updatedAt := Some 1793000000000, c_activationMode := Some ''manual'',
               c_scheduleEnabled := Some False, c_scheduleInterval := None,
               c_scheduleNextRun := None \<rparr>"

definition ex_rule3 :: RuleRow where
  "ex_rule3 =
     ex_rule2\<lparr> c_id := ''rule_3'', c_name := Some ''Triage'',
               c_updatedAt := Some 1793400000000, c_activationMode := Some ''trigger'' \<rparr>"

definition ex_db1 :: db where
  "ex_db1 = \<lparr> ruleTable = [ex_rule1], logTable = [] \<rparr>"

definition ex_db2 :: db where
  "ex_db2 = \<lparr> ruleTable = [ex_rule1, ex_rule2], logTable = [] \<rparr>"

definition ex_noFields :: ExecutionRuleUpdate where
  "ex_noFields =
     \<lparr> upd_name = None, upd_description = None, upd_isActive = None, upd_priority = None,
       upd_acceptedTriggers = None, upd_topicCondition = None, upd_executionSteps = None,
       upd_outputConfig = None, upd_activationMode = None, upd_scheduleEnabled = None,
       upd_scheduleInterval = None \<rparr>"

definition ex_renameOnly :: ExecutionRuleUpdate where
  "ex_renameOnly = ex_noFields\<lparr> upd_name := Some ''Morning digest'' \<rparr>"

definition ex_intervalOnly :: ExecutionRuleUpdate where
  "ex_intervalOnly = ex_noFields\<lparr> upd_scheduleInterval := Some Daily \<rparr>"

definition ex_enableOnly :: ExecutionRuleUpdate where
  "ex_enableOnly = ex_noFields\<lparr> upd_scheduleEnabled := Some True \<rparr>"

definition ex_enabledNoInterval :: ExecutionRuleInput where
  "ex_enabledNoInterval = ex_dailyInput\<lparr> in_scheduleInterval := None \<rparr>"

definition ex_disabledDaily :: ExecutionRuleInput where
  "ex_disabledDaily = ex_dailyInput\<lparr> in_scheduleEnabled := Some False \<rparr>"

text \<open>A row whose defaulted columns are all \<open>NULL\<close>.\<close>

definition ex_legacyRule :: RuleRow where
  "ex_legacyRule =
     ex_rule1\<lparr> c_id := ''rule_0'', c_isActive := None, c_priority := None,
               c_acceptedTriggers := None, c_executionSteps := None, c_outputConfig := None,
               c_executionCount := None, c_activationMode := None, c_scheduleEnabled := None \<rparr>"

definition ex_legacyDb :: db where
  "ex_legacyDb = \<lparr> ruleTable = [ex_legacyRule], logTable = [] \<rparr>"

definition ex_rule4 :: RuleRow where
  "ex_rule4 = ex_rule2\<lparr> c_id := ''rule_4'', c_userId := Some ''u2'', c_name := Some ''Weekly report'' \<rparr>"

definition ex_rule5 :: RuleRow where
  "ex_rule5 = ex_rule2\<lparr> c_id := ''rule_5'', c_name := Some ''Paused helper'',
                       c_isActive := Some False, c_priority := Some 9 \<rparr>"

text \<open>An active rule of user \<open>u1\<close> without a stored priority, beside \<open>rule_3\<close>.\<close>

definition ex_unranked :: RuleRow where
  "ex_unranked = ex_rule3\<lparr> c_id := ''rule_6'', c_name := Some ''Unranked'', c_priority := None \<rparr>"

definition ex_db4 :: db where
  "ex_db4 = \<lparr> ruleTable = [ex_rule3, ex_unranked], logTable = [] \<rparr>"

text \<open>
  Two choices an engine can make among rows of equal keys: the order of the table, and
  \<open>rule_3\<close> before the others.
\<close>

definition ex_tableOrder :: tieOrder where
  "ex_tableOrder r = 0"

definition ex_rule3First :: tieOrder where
  "ex_rule3First r = (if c_id r = ''rule_3'' then 0 else 1)"

definition ex_log1 :: LogRow where
  "ex_log1 =
     \<lparr> l_id = ''log_1'', l_ruleId = ''rule_1'', l_ruleName = ''Daily digest'', l_userId = ''u1'',
       l_triggerSlug = ''scheduled'', l_status = Success, l_stepsJson = Some (JArr []),
       l_outputText = Some ''12 emails summarised'', l_errorText = None,
       l_durationMs = Some 1, l_createdAt = 1793448000500 \<rparr>"

definition ex_log2 :: LogRow where
  "ex_log2 = ex_log1\<lparr> l_id := ''log_2'', l_durationMs := Some 2, l_createdAt := 1793451600500 \<rparr>"

definition ex_log3 :: LogRow where
  "ex_log3 = ex_log1\<lparr> l_id := ''log_3'', l_ruleId := ''rule_2'', l_ruleName := ''Manual helper'',
                     l_triggerSlug := ''manual'', l_status := Failure, l_outputText := None,
                     l_errorText := Some ''step 1 failed'', l_durationMs := None,
                     l_createdAt := 1793455200500 \<rparr>"

definition ex_db3 :: db where
  "ex_db3 = \<lparr> ruleTable = [ex_rule2, ex_rule3, ex_rule4, ex_rule5], logTable = [ex_log1, ex_log2, ex_log3] \<rparr>"

definition ex_session :: Session where
  "ex_session = \<lparr> session_userId = ''u1'' \<rparr>"

definition ex_invoke :: "string \<Rightarrow> InvokeRequest" where
  "ex_invoke rid = \<lparr> req_ruleId = JStr rid, req_context = Some ''summarise'',
                      req_conversationHistory = None \<rparr>"

text \<open>A stand-in for \<open>processManual\<close> that, when called, writes a log entry.\<close>

definition ex_processManual ::
    "string \<Rightarrow> ExecutionRule \<Rightarrow> string \<Rightarrow> jsval option \<Rightarrow> db
       \<Rightarrow> (storage_error + ProcessResult) \<times> db" where
  "ex_processManual uid rule ctx history d =
     (Inr \<lparr> res_success = JBool True, res_output = JStr ''done'', res_error = Undefined \<rparr>,
      d\<lparr>logTable := logTable d @ [ex_log3\<lparr> l_id := ''log_9'' \<rparr>]\<rparr>)"

definition ex_logEntry :: LogInput where
  "ex_logEntry =
     \<lparr> li_ruleId = ''rule_2'', li_ruleName = ''Manual helper'', li_userId = ''u1'',
       li_triggerSlug = ''manual'', li_status = Success, li_stepsJson = None,
       li_outputText = Some ''done'', li_errorText = None, li_durationMs = Some 40 \<rparr>"

section \<open>Properties of the time arithmetic\<close>

subsection \<open>YearFromTime is the largest year that starts on or before the day\<close>

lemma yearDown_le: "DayFromYear (yearDown d y) \<le> d"
proof (induction d y rule: yearDown.induct)
  case (1 d y)
  show ?case
  proof (cases "DayFromYear y \<le> d")
    case True
    then show ?thesis by (simp add: yearDown.simps [of d y])
  next
    case False
    with 1 show ?thesis by (simp add: yearDown.simps [of d y])
  qed
qed

lemma yearUp_bounds:
  "DayFromYear y \<le> d \<Longrightarrow> DayFromYear (yearUp d y) \<le> d \<and> d < DayFromYear (yearUp d y + 1)"
proof (induction d y rule: yearUp.induct)
  case (1 d y)
  show ?case
  proof (cases "d < DayFromYear (y + 1)")
    case True
    with "1.prems" show ?thesis by (simp add: yearUp.simps [of d y])
  next
    case False
    then have "DayFromYear (y + 1) \<le> d" by simp
    with 1 False show ?thesis by (simp add: yearUp.simps [of d y])
  qed
qed

lemma YearFromTime_bounds:
  "DayFromYear (YearFromTime t) \<le> Day t \<and> Day t < DayFromYear (YearFromTime t + 1)"
  unfolding YearFromTime_def Let_def by (rule yearUp_bounds) (rule yearDown_le)

lemma DayFromYear_mono: "y \<le> z \<Longrightarrow> DayFromYear y \<le> DayFromYear z"
proof -
  assume "y \<le> z"
  have "DayFromYear y \<le> DayFromYear (y + int n)" for n
  proof (induction n)
    case 0
    then show ?case by simp
  next
    case (Suc n)
    have "DayFromYear (y + int n) < DayFromYear (y + int n + 1)" by (rule DayFromYear_less_succ)
    moreover have "y + int (Suc n) = y + int n + 1" by simp
    ultimately show ?case using Suc by (simp only:)
  qed
  from this [of "nat (z - y)"] \<open>y \<le> z\<close> show ?thesis by simp
qed

lemma YearFromTime_largest:
  "DayFromYear y \<le> Day t \<Longrightarrow> y \<le> YearFromTime t"
proof (rule ccontr)
  assume a: "DayFromYear y \<le> Day t" and "\<not> y \<le> YearFromTime t"
  then have "YearFromTime t + 1 \<le> y" by simp
  then have "DayFromYear (YearFromTime t + 1) \<le> DayFromYear y" by (rule DayFromYear_mono)
  with a YearFromTime_bounds [of t] show False by simp
qed

subsection \<open>Adding to a field of the local time\<close>

lemma time_decomposition:
  "(t div 86400000) * 86400000 + ((t div 3600000) mod 24) * 3600000
     + ((t div 60000) mod 60) * 60000 + ((t div 1000) mod 60) * 1000 + t mod 1000 = (t::int)"
proof -
  have 1: "t div 60000 = (t div 1000) div 60" by (simp add: zdiv_zmult2_eq)
  have 2: "t div 3600000 = (t div 60000) div 60" by (simp add: zdiv_zmult2_eq)
  have 3: "t div 86400000 = (t div 3600000) div 24" by (simp add: zdiv_zmult2_eq)
  have a: "t = (t div 1000) * 1000 + t mod 1000" by simp
  have b: "t div 1000 = (t div 60000) * 60 + (t div 1000) mod 60" unfolding 1 by simp
  have c: "t div 60000 = (t div 3600000) * 60 + (t div 60000) mod 60" unfolding 2 by simp
  have d: "t div 3600000 = (t div 86400000) * 24 + (t div 3600000) mod 24" unfolding 3 by simp
  show ?thesis using a b c d by linarith
qed

lemma time_fields:
  "MakeDate (Day t) (MakeTime (HourFromTime t) (MinFromTime t) (SecFromTime t) (msFromTime t)) = t"
  unfolding MakeDate_def MakeTime_def Day_def HourFromTime_def MinFromTime_def
      SecFromTime_def msFromTime_def msPerDay_def msPerHour_def msPerMinute_def msPerSecond_def
  using time_decomposition [of t] by (simp only: add.assoc)

lemma MakeDate_MakeTime_minute:
  "MakeDate d (MakeTime h (m + k) s ms) = MakeDate d (MakeTime h m s ms) + k * msPerMinute"
  by (simp add: MakeDate_def MakeTime_def distrib_right)

lemma MakeDate_MakeTime_hour:
  "MakeDate d (MakeTime (h + k) m s ms) = MakeDate d (MakeTime h m s ms) + k * msPerHour"
  by (simp add: MakeDate_def MakeTime_def distrib_right)

lemma setMinutes_local:
  "MakeDate (Day t) (MakeTime (HourFromTime t) (MinFromTime t + k) (SecFromTime t) (msFromTime t))
     = t + k * msPerMinute"
  by (simp only: MakeDate_MakeTime_minute time_fields)

lemma setHours_local:
  "MakeDate (Day t) (MakeTime (HourFromTime t + k) (MinFromTime t) (SecFromTime t) (msFromTime t))
     = t + k * msPerHour"
  by (simp only: MakeDate_MakeTime_hour time_fields)

lemma MonthFromTime_range: "0 \<le> MonthFromTime t \<and> MonthFromTime t < 12"
  by (simp add: MonthFromTime_def Let_def)

lemma monthStart_DateFromTime:
  "monthStart (MonthFromTime t) (InLeapYear t) + DateFromTime t - 1 = DayWithinYear t"
  by (simp add: monthStart_def DateFromTime_def Let_def)

lemma MakeDay_same_month:
  "MakeDay (YearFromTime t) (MonthFromTime t) (DateFromTime t + k) = Day t + k"
proof -
  have m: "MonthFromTime t div 12 = 0" "MonthFromTime t mod 12 = MonthFromTime t"
    using MonthFromTime_range [of t] by simp_all
  have "MakeDay (YearFromTime t) (MonthFromTime t) (DateFromTime t + k)
          = DayFromYear (YearFromTime t)
            + (monthStart (MonthFromTime t) (InLeapYear t) + DateFromTime t - 1) + k"
    by (simp add: MakeDay_def m InLeapYear_def Let_def)
  also have "\<dots> = Day t + k"
    by (simp only: monthStart_DateFromTime) (simp add: DayWithinYear_def)
  finally show ?thesis .
qed

lemma setDate_local:
  "MakeDate (MakeDay (YearFromTime t) (MonthFromTime t) (DateFromTime t + k)) (TimeWithinDay t)
     = t + k * msPerDay"
  unfolding MakeDay_same_month
  by (simp add: MakeDate_def Day_def TimeWithinDay_def algebra_simps)

lemma TimeClip_in_range: "\<bar>v\<bar> \<le> 8640000000000000 \<Longrightarrow> TimeClip v = Some v"
  by (simp add: TimeClip_def)

lemma setMinutes_fixed_offset:
  assumes "\<forall>t u. tz t u = offset"
  shows "setMinutes tz t (getMinutes tz t + k) = TimeClip (t + k * msPerMinute)"
  using assms by (simp add: setMinutes_def getMinutes_def Let_def setMinutes_local LocalTime_def UTC_def)

lemma setHours_fixed_offset:
  assumes "\<forall>t u. tz t u = offset"
  shows "setHours tz t (getHours tz t + k) = TimeClip (t + k * msPerHour)"
  using assms by (simp add: setHours_def getHours_def Let_def setHours_local LocalTime_def UTC_def)

lemma setDate_fixed_offset:
  assumes "\<forall>t u. tz t u = offset"
  shows "setDate tz t (getDate tz t + k) = TimeClip (t + k * msPerDay)"
  using assms by (simp add: setDate_def getDate_def Let_def setDate_local LocalTime_def UTC_def)

lemma calculateNextRunTime_fixed_offset:
  assumes "\<forall>t u. tz t u = offset"
  shows "calculateNextRunTime tz clock i fromDate =
           TimeClip ((case fromDate of Some d \<Rightarrow> d | None \<Rightarrow> clock)
                     + (case i of Every15min \<Rightarrow> 15 * msPerMinute | Hourly \<Rightarrow> msPerHour
                               | Daily \<Rightarrow> msPerDay | Weekly \<Rightarrow> 7 * msPerDay))"
  by (cases i)
     (simp_all add: calculateNextRunTime_def Let_def setMinutes_fixed_offset [OF assms]
        setHours_fixed_offset [OF assms] setDate_fixed_offset [OF assms])

subsection \<open>Rows read back through the row mapper\<close>

lemma row_scheduleNextRun:
  "js_or (getProp (ruleRowObject sb r) ''scheduleNextRun'') (getProp (ruleRowObject sb r) ''schedule_next_run'')
     = (case c_scheduleNextRun r of None \<Rightarrow> (if sb then Null else Undefined) | Some t \<Rightarrow> JDate t)"
  by (cases sb; simp add: ruleRowObject_def getProp_def colKey_def js_or_def jsTimestamp_def split: option.splits)

lemma row_isActive:
  "js_nullish (getProp (ruleRowObject sb r) ''isActive'') (getProp (ruleRowObject sb r) ''is_active'')
     = (case c_isActive r of None \<Rightarrow> (if sb then Null else Undefined) | Some b \<Rightarrow> JBool b)"
  by (cases sb; simp add: ruleRowObject_def getProp_def colKey_def js_nullish_def jsBoolean_def split: option.splits)

lemma row_scheduleEnabled:
  "js_nullish (getProp (ruleRowObject sb r) ''scheduleEnabled'') (getProp (ruleRowObject sb r) ''schedule_enabled'')
     = (case c_scheduleEnabled r of None \<Rightarrow> (if sb then Null else Undefined) | Some b \<Rightarrow> JBool b)"
  by (cases sb; simp add: ruleRowObject_def getProp_def colKey_def js_nullish_def jsBoolean_def split: option.splits)

lemma row_activationMode:
  "js_or (getProp (ruleRowObject sb r) ''activationMode'') (getProp (ruleRowObject sb r) ''activation_mode'')
     = (case c_activationMode r of None \<Rightarrow> (if sb then Null else Undefined)
        | Some s \<Rightarrow> if s = [] then (if sb then JStr [] else Undefined) else JStr s)"
  by (cases sb; simp add: ruleRowObject_def getProp_def colKey_def js_or_def jsText_def split: option.splits)

lemma row_id: "getProp (ruleRowObject sb r) ''id'' = JStr (c_id r)"
  by (simp add: ruleRowObject_def getProp_def)

lemma mapped_scheduleNextRun:
  "scheduleNextRun (mapRuleRow (ruleRowObject sb r))
     = (case c_scheduleNextRun r of None \<Rightarrow> (if sb then Null else Undefined)
        | Some t \<Rightarrow> JStr (toISOString t))"
  by (simp add: mapRuleRow_def Let_def row_scheduleNextRun isoIfDate_def split: option.splits)

lemma mapped_isActive:
  "isActive (mapRuleRow (ruleRowObject sb r)) = (c_isActive r = Some True)"
  by (simp add: mapRuleRow_def Let_def row_isActive Boolean_def split: option.splits)

lemma mapped_scheduleEnabled:
  "scheduleEnabled (mapRuleRow (ruleRowObject sb r)) = (c_scheduleEnabled r = Some True)"
  by (simp add: mapRuleRow_def Let_def row_scheduleEnabled Boolean_def split: option.splits)

lemma mapped_activationMode:
  "activationMode (mapRuleRow (ruleRowObject sb r))
     = (case c_activationMode r of None \<Rightarrow> JStr ''trigger''
        | Some s \<Rightarrow> if s = [] then JStr ''trigger'' else JStr s)"
  by (simp add: mapRuleRow_def Let_def row_activationMode) (simp add: js_or_def split: option.splits)

lemma mapped_id: "id' (mapRuleRow (ruleRowObject sb r)) = JStr (c_id r)"
  by (simp add: mapRuleRow_def Let_def row_id)

lemma mapped_priority:
  "priority (mapRuleRow (ruleRowObject sb r))
     = JNum (case c_priority r of None \<Rightarrow> 0 | Some p \<Rightarrow> p)"
  by (cases "c_priority r")
    (simp_all add: mapRuleRow_def Let_def ruleRowObject_def getProp_def colKey_def
      jsInteger_def js_or_def)

subsection \<open>create\<close>

lemma filter_fresh_snoc:
  "k \<notin> set (map f xs) \<Longrightarrow> f x = k \<Longrightarrow> filter (\<lambda>r. f r = k) (xs @ [x]) = [x]"
  by (induction xs) auto

lemma rules_create_Inr:
  assumes "rules_create tz clock dbNow newId sb d uid input = Inr (rule, d')"
  shows "\<exists>nextRun.
           (case in_scheduleInterval input of
              None \<Rightarrow> nextRun = None
            | Some i \<Rightarrow>
                if in_scheduleEnabled input = Some True
                then nextRun \<noteq> None \<and> calculateNextRunTime tz clock i None = nextRun
                else nextRun = None)
           \<and> d' = d\<lparr>ruleTable := ruleTable d @ [insertedRule newId uid input dbNow nextRun]\<rparr>
           \<and> rule = mapRuleRow (ruleRowObject sb (insertedRule newId uid input dbNow nextRun))
           \<and> newId \<notin> set (map c_id (ruleTable d))"
proof -
  define snr where "snr = (case in_scheduleInterval input of
               None \<Rightarrow> None
             | Some i \<Rightarrow>
                 if in_scheduleEnabled input = Some True
                 then Some (calculateNextRunTime tz clock i None)
                 else None)"
  define nextRun where "nextRun = (case snr of None \<Rightarrow> None | Some t \<Rightarrow> t)"
  from assms have ok: "snr \<noteq> Some None" and fresh: "newId \<notin> set (map c_id (ruleTable d))"
    by (simp_all add: rules_create_def Let_def snr_def [symmetric] split: if_splits)
  have id: "c_id (insertedRule newId uid input dbNow nextRun) = newId"
    by (simp add: insertedRule_def)
  have get: "rules_get sb (d\<lparr>ruleTable := ruleTable d @ [insertedRule newId uid input dbNow nextRun]\<rparr>) newId
      = Some (mapRuleRow (ruleRowObject sb (insertedRule newId uid input dbNow nextRun)))"
    using filter_fresh_snoc [OF fresh id] by (simp add: rules_get_def)
  from assms ok fresh
  have res: "d' = d\<lparr>ruleTable := ruleTable d @ [insertedRule newId uid input dbNow nextRun]\<rparr>"
            "rule = mapRuleRow (ruleRowObject sb (insertedRule newId uid input dbNow nextRun))"
    by (simp_all add: rules_create_def Let_def snr_def [symmetric] nextRun_def [symmetric] get)
  have nr: "(case in_scheduleInterval input of
              None \<Rightarrow> nextRun = None
            | Some i \<Rightarrow>
                if in_scheduleEnabled input = Some True
                then nextRun \<noteq> None \<and> calculateNextRunTime tz clock i None = nextRun
                else nextRun = None)"
    using ok by (auto simp: nextRun_def snr_def split: option.splits)
  from nr res fresh show ?thesis by blast
qed

lemma rules_create_succeeds:
  assumes "newId \<notin> set (map c_id (ruleTable d))"
      and "in_scheduleEnabled input = Some True \<longrightarrow>
             (\<forall>i. in_scheduleInterval input = Some i \<longrightarrow> calculateNextRunTime tz clock i None \<noteq> None)"
  shows "\<exists>rule d'. rules_create tz clock dbNow newId sb d uid input = Inr (rule, d')"
proof -
  define snr where "snr = (case in_scheduleInterval input of
               None \<Rightarrow> None
             | Some i \<Rightarrow>
                 if in_scheduleEnabled input = Some True
                 then Some (calculateNextRunTime tz clock i None)
                 else None)"
  define nextRun where "nextRun = (case snr of None \<Rightarrow> None | Some t \<Rightarrow> t)"
  have ok: "snr \<noteq> Some None"
    using assms(2) by (auto simp: snr_def split: option.splits)
  have id: "c_id (insertedRule newId uid input dbNow nextRun) = newId"
    by (simp add: insertedRule_def)
  have get: "rules_get sb (d\<lparr>ruleTable := ruleTable d @ [insertedRule newId uid input dbNow nextRun]\<rparr>) newId
      = Some (mapRuleRow (ruleRowObject sb (insertedRule newId uid input dbNow nextRun)))"
    using filter_fresh_snoc [OF assms(1) id] by (simp add: rules_get_def)
  show ?thesis
    using ok assms(1)
    by (simp add: rules_create_def Let_def snr_def [symmetric] nextRun_def [symmetric] get)
qed


subsection \<open>update\<close>

lemma mem_optional_clause:
  "a \<in> set (case v of None \<Rightarrow> [] | Some x \<Rightarrow> [f x]) \<longleftrightarrow> (\<exists>x. v = Some x \<and> a = f x)"
  by (cases v) auto

lemma mem_setClauses:
  "a \<in> set (setClauses tz clock input) \<longleftrightarrow>
     (\<exists>v. upd_name input = Some v \<and> a = SetName v)
   \<or> (\<exists>v. upd_description input = Some v \<and> a = SetDescription v)
   \<or> (\<exists>v. upd_isActive input = Some v \<and> a = SetIsActive v)
   \<or> (\<exists>v. upd_priority input = Some v \<and> a = SetPriority v)
   \<or> (\<exists>v. upd_acceptedTriggers input = Some v \<and> a = SetAcceptedTriggers (JArr (map JStr v)))
   \<or> (\<exists>v. upd_topicCondition input = Some v \<and> a = SetTopicCondition v)
   \<or> (\<exists>v. upd_executionSteps input = Some v \<and> a = SetExecutionSteps (JArr v))
   \<or> (\<exists>v. upd_outputConfig input = Some v \<and> a = SetOutputConfig v)
   \<or> (\<exists>v. upd_activationMode input = Some v \<and> a = SetActivationMode (activationModeText v))
   \<or> (\<exists>v. upd_scheduleEnabled input = Some v \<and> a = SetScheduleEnabled v)
   \<or> (\<exists>v. upd_scheduleInterval input = Some v
          \<and> (a = SetScheduleInterval (intervalText v)
               \<or> upd_scheduleEnabled input \<noteq> Some False
                  \<and> a = SetScheduleNextRun (calculateNextRunTime tz clock v None)))"
proof -
  have last: "a \<in> set (case upd_scheduleInterval input of None \<Rightarrow> []
        | Some v \<Rightarrow>
            SetScheduleInterval (intervalText v)
            # (if upd_scheduleEnabled input \<noteq> Some False
               then [SetScheduleNextRun (calculateNextRunTime tz clock v None)]
               else []))
     \<longleftrightarrow> (\<exists>v. upd_scheduleInterval input = Some v
          \<and> (a = SetScheduleInterval (intervalText v)
               \<or> upd_scheduleEnabled input \<noteq> Some False
                  \<and> a = SetScheduleNextRun (calculateNextRunTime tz clock v None)))"
    by (cases "upd_scheduleInterval input") auto
  show ?thesis
    unfolding setClauses_def set_append Un_iff mem_optional_clause last ..
qed

lemma optional_clause_empty:
  "(case v of None \<Rightarrow> [] | Some x \<Rightarrow> [f x]) = [] \<longleftrightarrow> v = None"
  by (cases v) auto

lemma optional_clauses_empty:
  "(case v of None \<Rightarrow> [] | Some x \<Rightarrow> g x # h x) = [] \<longleftrightarrow> v = None"
  by (cases v) auto

lemma setClauses_empty:
  "setClauses tz clock input = [] \<longleftrightarrow>
     upd_name input = None \<and> upd_description input = None \<and> upd_isActive input = None
     \<and> upd_priority input = None \<and> upd_acceptedTriggers input = None
     \<and> upd_topicCondition input = None \<and> upd_executionSteps input = None
     \<and> upd_outputConfig input = None \<and> upd_activationMode input = None
     \<and> upd_scheduleEnabled input = None \<and> upd_scheduleInterval input = None"
  unfolding setClauses_def append_is_Nil_conv optional_clause_empty optional_clauses_empty ..

text \<open>Columns no clause assigns, and columns kept when their clause is absent.\<close>

lemma fold_assign_fixed:
  "c_id (fold applyAssignment cs r) = c_id r"
  "c_userId (fold applyAssignment cs r) = c_userId r"
  "c_executionCount (fold applyAssignment cs r) = c_executionCount r"
  "c_lastExecutedAt (fold applyAssignment cs r) = c_lastExecutedAt r"
  "c_createdAt (fold applyAssignment cs r) = c_createdAt r"
  "c_updatedAt (fold applyAssignment cs r) = c_updatedAt r"
  "c_scheduleLastRun (fold applyAssignment cs r) = c_scheduleLastRun r"
proof (induction cs arbitrary: r)
  case Nil
  { case 1 show ?case by simp }
  { case 2 show ?case by simp }
  { case 3 show ?case by simp }
  { case 4 show ?case by simp }
  { case 5 show ?case by simp }
  { case 6 show ?case by simp }
  { case 7 show ?case by simp }
next
  case (Cons a cs)
  { case 1 show ?case by (cases a) (simp_all add: Cons.IH) }
  { case 2 show ?case by (cases a) (simp_all add: Cons.IH) }
  { case 3 show ?case by (cases a) (simp_all add: Cons.IH) }
  { case 4 show ?case by (cases a) (simp_all add: Cons.IH) }
  { case 5 show ?case by (cases a) (simp_all add: Cons.IH) }
  { case 6 show ?case by (cases a) (simp_all add: Cons.IH) }
  { case 7 show ?case by (cases a) (simp_all add: Cons.IH) }
qed

lemma fold_assign_name:
  "\<forall>v. SetName v \<notin> set cs \<Longrightarrow> c_name (fold applyAssignment cs r) = c_name r"
proof (induction cs arbitrary: r)
  case Nil
  then show ?case by simp
next
  case (Cons a cs)
  then show ?case by (cases a) auto
qed

lemma fold_assign_description:
  "\<forall>v. SetDescription v \<notin> set cs \<Longrightarrow> c_description (fold applyAssignment cs r) = c_description r"
proof (induction cs arbitrary: r)
  case Nil
  then show ?case by simp
next
  case (Cons a cs)
  then show ?case by (cases a) auto
qed

lemma fold_assign_isActive:
  "\<forall>v. SetIsActive v \<notin> set cs \<Longrightarrow> c_isActive (fold applyAssignment cs r) = c_isActive r"
proof (induction cs arbitrary: r)
  case Nil
  then show ?case by simp
next
  case (Cons a cs)
  then show ?case by (cases a) auto
qed

lemma fold_assign_priority:
  "\<forall>v. SetPriority v \<notin> set cs \<Longrightarrow> c_priority (fold applyAssignment cs r) = c_priority r"
proof (induction cs arbitrary: r)
  case Nil
  then show ?case by simp
next
  case (Cons a cs)
  then show ?case by (cases a) auto
qed

lemma fold_assign_acceptedTriggers:
  "\<forall>v. SetAcceptedTriggers v \<notin> set cs \<Longrightarrow> c_acceptedTriggers (fold applyAssignment cs r) = c_acceptedTriggers r"
proof (induction cs arbitrary: r)
  case Nil
  then show ?case by simp
next
  case (Cons a cs)
  then show ?case by (cases a) auto
qed

lemma fold_assign_topicCondition:
  "\<forall>v. SetTopicCondition v \<notin> set cs \<Longrightarrow> c_topicCondition (fold applyAssignment cs r) = c_topicCondition r"
proof (induction cs arbitrary: r)
  case Nil
  then show ?case by simp
next
  case (Cons a cs)
  then show ?case by (cases a) auto
qed

lemma fold_assign_executionSteps:
  "\<forall>v. SetExecutionSteps v \<notin> set cs \<Longrightarrow> c_executionSteps (fold applyAssignment cs r) = c_executionSteps r"
proof (induction cs arbitrary: r)
  case Nil
  then show ?case by simp
next
  case (Cons a cs)
  then show ?case by (cases a) auto
qed

lemma fold_assign_outputConfig:
  "\<forall>v. SetOutputConfig v \<notin> set cs \<Longrightarrow> c_outputConfig (fold applyAssignment cs r) = c_outputConfig r"
proof (induction cs arbitrary: r)
  case Nil
  then show ?case by simp
next
  case (Cons a cs)
  then show ?case by (cases a) auto
qed

lemma fold_assign_activationMode:
  "\<forall>v. SetActivationMode v \<notin> set cs \<Longrightarrow> c_activationMode (fold applyAssignment cs r) = c_activationMode r"
proof (induction cs arbitrary: r)
  case Nil
  then show ?case by simp
next
  case (Cons a cs)
  then show ?case by (cases a) auto
qed

lemma fold_assign_scheduleEnabled:
  "\<forall>v. SetScheduleEnabled v \<notin> set cs \<Longrightarrow> c_scheduleEnabled (fold applyAssignment cs r) = c_scheduleEnabled r"
proof (induction cs arbitrary: r)
  case Nil
  then show ?case by simp
next
  case (Cons a cs)
  then show ?case by (cases a) auto
qed

lemma fold_assign_scheduleInterval:
  "\<forall>v. SetScheduleInterval v \<notin> set cs \<Longrightarrow> c_scheduleInterval (fold applyAssignment cs r) = c_scheduleInterval r"
proof (induction cs arbitrary: r)
  case Nil
  then show ?case by simp
next
  case (Cons a cs)
  then show ?case by (cases a) auto
qed

lemma fold_assign_scheduleNextRun:
  "\<forall>v. SetScheduleNextRun v \<notin> set cs \<Longrightarrow> c_scheduleNextRun (fold applyAssignment cs r) = c_scheduleNextRun r"
proof (induction cs arbitrary: r)
  case Nil
  then show ?case by simp
next
  case (Cons a cs)
  then show ?case by (cases a) auto
qed

lemma fold_assign_nextRun_set:
  assumes "SetScheduleNextRun v \<in> set cs"
      and "\<forall>w. SetScheduleNextRun w \<in> set cs \<longrightarrow> w = v"
  shows "c_scheduleNextRun (fold applyAssignment cs r) = v"
  using assms
proof (induction cs arbitrary: r)
  case Nil
  then show ?case by simp
next
  case (Cons a cs)
  have rest: "\<forall>w. SetScheduleNextRun w \<in> set cs \<longrightarrow> w = v"
    using Cons.prems(2) by simp
  show ?case
  proof (cases "SetScheduleNextRun v \<in> set cs")
    case True
    from Cons.IH [OF True rest] show ?thesis by simp
  next
    case False
    with Cons.prems(1) have a: "a = SetScheduleNextRun v" by simp
    from False rest have none: "\<forall>w. SetScheduleNextRun w \<notin> set cs" by blast
    show ?thesis
      unfolding a by (simp add: fold_assign_scheduleNextRun [OF none])
  qed
qed

lemma rules_update_Inr:
  assumes "rules_update tz clock sb d rid input = Inr (res, d')"
  shows "d' = d\<lparr>ruleTable := map (\<lambda>r. if c_id r = rid
                                         then fold applyAssignment (setClauses tz clock input) r
                                         else r) (ruleTable d)\<rparr>
         \<and> res = rules_get sb d' rid
         \<and> SetScheduleNextRun None \<notin> set (setClauses tz clock input)"
proof (cases "setClauses tz clock input = []")
  case True
  have "map (\<lambda>r. if c_id r = rid then fold applyAssignment (setClauses tz clock input) r else r)
          (ruleTable d) = ruleTable d"
    using True by (simp cong: if_cong)
  then have same: "d\<lparr>ruleTable := map (\<lambda>r. if c_id r = rid
                                         then fold applyAssignment (setClauses tz clock input) r
                                         else r) (ruleTable d)\<rparr> = d"
    by simp
  from assms have "d' = d" and "res = rules_get sb d rid"
    unfolding rules_update_def Let_def using True by auto
  with same True show ?thesis by simp
next
  case False
  from assms have inv: "SetScheduleNextRun None \<notin> set (setClauses tz clock input)"
    unfolding rules_update_def Let_def using False by (simp split: if_splits)
  from assms show ?thesis
    unfolding rules_update_def Let_def using False inv by auto
qed

lemma rules_update_succeeds:
  assumes "\<forall>i. upd_scheduleInterval input = Some i \<and> upd_scheduleEnabled input \<noteq> Some False
             \<longrightarrow> calculateNextRunTime tz clock i None \<noteq> None"
  shows "\<exists>res d'. rules_update tz clock sb d rid input = Inr (res, d')"
proof -
  from assms have "SetScheduleNextRun None \<notin> set (setClauses tz clock input)"
    unfolding mem_setClauses by auto
  then show ?thesis by (simp add: rules_update_def Let_def)
qed

lemma rules_get_Some:
  "rules_get sb d rid = Some rule \<Longrightarrow>
     \<exists>r\<in>set (ruleTable d). c_id r = rid \<and> rule = mapRuleRow (ruleRowObject sb r)"
proof -
  assume a: "rules_get sb d rid = Some rule"
  then obtain r rest where f: "filter (\<lambda>r. c_id r = rid) (ruleTable d) = r # rest"
    by (auto simp: rules_get_def split: list.splits)
  then have "r \<in> set (filter (\<lambda>r. c_id r = rid) (ruleTable d))" by simp
  then have "r \<in> set (ruleTable d)" "c_id r = rid" by simp_all
  moreover from a f have "rule = mapRuleRow (ruleRowObject sb r)" by (simp add: rules_get_def)
  ultimately show ?thesis by blast
qed

lemma update_keeps_name:
  "upd_name input = None \<Longrightarrow>
     c_name (fold applyAssignment (setClauses tz clock input) r) = c_name r"
  by (rule fold_assign_name) (simp add: mem_setClauses)

lemma update_keeps_description:
  "upd_description input = None \<Longrightarrow>
     c_description (fold applyAssignment (setClauses tz clock input) r) = c_description r"
  by (rule fold_assign_description) (simp add: mem_setClauses)

lemma update_keeps_isActive:
  "upd_isActive input = None \<Longrightarrow>
     c_isActive (fold applyAssignment (setClauses tz clock input) r) = c_isActive r"
  by (rule fold_assign_isActive) (simp add: mem_setClauses)

lemma update_keeps_priority:
  "upd_priority input = None \<Longrightarrow>
     c_priority (fold applyAssignment (setClauses tz clock input) r) = c_priority r"
  by (rule fold_assign_priority) (simp add: mem_setClauses)

lemma update_keeps_acceptedTriggers:
  "upd_acceptedTriggers input = None \<Longrightarrow>
     c_acceptedTriggers (fold applyAssignment (setClauses tz clock input) r) = c_acceptedTriggers r"
  by (rule fold_assign_acceptedTriggers) (simp add: mem_setClauses)

lemma update_keeps_topicCondition:
  "upd_topicCondition input = None \<Longrightarrow>
     c_topicCondition (fold applyAssignment (setClauses tz clock input) r) = c_topicCondition r"
  by (rule fold_assign_topicCondition) (simp add: mem_setClauses)

lemma update_keeps_executionSteps:
  "upd_executionSteps input = None \<Longrightarrow>
     c_executionSteps (fold applyAssignment (setClauses tz clock input) r) = c_executionSteps r"
  by (rule fold_assign_executionSteps) (simp add: mem_setClauses)

lemma update_keeps_outputConfig:
  "upd_outputConfig input = None \<Longrightarrow>
     c_outputConfig (fold applyAssignment (setClauses tz clock input) r) = c_outputConfig r"
  by (rule fold_assign_outputConfig) (simp add: mem_setClauses)

lemma update_keeps_activationMode:
  "upd_activationMode input = None \<Longrightarrow>
     c_activationMode (fold applyAssignment (setClauses tz clock input) r) = c_activationMode r"
  by (rule fold_assign_activationMode) (simp add: mem_setClauses)

lemma update_keeps_scheduleEnabled:
  "upd_scheduleEnabled input = None \<Longrightarrow>
     c_scheduleEnabled (fold applyAssignment (setClauses tz clock input) r) = c_scheduleEnabled r"
  by (rule fold_assign_scheduleEnabled) (simp add: mem_setClauses)

lemma update_keeps_scheduleInterval:
  "upd_scheduleInterval input = None \<Longrightarrow>
     c_scheduleInterval (fold applyAssignment (setClauses tz clock input) r) = c_scheduleInterval r"
  by (rule fold_assign_scheduleInterval) (simp add: mem_setClauses)

lemma update_keeps_scheduleNextRun:
  "upd_scheduleInterval input = None \<or> upd_scheduleEnabled input = Some False \<Longrightarrow>
     c_scheduleNextRun (fold applyAssignment (setClauses tz clock input) r) = c_scheduleNextRun r"
  by (rule fold_assign_scheduleNextRun) (auto simp: mem_setClauses)

lemma update_sets_scheduleNextRun:
  "upd_scheduleInterval input = Some i \<Longrightarrow> upd_scheduleEnabled input \<noteq> Some False \<Longrightarrow>
     c_scheduleNextRun (fold applyAssignment (setClauses tz clock input) r)
       = calculateNextRunTime tz clock i None"
  by (rule fold_assign_nextRun_set) (auto simp: mem_setClauses)


section \<open>C3: the next run time\<close>

text \<open>
  C3 as stated: for every interval and every base time the next run is strictly later, and
  for \<open>daily\<close> it is the base time plus 24 hours exactly. \<open>calculateNextRunTime\<close> adds
  to the local calendar fields (\<open>setMinutes\<close>, \<open>setHours\<close>, \<open>setDate\<close>), so on a host
  whose zone changes its offset this fails: on US Eastern time, \<open>daily\<close> from
  2026-10-31T12:00:00Z gives 2026-11-01T13:00:00Z, 25 hours later, and \<open>15min\<close> from
  2026-11-01T06:10:00Z (01:10 EST, in the repeated hour) gives 05:25:00Z, 45 minutes earlier.
\<close>

theorem nextRun_dst_counterexample:
  "calculateNextRunTime tzEastern2026 1793448000000 Daily None = Some (1793448000000 + 25 * msPerHour)
   \<and> calculateNextRunTime tzEastern2026 1793513400000 Every15min None
       = Some (1793513400000 - 45 * msPerMinute)"
  by code_simp

text \<open>
  C3, amended: on a host whose time zone has a fixed offset from UTC (a server on UTC), for
  every interval and every base time \<open>t\<close> whose result is a valid Date,
  \<open>calculateNextRunTime\<close> returns a time strictly later than \<open>t\<close>, for \<open>daily\<close> exactly
  \<open>t\<close> plus 24 hours; and a rule created at clock reading \<open>t\<close> with
  \<open>scheduleEnabled = true\<close> and \<open>scheduleInterval = daily\<close> is stored, and returned, with
  \<open>scheduleNextRun\<close> equal to \<open>t\<close> plus 24 hours.
\<close>

theorem nextRun_fixed_offset_host:
  assumes tz: "\<forall>t u. tz t u = offset"
      and range: "\<bar>t\<bar> + 7 * msPerDay \<le> 8640000000000000"
  shows "(\<exists>n. calculateNextRunTime tz clock i (Some t) = Some n \<and> t < n)
       \<and> calculateNextRunTime tz clock Daily (Some t) = Some (t + 24 * msPerHour)
       \<and> (\<exists>n. calculateNextRunTime tz t i None = Some n \<and> t < n)
       \<and> calculateNextRunTime tz t Daily None = Some (t + 24 * msPerHour)
       \<and> (in_scheduleEnabled input = Some True \<and> in_scheduleInterval input = Some Daily
            \<and> newId \<notin> set (map c_id (ruleTable d))
          \<longrightarrow> (\<exists>rule d'. rules_create tz t dbNow newId sb d uid input = Inr (rule, d')
                \<and> scheduleNextRun rule = JStr (toISOString (t + 24 * msPerHour))
                \<and> (\<exists>r\<in>set (ruleTable d'). c_id r = newId
                      \<and> c_scheduleNextRun r = Some (t + 24 * msPerHour))))"
proof -
  have calc: "calculateNextRunTime tz c j (Some t) = calculateNextRunTime tz t j None" for c j
    by (simp add: calculateNextRunTime_def)
  have r: "\<bar>t + 15 * msPerMinute\<bar> \<le> 8640000000000000" "\<bar>t + msPerHour\<bar> \<le> 8640000000000000"
          "\<bar>t + msPerDay\<bar> \<le> 8640000000000000" "\<bar>t + 7 * msPerDay\<bar> \<le> 8640000000000000"
    using range by (simp_all add: msPerDay_def msPerHour_def msPerMinute_def)
  have nxt: "calculateNextRunTime tz t j None =
      Some (t + (case j of Every15min \<Rightarrow> 15 * msPerMinute | Hourly \<Rightarrow> msPerHour
                        | Daily \<Rightarrow> msPerDay | Weekly \<Rightarrow> 7 * msPerDay))" for j
    using r by (cases j) (simp_all add: calculateNextRunTime_fixed_offset [OF tz] TimeClip_in_range)
  have later: "\<exists>n. calculateNextRunTime tz t j None = Some n \<and> t < n" for j
    by (cases j) (simp_all add: nxt msPerDay_def msPerHour_def msPerMinute_def)
  have daily: "calculateNextRunTime tz t Daily None = Some (t + 24 * msPerHour)"
    by (simp add: nxt msPerDay_def msPerHour_def)
  have create: "\<exists>rule d'. rules_create tz t dbNow newId sb d uid input = Inr (rule, d')
                \<and> scheduleNextRun rule = JStr (toISOString (t + 24 * msPerHour))
                \<and> (\<exists>r\<in>set (ruleTable d'). c_id r = newId
                      \<and> c_scheduleNextRun r = Some (t + 24 * msPerHour))"
    if en: "in_scheduleEnabled input = Some True" and iv: "in_scheduleInterval input = Some Daily"
      and fresh: "newId \<notin> set (map c_id (ruleTable d))"
  proof -
    from rules_create_succeeds [OF fresh, of input tz t dbNow sb uid]
    obtain rule d' where c: "rules_create tz t dbNow newId sb d uid input = Inr (rule, d')"
      using iv daily by auto
    from rules_create_Inr [OF c] en iv daily
    have d': "d' = d\<lparr>ruleTable := ruleTable d @ [insertedRule newId uid input dbNow (Some (t + 24 * msPerHour))]\<rparr>"
      and rule: "rule = mapRuleRow (ruleRowObject sb (insertedRule newId uid input dbNow (Some (t + 24 * msPerHour))))"
      by auto
    have "scheduleNextRun rule = JStr (toISOString (t + 24 * msPerHour))"
      by (simp add: rule mapped_scheduleNextRun insertedRule_def)
    moreover have "\<exists>r\<in>set (ruleTable d'). c_id r = newId \<and> c_scheduleNextRun r = Some (t + 24 * msPerHour)"
      by (simp add: d' insertedRule_def)
    ultimately show ?thesis using c by blast
  qed
  show ?thesis
    using later daily create by (simp only: calc) blast
qed

text \<open>The amended C3 on a UTC host at 2026-10-31T12:00:00Z, with an empty rule table.\<close>

theorem nextRun_fixed_offset_host_witness:
  "(\<forall>t u. tzUTC t u = 0)
   \<and> \<bar>1793448000000\<bar> + 7 * msPerDay \<le> 8640000000000000
   \<and> (\<exists>n. calculateNextRunTime tzUTC 0 Weekly (Some 1793448000000) = Some n \<and> 1793448000000 < n)
   \<and> calculateNextRunTime tzUTC 1793448000000 Daily None = Some (1793448000000 + 24 * msPerHour)
   \<and> in_scheduleEnabled ex_dailyInput = Some True
   \<and> in_scheduleInterval ex_dailyInput = Some Daily
   \<and> ''rule_a'' \<notin> set (map c_id (ruleTable ex_emptyDb))
   \<and> (\<exists>rule d'. rules_create tzUTC 1793448000000 1793448000002 ''rule_a'' False ex_emptyDb ''u1''
                      ex_dailyInput = Inr (rule, d')
          \<and> scheduleNextRun rule = JStr ''2026-11-01T12:00:00.000Z''
          \<and> (\<exists>r\<in>set (ruleTable d'). c_id r = ''rule_a''
                \<and> c_scheduleNextRun r = Some (1793448000000 + 24 * msPerHour)))"
proof -
  have h1: "\<forall>t u. tzUTC t u = 0" by (simp add: tzUTC_def)
  have h2: "\<bar>1793448000000\<bar> + 7 * msPerDay \<le> 8640000000000000" by (simp add: msPerDay_def)
  have h3: "in_scheduleEnabled ex_dailyInput = Some True \<and> in_scheduleInterval ex_dailyInput = Some Daily
            \<and> ''rule_a'' \<notin> set (map c_id (ruleTable ex_emptyDb))"
    by (simp add: ex_dailyInput_def ex_emptyDb_def)
  have iso: "toISOString (1793448000000 + 24 * msPerHour) = ''2026-11-01T12:00:00.000Z''"
    by code_simp
  from nextRun_fixed_offset_host [where tz = tzUTC and offset = 0 and t = 1793448000000
      and clock = 0 and i = Weekly and input = ex_dailyInput and newId = "''rule_a''"
      and d = ex_emptyDb and dbNow = 1793448000002 and sb = False and uid = "''u1''", OF h1 h2]
    h1 h2 h3
  show ?thesis by (simp only: iso) blast
qed


section \<open>C1: advancing a schedule\<close>

subsection \<open>updateScheduleRun\<close>

lemma rules_updateScheduleRun_Inr:
  assumes "rules_updateScheduleRun tz clock dbNow d rid interval = Inr d'"
  shows "\<exists>nextRun. calculateNextRunTime tz clock interval None = Some nextRun
           \<and> d' = d\<lparr>ruleTable :=
                     map (\<lambda>r. if c_id r = rid
                              then r\<lparr>c_scheduleLastRun := Some dbNow,
                                     c_scheduleNextRun := Some nextRun,
                                     c_executionCount := map_option (\<lambda>n. n + 1) (c_executionCount r),
                                     c_lastExecutedAt := Some dbNow\<rparr>
                              else r) (ruleTable d)\<rparr>"
  using assms by (auto simp: rules_updateScheduleRun_def split: option.splits)

text \<open>
  C1 as stated: the schedule is advanced by a conditional update that takes effect only if
  \<open>scheduleNextRun\<close> still has the value read when the rule was found due, so that of
  several ticks against one due rule exactly one succeeds. \<open>updateScheduleRun\<close> takes no
  expected value and its \<open>UPDATE\<close> has no condition but the id. Two workers that both
  found \<open>rule_1\<close> due at \<open>scheduleNextRun\<close> = 2026-10-31T12:00:00Z both advance it:
  the second call, made when \<open>scheduleNextRun\<close> is no longer the value read, sets it again
  and counts a second execution.
\<close>

theorem schedule_claim_counterexample:
  "rules_updateScheduleRun tzUTC 1793448005000 1793448005003 ex_db1 ''rule_1'' Hourly
     = Inr \<lparr> ruleTable = [ex_rule1\<lparr> c_scheduleLastRun := Some 1793448005003,
                                       c_scheduleNextRun := Some 1793451605000,
                                       c_executionCount := Some 1,
                                       c_lastExecutedAt := Some 1793448005003 \<rparr>],
             logTable = [] \<rparr>
   \<and> rules_updateScheduleRun tzUTC 1793448005010 1793448005012
         \<lparr> ruleTable = [ex_rule1\<lparr> c_scheduleLastRun := Some 1793448005003,
                                   c_scheduleNextRun := Some 1793451605000,
                                   c_executionCount := Some 1,
                                   c_lastExecutedAt := Some 1793448005003 \<rparr>],
           logTable = [] \<rparr> ''rule_1'' Hourly
     = Inr \<lparr> ruleTable = [ex_rule1\<lparr> c_scheduleLastRun := Some 1793448005012,
                                       c_scheduleNextRun := Some 1793451605010,
                                       c_executionCount := Some 2,
                                       c_lastExecutedAt := Some 1793448005012 \<rparr>],
             logTable = [] \<rparr>
   \<and> c_scheduleNextRun ex_rule1 = Some 1793448000000
   \<and> ruleTable ex_db1 = [ex_rule1]"
  by code_simp

text \<open>
  C1, amended: \<open>updateScheduleRun\<close> advances the schedule unconditionally. Whenever the
  computed next run is a valid Date the call succeeds, and in every row with the given id,
  whatever its current \<open>scheduleNextRun\<close>, it sets \<open>scheduleNextRun\<close> to the next run
  computed from the server clock (clock + interval on a host with a fixed UTC offset),
  \<open>scheduleLastRun\<close> and \<open>lastExecutedAt\<close> to the database's now, and adds one to
  \<open>executionCount\<close>; every other column, every other row and the log table are unchanged.
  No call is skipped, so each of several ticks against one due rule advances it.
\<close>

theorem updateScheduleRun_unconditional:
  "(\<forall>d'. rules_updateScheduleRun tz clock dbNow d rid interval = Inr d' \<longrightarrow>
       length (ruleTable d') = length (ruleTable d) \<and> logTable d' = logTable d \<and>
       (\<forall>k<length (ruleTable d).
          (c_id (ruleTable d ! k) \<noteq> rid \<longrightarrow> ruleTable d' ! k = ruleTable d ! k) \<and>
          (c_id (ruleTable d ! k) = rid \<longrightarrow>
             ruleTable d' ! k =
               (ruleTable d ! k)
                 \<lparr>c_scheduleLastRun := Some dbNow,
                  c_scheduleNextRun := calculateNextRunTime tz clock interval None,
                  c_executionCount := map_option (\<lambda>n. n + 1) (c_executionCount (ruleTable d ! k)),
                  c_lastExecutedAt := Some dbNow\<rparr>)))
   \<and> (calculateNextRunTime tz clock interval None \<noteq> None \<longrightarrow>
        (\<exists>d'. rules_updateScheduleRun tz clock dbNow d rid interval = Inr d'))
   \<and> ((\<forall>t u. tz t u = offset) \<and> \<bar>clock\<bar> + 7 * msPerDay \<le> 8640000000000000 \<longrightarrow>
        calculateNextRunTime tz clock interval None =
          Some (clock + (case interval of Every15min \<Rightarrow> 15 * msPerMinute | Hourly \<Rightarrow> msPerHour
                                        | Daily \<Rightarrow> msPerDay | Weekly \<Rightarrow> 7 * msPerDay)))"
proof (intro conjI allI impI)
  fix d'
  assume u: "rules_updateScheduleRun tz clock dbNow d rid interval = Inr d'"
  from rules_updateScheduleRun_Inr [OF u] obtain nextRun
    where nr: "calculateNextRunTime tz clock interval None = Some nextRun"
      and d': "d' = d\<lparr>ruleTable :=
                     map (\<lambda>r. if c_id r = rid
                              then r\<lparr>c_scheduleLastRun := Some dbNow,
                                     c_scheduleNextRun := Some nextRun,
                                     c_executionCount := map_option (\<lambda>n. n + 1) (c_executionCount r),
                                     c_lastExecutedAt := Some dbNow\<rparr>
                              else r) (ruleTable d)\<rparr>"
    by blast
  show "length (ruleTable d') = length (ruleTable d)" by (simp add: d')
  show "logTable d' = logTable d" by (simp add: d')
  fix k
  assume k: "k < length (ruleTable d)"
  show "c_id (ruleTable d ! k) \<noteq> rid \<Longrightarrow> ruleTable d' ! k = ruleTable d ! k"
    using k by (simp add: d')
  show "c_id (ruleTable d ! k) = rid \<Longrightarrow>
          ruleTable d' ! k =
               (ruleTable d ! k)
                 \<lparr>c_scheduleLastRun := Some dbNow,
                  c_scheduleNextRun := calculateNextRunTime tz clock interval None,
                  c_executionCount := map_option (\<lambda>n. n + 1) (c_executionCount (ruleTable d ! k)),
                  c_lastExecutedAt := Some dbNow\<rparr>"
    using k by (simp add: d' nr)
next
  assume "calculateNextRunTime tz clock interval None \<noteq> None"
  then show "\<exists>d'. rules_updateScheduleRun tz clock dbNow d rid interval = Inr d'"
    by (auto simp: rules_updateScheduleRun_def)
next
  assume a: "(\<forall>t u. tz t u = offset) \<and> \<bar>clock\<bar> + 7 * msPerDay \<le> 8640000000000000"
  then have tz: "\<forall>t u. tz t u = offset" and range: "\<bar>clock\<bar> + 7 * msPerDay \<le> 8640000000000000"
    by simp_all
  have r: "\<bar>clock + 15 * msPerMinute\<bar> \<le> 8640000000000000" "\<bar>clock + msPerHour\<bar> \<le> 8640000000000000"
          "\<bar>clock + msPerDay\<bar> \<le> 8640000000000000" "\<bar>clock + 7 * msPerDay\<bar> \<le> 8640000000000000"
    using range by (simp_all add: msPerDay_def msPerHour_def msPerMinute_def)
  show "calculateNextRunTime tz clock interval None =
          Some (clock + (case interval of Every15min \<Rightarrow> 15 * msPerMinute | Hourly \<Rightarrow> msPerHour
                                        | Daily \<Rightarrow> msPerDay | Weekly \<Rightarrow> 7 * msPerDay))"
    using r by (cases interval)
      (simp_all add: calculateNextRunTime_fixed_offset [OF tz] TimeClip_in_range)
qed

text \<open>The amended C1 on a UTC host, for a table of two rules.\<close>

theorem updateScheduleRun_unconditional_witness:
  "(\<forall>t u. tzUTC t u = 0)
   \<and> \<bar>1793448005000\<bar> + 7 * msPerDay \<le> 8640000000000000
   \<and> calculateNextRunTime tzUTC 1793448005000 Hourly None = Some (1793448005000 + msPerHour)
   \<and> (\<exists>d'. rules_updateScheduleRun tzUTC 1793448005000 1793448005003 ex_db2 ''rule_1'' Hourly = Inr d'
         \<and> length (ruleTable d') = 2 \<and> logTable d' = []
         \<and> ruleTable d' ! 1 = ex_rule2
         \<and> ruleTable d' ! 0 =
             ex_rule1\<lparr>c_scheduleLastRun := Some 1793448005003,
                      c_scheduleNextRun := Some (1793448005000 + msPerHour),
                      c_executionCount := Some 1,
                      c_lastExecutedAt := Some 1793448005003\<rparr>)"
proof -
  note T = updateScheduleRun_unconditional [where tz = tzUTC and offset = 0 and clock = 1793448005000
      and dbNow = 1793448005003 and d = ex_db2 and rid = "''rule_1''" and interval = Hourly]
  have h1: "\<forall>t u. tzUTC t u = 0" by (simp add: tzUTC_def)
  have h2: "\<bar>1793448005000\<bar> + 7 * msPerDay \<le> 8640000000000000" by (simp add: msPerDay_def)
  from T h1 h2 have calc: "calculateNextRunTime tzUTC 1793448005000 Hourly None = Some (1793448005000 + msPerHour)"
    by simp
  with T obtain d' where u: "rules_updateScheduleRun tzUTC 1793448005000 1793448005003 ex_db2 ''rule_1'' Hourly = Inr d'"
    by auto
  have rows: "ruleTable ex_db2 ! 0 = ex_rule1" "ruleTable ex_db2 ! 1 = ex_rule2" "length (ruleTable ex_db2) = 2"
    "logTable ex_db2 = []" "ruleTable ex_db2 ! Suc 0 = ex_rule2"
    by (simp_all add: ex_db2_def)
  have ids: "c_id ex_rule1 = ''rule_1''" "c_id ex_rule2 \<noteq> ''rule_1''" "c_executionCount ex_rule1 = Some 0"
    by (simp_all add: ex_rule1_def ex_rule2_def)
  let ?P = "\<lambda>k. (c_id (ruleTable ex_db2 ! k) \<noteq> ''rule_1'' \<longrightarrow> ruleTable d' ! k = ruleTable ex_db2 ! k) \<and>
          (c_id (ruleTable ex_db2 ! k) = ''rule_1'' \<longrightarrow>
             ruleTable d' ! k =
               (ruleTable ex_db2 ! k)
                 \<lparr>c_scheduleLastRun := Some 1793448005003,
                  c_scheduleNextRun := calculateNextRunTime tzUTC 1793448005000 Hourly None,
                  c_executionCount := map_option (\<lambda>n. n + 1) (c_executionCount (ruleTable ex_db2 ! k)),
                  c_lastExecutedAt := Some 1793448005003\<rparr>)"
  from T u have frame:
    "length (ruleTable d') = length (ruleTable ex_db2) \<and> logTable d' = logTable ex_db2 \<and>
       (\<forall>k<length (ruleTable ex_db2). ?P k)"
    by blast
  then have len: "length (ruleTable d') = 2" and lg: "logTable d' = []"
    by (simp_all add: rows)
  from frame have A: "?P k" if "k < 2" for k
    using that by (simp add: rows(3))
  have "?P 0" and "?P 1" by (rule A, simp)+
  then have r0: "ruleTable d' ! 0 =
             ex_rule1\<lparr>c_scheduleLastRun := Some 1793448005003,
                      c_scheduleNextRun := Some (1793448005000 + msPerHour),
                      c_executionCount := Some 1,
                      c_lastExecutedAt := Some 1793448005003\<rparr>"
    and r1: "ruleTable d' ! 1 = ex_rule2"
    using ids calc by (simp_all add: rows)
  from h1 h2 calc u len lg r1 r0 show ?thesis by blast
qed

section \<open>C5: a schedule that is enabled has a next run\<close>

text \<open>
  C5 as stated: in every state reached through create and update, \<open>scheduleEnabled\<close>
  implies that \<open>scheduleNextRun\<close> is set. \<open>create\<close> computes the next run only when
  the input has both \<open>scheduleEnabled\<close> and a \<open>scheduleInterval\<close>: a rule created
  enabled without an interval is stored, and returned, enabled with no next run.
\<close>

theorem schedule_invariant_counterexample:
  "rules_create tzUTC 1793448000000 1793448000002 ''rule_a'' False ex_emptyDb ''u1'' ex_enabledNoInterval
     = Inr (mapRuleRow (ruleRowObject False
              (insertedRule ''rule_a'' ''u1'' ex_enabledNoInterval 1793448000002 None)),
            \<lparr> ruleTable = [insertedRule ''rule_a'' ''u1'' ex_enabledNoInterval 1793448000002 None],
              logTable = [] \<rparr>)
   \<and> c_scheduleEnabled (insertedRule ''rule_a'' ''u1'' ex_enabledNoInterval 1793448000002 None) = Some True
   \<and> c_scheduleNextRun (insertedRule ''rule_a'' ''u1'' ex_enabledNoInterval 1793448000002 None) = None
   \<and> scheduleEnabled (mapRuleRow (ruleRowObject False
              (insertedRule ''rule_a'' ''u1'' ex_enabledNoInterval 1793448000002 None))) = True
   \<and> scheduleNextRun (mapRuleRow (ruleRowObject False
              (insertedRule ''rule_a'' ''u1'' ex_enabledNoInterval 1793448000002 None))) = Undefined"
  by code_simp

text \<open>
  C5, amended: a rule created with \<open>scheduleEnabled = true\<close> and a schedule interval is
  stored and returned with \<open>scheduleEnabled\<close> true and a non-null \<open>scheduleNextRun\<close>;
  an update whose input gives a schedule interval and does not set \<open>scheduleEnabled\<close> to
  false leaves every rule with that id, and the rule it returns, with a non-null
  \<open>scheduleNextRun\<close>. Both operations succeed when the id is fresh (create) and the
  computed next run is a valid Date.
\<close>

theorem schedule_set_when_interval_given:
  "(\<forall>rule d' i. rules_create tz clock dbNow newId sb d uid input = Inr (rule, d')
        \<and> in_scheduleEnabled input = Some True \<and> in_scheduleInterval input = Some i \<longrightarrow>
        scheduleEnabled rule \<and> (\<exists>t. scheduleNextRun rule = JStr (toISOString t))
        \<and> (\<exists>r\<in>set (ruleTable d'). c_id r = newId \<and> c_scheduleEnabled r = Some True
               \<and> c_scheduleNextRun r \<noteq> None))
   \<and> (\<forall>res d' i. rules_update tz clock sb d rid upd = Inr (res, d')
        \<and> upd_scheduleInterval upd = Some i \<and> upd_scheduleEnabled upd \<noteq> Some False \<longrightarrow>
        (\<forall>r\<in>set (ruleTable d'). c_id r = rid \<longrightarrow> c_scheduleNextRun r \<noteq> None)
        \<and> (\<forall>rule. res = Some rule \<longrightarrow> (\<exists>t. scheduleNextRun rule = JStr (toISOString t))))
   \<and> (newId \<notin> set (map c_id (ruleTable d))
        \<and> (\<forall>i. in_scheduleInterval input = Some i \<longrightarrow> calculateNextRunTime tz clock i None \<noteq> None)
        \<longrightarrow> (\<exists>rule d'. rules_create tz clock dbNow newId sb d uid input = Inr (rule, d')))
   \<and> ((\<forall>i. upd_scheduleInterval upd = Some i \<longrightarrow> calculateNextRunTime tz clock i None \<noteq> None)
        \<longrightarrow> (\<exists>res d'. rules_update tz clock sb d rid upd = Inr (res, d')))"
proof (intro conjI allI impI)
  fix rule d' i
  assume a: "rules_create tz clock dbNow newId sb d uid input = Inr (rule, d')
        \<and> in_scheduleEnabled input = Some True \<and> in_scheduleInterval input = Some i"
  from rules_create_Inr [of tz clock dbNow newId sb d uid input rule d'] a
  obtain nextRun where nr: "nextRun \<noteq> None"
    and d': "d' = d\<lparr>ruleTable := ruleTable d @ [insertedRule newId uid input dbNow nextRun]\<rparr>"
    and rule: "rule = mapRuleRow (ruleRowObject sb (insertedRule newId uid input dbNow nextRun))"
    by auto
  from nr obtain t where t: "nextRun = Some t" by auto
  have en: "c_scheduleEnabled (insertedRule newId uid input dbNow nextRun) = Some True"
    using a by (simp add: insertedRule_def)
  have nx: "c_scheduleNextRun (insertedRule newId uid input dbNow nextRun) = Some t"
    by (simp add: insertedRule_def t)
  show "scheduleEnabled rule" by (simp add: rule mapped_scheduleEnabled en)
  show "\<exists>t. scheduleNextRun rule = JStr (toISOString t)"
    by (auto simp: rule mapped_scheduleNextRun nx)
  show "\<exists>r\<in>set (ruleTable d'). c_id r = newId \<and> c_scheduleEnabled r = Some True
               \<and> c_scheduleNextRun r \<noteq> None"
    using en nx by (simp add: d') (simp add: insertedRule_def)
next
  fix res d' i
  assume a: "rules_update tz clock sb d rid upd = Inr (res, d')
        \<and> upd_scheduleInterval upd = Some i \<and> upd_scheduleEnabled upd \<noteq> Some False"
  let ?cs = "setClauses tz clock upd"
  let ?f = "\<lambda>r. if c_id r = rid then fold applyAssignment ?cs r else r"
  from a rules_update_Inr [of tz clock sb d rid upd res d']
  have d': "d' = d\<lparr>ruleTable := map ?f (ruleTable d)\<rparr>" and res: "res = rules_get sb d' rid"
    and valid: "SetScheduleNextRun None \<notin> set ?cs"
    by simp_all
  from a have "SetScheduleNextRun (calculateNextRunTime tz clock i None) \<in> set ?cs"
    by (simp add: mem_setClauses)
  with valid have calc: "calculateNextRunTime tz clock i None \<noteq> None"
    by (cases "calculateNextRunTime tz clock i None") auto
  have rows: "c_scheduleNextRun r \<noteq> None" if r: "r \<in> set (ruleTable d')" and rid: "c_id r = rid" for r
  proof -
    from r obtain r0 where r0: "r0 \<in> set (ruleTable d)" and rf: "r = ?f r0"
      by (auto simp: d')
    have "c_id (?f r0) = c_id r0" by (simp add: fold_assign_fixed)
    with rid rf have "c_id r0 = rid" by simp
    then have "r = fold applyAssignment ?cs r0" using rf by simp
    then have "c_scheduleNextRun r = calculateNextRunTime tz clock i None"
      using a by (simp add: update_sets_scheduleNextRun)
    with calc show ?thesis by simp
  qed
  show "\<forall>r\<in>set (ruleTable d'). c_id r = rid \<longrightarrow> c_scheduleNextRun r \<noteq> None"
    using rows by blast
  fix rule
  assume "res = Some rule"
  with res rules_get_Some [of sb d' rid rule]
  obtain r where r: "r \<in> set (ruleTable d')" "c_id r = rid" "rule = mapRuleRow (ruleRowObject sb r)"
    by auto
  from rows [OF r(1) r(2)] obtain t where "c_scheduleNextRun r = Some t" by auto
  then show "\<exists>t. scheduleNextRun rule = JStr (toISOString t)"
    by (auto simp: r(3) mapped_scheduleNextRun)
next
  assume a: "newId \<notin> set (map c_id (ruleTable d))
        \<and> (\<forall>i. in_scheduleInterval input = Some i \<longrightarrow> calculateNextRunTime tz clock i None \<noteq> None)"
  then show "\<exists>rule d'. rules_create tz clock dbNow newId sb d uid input = Inr (rule, d')"
    using rules_create_succeeds [of newId d input tz clock dbNow sb uid] by blast
next
  assume "\<forall>i. upd_scheduleInterval upd = Some i \<longrightarrow> calculateNextRunTime tz clock i None \<noteq> None"
  then show "\<exists>res d'. rules_update tz clock sb d rid upd = Inr (res, d')"
    using rules_update_succeeds [of upd tz clock sb d rid] by blast
qed

text \<open>The amended C5 on a UTC host: creating a daily rule, and giving \<open>rule_1\<close> a daily
  interval.\<close>

theorem schedule_set_when_interval_given_witness:
  "''rule_a'' \<notin> set (map c_id (ruleTable ex_db1))
   \<and> in_scheduleEnabled ex_dailyInput = Some True
   \<and> in_scheduleInterval ex_dailyInput = Some Daily
   \<and> calculateNextRunTime tzUTC 1793448000000 Daily None \<noteq> None
   \<and> (\<exists>rule d'. rules_create tzUTC 1793448000000 1793448000002 ''rule_a'' False ex_db1 ''u1''
                      ex_dailyInput = Inr (rule, d')
          \<and> scheduleEnabled rule
          \<and> (\<exists>t. scheduleNextRun rule = JStr (toISOString t))
          \<and> (\<exists>r\<in>set (ruleTable d'). c_id r = ''rule_a'' \<and> c_scheduleEnabled r = Some True
                 \<and> c_scheduleNextRun r \<noteq> None))
   \<and> upd_scheduleInterval ex_intervalOnly = Some Daily
   \<and> upd_scheduleEnabled ex_intervalOnly \<noteq> Some False
   \<and> (\<exists>res d' rule. rules_update tzUTC 1793448000000 False ex_db1 ''rule_1'' ex_intervalOnly
                        = Inr (res, d')
          \<and> res = Some rule
          \<and> (\<exists>t. scheduleNextRun rule = JStr (toISOString t))
          \<and> (\<exists>r\<in>set (ruleTable d'). c_id r = ''rule_1'' \<and> c_scheduleNextRun r \<noteq> None))"
proof -
  note T = schedule_set_when_interval_given [where tz = tzUTC and clock = 1793448000000
      and dbNow = 1793448000002 and newId = "''rule_a''" and sb = False and d = ex_db1
      and uid = "''u1''" and input = ex_dailyInput and rid = "''rule_1''" and upd = ex_intervalOnly]
  have fresh: "''rule_a'' \<notin> set (map c_id (ruleTable ex_db1))"
    by (simp add: ex_db1_def ex_rule1_def)
  have inp: "in_scheduleEnabled ex_dailyInput = Some True" "in_scheduleInterval ex_dailyInput = Some Daily"
    by (simp_all add: ex_dailyInput_def)
  have upd: "upd_scheduleInterval ex_intervalOnly = Some Daily"
    "upd_scheduleEnabled ex_intervalOnly \<noteq> Some False"
    by (simp_all add: ex_intervalOnly_def ex_noFields_def)
  have calc: "calculateNextRunTime tzUTC 1793448000000 Daily None \<noteq> None"
    by code_simp
  have "\<exists>rule d'. rules_create tzUTC 1793448000000 1793448000002 ''rule_a'' False ex_db1 ''u1''
                      ex_dailyInput = Inr (rule, d')"
    by (rule T [THEN conjunct2, THEN conjunct2, THEN conjunct1, rule_format])
       (use fresh inp calc in simp)
  then obtain rule d'
    where c: "rules_create tzUTC 1793448000000 1793448000002 ''rule_a'' False ex_db1 ''u1''
                      ex_dailyInput = Inr (rule, d')"
    by blast
  note C = T [THEN conjunct1, rule_format, of rule d' Daily, OF conjI [OF c conjI [OF inp]]]
  have ev: "rules_update tzUTC 1793448000000 False ex_db1 ''rule_1'' ex_intervalOnly
     = Inr (Some (mapRuleRow (ruleRowObject False
                   (ex_rule1\<lparr> c_scheduleInterval := Some ''daily'',
                              c_scheduleNextRun := Some 1793534400000 \<rparr>))),
            \<lparr> ruleTable = [ex_rule1\<lparr> c_scheduleInterval := Some ''daily'',
                                    c_scheduleNextRun := Some 1793534400000 \<rparr>],
              logTable = [] \<rparr>)"
    by code_simp
  note U = T [THEN conjunct2, THEN conjunct1, rule_format, OF conjI [OF ev conjI [OF upd]]]
  have row: "ex_rule1\<lparr> c_scheduleInterval := Some ''daily'', c_scheduleNextRun := Some 1793534400000 \<rparr>
          \<in> set (ruleTable \<lparr> ruleTable = [ex_rule1\<lparr> c_scheduleInterval := Some ''daily'',
                                    c_scheduleNextRun := Some 1793534400000 \<rparr>],
              logTable = [] \<rparr>)"
    "c_id (ex_rule1\<lparr> c_scheduleInterval := Some ''daily'', c_scheduleNextRun := Some 1793534400000 \<rparr>)
       = ''rule_1''"
    by (simp_all add: ex_rule1_def)
  from U [THEN conjunct1, rule_format, OF row]
  have set: "\<exists>r\<in>set (ruleTable \<lparr> ruleTable = [ex_rule1\<lparr> c_scheduleInterval := Some ''daily'',
                                    c_scheduleNextRun := Some 1793534400000 \<rparr>],
              logTable = [] \<rparr>). c_id r = ''rule_1'' \<and> c_scheduleNextRun r \<noteq> None"
    using row by blast
  from U [THEN conjunct2, rule_format, OF refl]
  have ret: "\<exists>t. scheduleNextRun (mapRuleRow (ruleRowObject False
                   (ex_rule1\<lparr> c_scheduleInterval := Some ''daily'',
                              c_scheduleNextRun := Some 1793534400000 \<rparr>))) = JStr (toISOString t)" .
  from ev ret set
  have upd_part: "\<exists>res d' rule. rules_update tzUTC 1793448000000 False ex_db1 ''rule_1'' ex_intervalOnly
                        = Inr (res, d')
          \<and> res = Some rule
          \<and> (\<exists>t. scheduleNextRun rule = JStr (toISOString t))
          \<and> (\<exists>r\<in>set (ruleTable d'). c_id r = ''rule_1'' \<and> c_scheduleNextRun r \<noteq> None)"
    by blast
  from c C have create_part: "\<exists>rule d'. rules_create tzUTC 1793448000000 1793448000002 ''rule_a'' False ex_db1 ''u1''
                      ex_dailyInput = Inr (rule, d')
          \<and> scheduleEnabled rule
          \<and> (\<exists>t. scheduleNextRun rule = JStr (toISOString t))
          \<and> (\<exists>r\<in>set (ruleTable d'). c_id r = ''rule_a'' \<and> c_scheduleEnabled r = Some True
                 \<and> c_scheduleNextRun r \<noteq> None)"
    by blast
  from fresh inp calc create_part upd upd_part show ?thesis by (intro conjI)
qed

section \<open>C7: what update leaves untouched\<close>

text \<open>
  C7 as stated: update leaves every field that the input does not specify unchanged. An
  input that specifies only \<open>scheduleInterval\<close> also recomputes \<open>scheduleNextRun\<close>
  ("Recalculate next run time when interval changes"), a column the input does not specify.
\<close>

theorem update_frame_counterexample:
  "rules_update tzUTC 1793440000000 False ex_db1 ''rule_1'' ex_intervalOnly
     = Inr (Some (mapRuleRow (ruleRowObject False
                   (ex_rule1\<lparr> c_scheduleInterval := Some ''daily'',
                              c_scheduleNextRun := Some 1793526400000 \<rparr>))),
            \<lparr> ruleTable = [ex_rule1\<lparr> c_scheduleInterval := Some ''daily'',
                                    c_scheduleNextRun := Some 1793526400000 \<rparr>],
              logTable = [] \<rparr>)
   \<and> c_scheduleNextRun ex_rule1 = Some 1793448000000
   \<and> ruleTable ex_db1 = [ex_rule1]"
  by code_simp

text \<open>
  C7, amended: update leaves every row with another id and the log table unchanged, and in
  the rows with the given id every column that the input does not specify keeps its value,
  except \<open>scheduleNextRun\<close>: it is kept when the input gives no \<open>scheduleInterval\<close> or
  sets \<open>scheduleEnabled\<close> to false, and is otherwise set to the next run computed from the
  clock. The columns \<open>id\<close>, \<open>userId\<close>, \<open>executionCount\<close>, \<open>lastExecutedAt\<close>,
  \<open>createdAt\<close>, \<open>updatedAt\<close> and \<open>scheduleLastRun\<close> are never changed. An update whose
  input has no recognised field leaves the database unchanged and returns the rule as
  stored. The update succeeds whenever the computed next run is a valid Date.
\<close>

theorem update_frame:
  "(\<forall>res d'. rules_update tz clock sb d rid input = Inr (res, d') \<longrightarrow>
      length (ruleTable d') = length (ruleTable d) \<and> logTable d' = logTable d \<and>
      (\<forall>k<length (ruleTable d).
         (c_id (ruleTable d ! k) \<noteq> rid \<longrightarrow> ruleTable d' ! k = ruleTable d ! k) \<and>
         c_id (ruleTable d' ! k) = c_id (ruleTable d ! k) \<and>
         c_userId (ruleTable d' ! k) = c_userId (ruleTable d ! k) \<and>
         c_executionCount (ruleTable d' ! k) = c_executionCount (ruleTable d ! k) \<and>
         c_lastExecutedAt (ruleTable d' ! k) = c_lastExecutedAt (ruleTable d ! k) \<and>
         c_createdAt (ruleTable d' ! k) = c_createdAt (ruleTable d ! k) \<and>
         c_updatedAt (ruleTable d' ! k) = c_updatedAt (ruleTable d ! k) \<and>
         c_scheduleLastRun (ruleTable d' ! k) = c_scheduleLastRun (ruleTable d ! k) \<and>
         (upd_name input = None \<longrightarrow> c_name (ruleTable d' ! k) = c_name (ruleTable d ! k)) \<and>
         (upd_description input = None \<longrightarrow> c_description (ruleTable d' ! k) = c_description (ruleTable d ! k)) \<and>
         (upd_isActive input = None \<longrightarrow> c_isActive (ruleTable d' ! k) = c_isActive (ruleTable d ! k)) \<and>
         (upd_priority input = None \<longrightarrow> c_priority (ruleTable d' ! k) = c_priority (ruleTable d ! k)) \<and>
         (upd_acceptedTriggers input = None \<longrightarrow> c_acceptedTriggers (ruleTable d' ! k) = c_acceptedTriggers (ruleTable d ! k)) \<and>
         (upd_topicCondition input = None \<longrightarrow> c_topicCondition (ruleTable d' ! k) = c_topicCondition (ruleTable d ! k)) \<and>
         (upd_executionSteps input = None \<longrightarrow> c_executionSteps (ruleTable d' ! k) = c_executionSteps (ruleTable d ! k)) \<and>
         (upd_outputConfig input = None \<longrightarrow> c_outputConfig (ruleTable d' ! k) = c_outputConfig (ruleTable d ! k)) \<and>
         (upd_activationMode input = None \<longrightarrow> c_activationMode (ruleTable d' ! k) = c_activationMode (ruleTable d ! k)) \<and>
         (upd_scheduleEnabled input = None \<longrightarrow> c_scheduleEnabled (ruleTable d' ! k) = c_scheduleEnabled (ruleTable d ! k)) \<and>
         (upd_scheduleInterval input = None \<longrightarrow> c_scheduleInterval (ruleTable d' ! k) = c_scheduleInterval (ruleTable d ! k)) \<and>
         (upd_scheduleInterval input = None \<or> upd_scheduleEnabled input = Some False \<longrightarrow>
            c_scheduleNextRun (ruleTable d' ! k) = c_scheduleNextRun (ruleTable d ! k)) \<and>
         (\<forall>i. c_id (ruleTable d ! k) = rid \<and> upd_scheduleInterval input = Some i
               \<and> upd_scheduleEnabled input \<noteq> Some False \<longrightarrow>
            c_scheduleNextRun (ruleTable d' ! k) = calculateNextRunTime tz clock i None)) \<and>
      (upd_name input = None \<and> upd_description input = None \<and> upd_isActive input = None \<and> upd_priority input = None \<and> upd_acceptedTriggers input = None \<and> upd_topicCondition input = None \<and> upd_executionSteps input = None \<and> upd_outputConfig input = None \<and> upd_activationMode input = None \<and> upd_scheduleEnabled input = None \<and> upd_scheduleInterval input = None
         \<longrightarrow> d' = d \<and> res = rules_get sb d rid))
   \<and> ((\<forall>i. upd_scheduleInterval input = Some i \<and> upd_scheduleEnabled input \<noteq> Some False
             \<longrightarrow> calculateNextRunTime tz clock i None \<noteq> None)
        \<longrightarrow> (\<exists>res d'. rules_update tz clock sb d rid input = Inr (res, d')))"
proof (intro conjI allI impI)
  fix res d'
  assume u: "rules_update tz clock sb d rid input = Inr (res, d')"
  let ?f = "\<lambda>r. if c_id r = rid then fold applyAssignment (setClauses tz clock input) r else r"
  from rules_update_Inr [OF u]
  have d': "d' = d\<lparr>ruleTable := map ?f (ruleTable d)\<rparr>" and res: "res = rules_get sb d' rid"
    by simp_all
  show "length (ruleTable d') = length (ruleTable d)" by (simp add: d')
  show "logTable d' = logTable d" by (simp add: d')
  have allnone: "d' = d \<and> res = rules_get sb d rid"
    if none: "upd_name input = None \<and> upd_description input = None \<and> upd_isActive input = None \<and> upd_priority input = None \<and> upd_acceptedTriggers input = None \<and> upd_topicCondition input = None \<and> upd_executionSteps input = None \<and> upd_outputConfig input = None \<and> upd_activationMode input = None \<and> upd_scheduleEnabled input = None \<and> upd_scheduleInterval input = None"
  proof -
    from none have "setClauses tz clock input = []" by (simp add: setClauses_empty)
    then have "map ?f (ruleTable d) = ruleTable d" by (simp cong: if_cong)
    then have "d' = d" by (simp add: d')
    then show ?thesis using res by simp
  qed
  show "upd_name input = None \<and> upd_description input = None \<and> upd_isActive input = None \<and> upd_priority input = None \<and> upd_acceptedTriggers input = None \<and> upd_topicCondition input = None \<and> upd_executionSteps input = None \<and> upd_outputConfig input = None \<and> upd_activationMode input = None \<and> upd_scheduleEnabled input = None \<and> upd_scheduleInterval input = None \<Longrightarrow> d' = d"
    using allnone by simp
  show "upd_name input = None \<and> upd_description input = None \<and> upd_isActive input = None \<and> upd_priority input = None \<and> upd_acceptedTriggers input = None \<and> upd_topicCondition input = None \<and> upd_executionSteps input = None \<and> upd_outputConfig input = None \<and> upd_activationMode input = None \<and> upd_scheduleEnabled input = None \<and> upd_scheduleInterval input = None \<Longrightarrow> res = rules_get sb d rid"
    using allnone by simp
  fix k
  assume k: "k < length (ruleTable d)"
  then have row: "ruleTable d' ! k = ?f (ruleTable d ! k)" by (simp add: d')
  show "c_id (ruleTable d ! k) \<noteq> rid \<Longrightarrow> ruleTable d' ! k = ruleTable d ! k"
    by (simp add: row)
  show "c_id (ruleTable d' ! k) = c_id (ruleTable d ! k)"
    by (simp add: row fold_assign_fixed)
  show "c_userId (ruleTable d' ! k) = c_userId (ruleTable d ! k)"
    by (simp add: row fold_assign_fixed)
  show "c_executionCount (ruleTable d' ! k) = c_executionCount (ruleTable d ! k)"
    by (simp add: row fold_assign_fixed)
  show "c_lastExecutedAt (ruleTable d' ! k) = c_lastExecutedAt (ruleTable d ! k)"
    by (simp add: row fold_assign_fixed)
  show "c_createdAt (ruleTable d' ! k) = c_createdAt (ruleTable d ! k)"
    by (simp add: row fold_assign_fixed)
  show "c_updatedAt (ruleTable d' ! k) = c_updatedAt (ruleTable d ! k)"
    by (simp add: row fold_assign_fixed)
  show "c_scheduleLastRun (ruleTable d' ! k) = c_scheduleLastRun (ruleTable d ! k)"
    by (simp add: row fold_assign_fixed)
  show "upd_name input = None \<Longrightarrow> c_name (ruleTable d' ! k) = c_name (ruleTable d ! k)"
    by (simp add: row update_keeps_name)
  show "upd_description input = None \<Longrightarrow> c_description (ruleTable d' ! k) = c_description (ruleTable d ! k)"
    by (simp add: row update_keeps_description)
  show "upd_isActive input = None \<Longrightarrow> c_isActive (ruleTable d' ! k) = c_isActive (ruleTable d ! k)"
    by (simp add: row update_keeps_isActive)
  show "upd_priority input = None \<Longrightarrow> c_priority (ruleTable d' ! k) = c_priority (ruleTable d ! k)"
    by (simp add: row update_keeps_priority)
  show "upd_acceptedTriggers input = None \<Longrightarrow> c_acceptedTriggers (ruleTable d' ! k) = c_acceptedTriggers (ruleTable d ! k)"
    by (simp add: row update_keeps_acceptedTriggers)
  show "upd_topicCondition input = None \<Longrightarrow> c_topicCondition (ruleTable d' ! k) = c_topicCondition (ruleTable d ! k)"
    by (simp add: row update_keeps_topicCondition)
  show "upd_executionSteps input = None \<Longrightarrow> c_executionSteps (ruleTable d' ! k) = c_executionSteps (ruleTable d ! k)"
    by (simp add: row update_keeps_executionSteps)
  show "upd_outputConfig input = None \<Longrightarrow> c_outputConfig (ruleTable d' ! k) = c_outputConfig (ruleTable d ! k)"
    by (simp add: row update_keeps_outputConfig)
  show "upd_activationMode input = None \<Longrightarrow> c_activationMode (ruleTable d' ! k) = c_activationMode (ruleTable d ! k)"
    by (simp add: row update_keeps_activationMode)
  show "upd_scheduleEnabled input = None \<Longrightarrow> c_scheduleEnabled (ruleTable d' ! k) = c_scheduleEnabled (ruleTable d ! k)"
    by (simp add: row update_keeps_scheduleEnabled)
  show "upd_scheduleInterval input = None \<Longrightarrow> c_scheduleInterval (ruleTable d' ! k) = c_scheduleInterval (ruleTable d ! k)"
    by (simp add: row update_keeps_scheduleInterval)
  show "upd_scheduleInterval input = None \<or> upd_scheduleEnabled input = Some False \<Longrightarrow>
          c_scheduleNextRun (ruleTable d' ! k) = c_scheduleNextRun (ruleTable d ! k)"
    by (simp add: row update_keeps_scheduleNextRun)
  show "c_id (ruleTable d ! k) = rid \<and> upd_scheduleInterval input = Some i
          \<and> upd_scheduleEnabled input \<noteq> Some False \<Longrightarrow>
        c_scheduleNextRun (ruleTable d' ! k) = calculateNextRunTime tz clock i None" for i
    by (simp add: row update_sets_scheduleNextRun)
next
  assume "\<forall>i. upd_scheduleInterval input = Some i \<and> upd_scheduleEnabled input \<noteq> Some False
             \<longrightarrow> calculateNextRunTime tz clock i None \<noteq> None"
  then show "\<exists>res d'. rules_update tz clock sb d rid input = Inr (res, d')"
    by (rule rules_update_succeeds)
qed

text \<open>The amended C7 on a table of two rules: renaming \<open>rule_1\<close>, giving it a daily
  interval, and an update with no fields.\<close>

theorem update_frame_witness:
  "(\<exists>res d'. rules_update tzUTC 1793448000000 False ex_db2 ''rule_1'' ex_renameOnly = Inr (res, d')
       \<and> length (ruleTable d') = 2 \<and> logTable d' = []
       \<and> ruleTable d' ! 1 = ex_rule2
       \<and> c_id (ruleTable d' ! 0) = ''rule_1''
       \<and> c_priority (ruleTable d' ! 0) = c_priority ex_rule1
       \<and> c_isActive (ruleTable d' ! 0) = c_isActive ex_rule1
       \<and> c_scheduleInterval (ruleTable d' ! 0) = c_scheduleInterval ex_rule1
       \<and> c_scheduleNextRun (ruleTable d' ! 0) = c_scheduleNextRun ex_rule1
       \<and> c_updatedAt (ruleTable d' ! 0) = c_updatedAt ex_rule1)
   \<and> (\<exists>res d'. rules_update tzUTC 1793448000000 False ex_db2 ''rule_1'' ex_intervalOnly = Inr (res, d')
       \<and> ruleTable d' ! 1 = ex_rule2
       \<and> c_name (ruleTable d' ! 0) = c_name ex_rule1
       \<and> c_scheduleNextRun (ruleTable d' ! 0) = Some (1793448000000 + msPerDay))
   \<and> rules_update tzUTC 1793448000000 False ex_db2 ''rule_1'' ex_noFields
       = Inr (rules_get False ex_db2 ''rule_1'', ex_db2)"
proof -
  have rows: "ruleTable ex_db2 ! 0 = ex_rule1" "ruleTable ex_db2 ! Suc 0 = ex_rule2"
    "length (ruleTable ex_db2) = 2" "logTable ex_db2 = []"
    by (simp_all add: ex_db2_def)
  have ids: "c_id ex_rule1 = ''rule_1''" "c_id ex_rule2 \<noteq> ''rule_1''"
    by (simp_all add: ex_rule1_def ex_rule2_def)
  have calc: "calculateNextRunTime tzUTC 1793448000000 Daily None = Some (1793448000000 + msPerDay)"
    by code_simp
  have A: "(\<exists>res d'. rules_update tzUTC 1793448000000 False ex_db2 ''rule_1'' ex_renameOnly = Inr (res, d')
       \<and> length (ruleTable d') = 2 \<and> logTable d' = []
       \<and> ruleTable d' ! 1 = ex_rule2
       \<and> c_id (ruleTable d' ! 0) = ''rule_1''
       \<and> c_priority (ruleTable d' ! 0) = c_priority ex_rule1
       \<and> c_isActive (ruleTable d' ! 0) = c_isActive ex_rule1
       \<and> c_scheduleInterval (ruleTable d' ! 0) = c_scheduleInterval ex_rule1
       \<and> c_scheduleNextRun (ruleTable d' ! 0) = c_scheduleNextRun ex_rule1
       \<and> c_updatedAt (ruleTable d' ! 0) = c_updatedAt ex_rule1)"
  proof -
    note T = update_frame [where tz = tzUTC and clock = 1793448000000 and sb = False and d = ex_db2
        and rid = "''rule_1''" and input = ex_renameOnly]
    have inp: "upd_priority ex_renameOnly = None" "upd_isActive ex_renameOnly = None"
      "upd_scheduleInterval ex_renameOnly = None"
      by (simp_all add: ex_renameOnly_def ex_noFields_def)
    have "\<exists>res d'. rules_update tzUTC 1793448000000 False ex_db2 ''rule_1'' ex_renameOnly = Inr (res, d')"
      by (rule T [THEN conjunct2, rule_format]) (simp add: inp)
    then obtain res d'
      where u: "rules_update tzUTC 1793448000000 False ex_db2 ''rule_1'' ex_renameOnly = Inr (res, d')"
      by blast
    note F = T [THEN conjunct1, rule_format, OF u]
    note len = F [THEN conjunct1] and lg = F [THEN conjunct2, THEN conjunct1]
      and row = F [THEN conjunct2, THEN conjunct2, THEN conjunct1, rule_format]
    have F0: "c_id (ruleTable d' ! 0) = ''rule_1''"
        "c_priority (ruleTable d' ! 0) = c_priority ex_rule1"
        "c_isActive (ruleTable d' ! 0) = c_isActive ex_rule1"
        "c_scheduleInterval (ruleTable d' ! 0) = c_scheduleInterval ex_rule1"
        "c_scheduleNextRun (ruleTable d' ! 0) = c_scheduleNextRun ex_rule1"
        "c_updatedAt (ruleTable d' ! 0) = c_updatedAt ex_rule1"
      using row [of 0] inp ids by (simp_all add: rows)
    have F1: "ruleTable d' ! 1 = ex_rule2"
      using row [of 1] ids by (simp add: rows)
    from len lg have "length (ruleTable d') = 2" "logTable d' = []" by (simp_all add: rows)
    with u F0 F1 show ?thesis by blast
  qed
  have B: "(\<exists>res d'. rules_update tzUTC 1793448000000 False ex_db2 ''rule_1'' ex_intervalOnly = Inr (res, d')
       \<and> ruleTable d' ! 1 = ex_rule2
       \<and> c_name (ruleTable d' ! 0) = c_name ex_rule1
       \<and> c_scheduleNextRun (ruleTable d' ! 0) = Some (1793448000000 + msPerDay))"
  proof -
    note T = update_frame [where tz = tzUTC and clock = 1793448000000 and sb = False and d = ex_db2
        and rid = "''rule_1''" and input = ex_intervalOnly]
    have inp: "upd_name ex_intervalOnly = None" "upd_scheduleInterval ex_intervalOnly = Some Daily"
      "upd_scheduleEnabled ex_intervalOnly \<noteq> Some False"
      by (simp_all add: ex_intervalOnly_def ex_noFields_def)
    have "\<exists>res d'. rules_update tzUTC 1793448000000 False ex_db2 ''rule_1'' ex_intervalOnly = Inr (res, d')"
      by (rule T [THEN conjunct2, rule_format]) (simp add: inp calc)
    then obtain res d'
      where u: "rules_update tzUTC 1793448000000 False ex_db2 ''rule_1'' ex_intervalOnly = Inr (res, d')"
      by blast
    note F = T [THEN conjunct1, rule_format, OF u]
    note row = F [THEN conjunct2, THEN conjunct2, THEN conjunct1, rule_format]
    have F0: "c_name (ruleTable d' ! 0) = c_name ex_rule1"
        "c_scheduleNextRun (ruleTable d' ! 0) = Some (1793448000000 + msPerDay)"
      using row [of 0] inp ids calc by (simp_all add: rows)
    have F1: "ruleTable d' ! 1 = ex_rule2"
      using row [of 1] ids by (simp add: rows)
    from u F0 F1 show ?thesis by blast
  qed
  have C: "rules_update tzUTC 1793448000000 False ex_db2 ''rule_1'' ex_noFields
       = Inr (rules_get False ex_db2 ''rule_1'', ex_db2)"
  proof -
    note T = update_frame [where tz = tzUTC and clock = 1793448000000 and sb = False and d = ex_db2
        and rid = "''rule_1''" and input = ex_noFields]
    have inp: "upd_name ex_noFields = None \<and> upd_description ex_noFields = None
        \<and> upd_isActive ex_noFields = None \<and> upd_priority ex_noFields = None
        \<and> upd_acceptedTriggers ex_noFields = None \<and> upd_topicCondition ex_noFields = None
        \<and> upd_executionSteps ex_noFields = None \<and> upd_outputConfig ex_noFields = None
        \<and> upd_activationMode ex_noFields = None \<and> upd_scheduleEnabled ex_noFields = None
        \<and> upd_scheduleInterval ex_noFields = None"
      by (simp add: ex_noFields_def)
    have "\<exists>res d'. rules_update tzUTC 1793448000000 False ex_db2 ''rule_1'' ex_noFields = Inr (res, d')"
      by (rule T [THEN conjunct2, rule_format]) (simp add: inp)
    then obtain res d'
      where u: "rules_update tzUTC 1793448000000 False ex_db2 ''rule_1'' ex_noFields = Inr (res, d')"
      by blast
    note F = T [THEN conjunct1, rule_format, OF u]
    note same = F [THEN conjunct2, THEN conjunct2, THEN conjunct2, rule_format, OF inp]
    from u same show ?thesis by simp
  qed
  from A B C show ?thesis by (intro conjI)
qed


section \<open>C2: the order of candidate rules\<close>

lemma descKey_le:
  "descKey (Some p) \<le> descKey (Some q) \<longleftrightarrow> q \<le> p"
  "descKey None \<le> descKey v"
  "descKey (Some p) \<le> descKey None \<longleftrightarrow> False"
  by (auto simp: descKey_def less_eq_prod_def split: option.splits)

lemma descKey_order:
  assumes "descKey a \<le> descKey b"
  shows "a = None \<or> (\<exists>p q. a = Some p \<and> b = Some q \<and> q \<le> p)"
  using assms by (cases a; cases b) (simp_all add: descKey_le)

lemma lex_pair_fst:
  fixes a c :: "'a::linorder" and b e :: "'b::linorder"
  shows "(a, b) \<le> (c, e) \<Longrightarrow> a \<le> c"
  by (auto simp: less_eq_prod_def)

lemma lex_pair_snd:
  fixes a :: "'a::linorder" and b e :: "'b::linorder"
  shows "(a, b) \<le> (a, e) \<Longrightarrow> b \<le> e"
  by (auto simp: less_eq_prod_def)

lemma sorted_map_nth:
  "sorted (map f xs) \<Longrightarrow> i < j \<Longrightarrow> j < length xs \<Longrightarrow> f (xs ! i) \<le> f (xs ! j)"
  using sorted_nth_mono [of "map f xs" i j] by simp

text \<open>Of two different rows equal in the keys of a query, either can come first.\<close>

lemma tie_open:
  fixes k :: "'a \<Rightarrow> 'k::linorder"
  assumes "r1 \<in> set xs" "r2 \<in> set xs" "r1 \<noteq> r2" "k r1 = k r2"
  shows "\<exists>(tie :: 'a \<Rightarrow> nat) i j. i < j \<and> j < length xs
           \<and> sort_key (\<lambda>r. (k r, tie r)) xs ! i = r1
           \<and> sort_key (\<lambda>r. (k r, tie r)) xs ! j = r2"
proof -
  define tie :: "'a \<Rightarrow> nat" where "tie = (\<lambda>r. if r = r1 then 0 else 1)"
  define L where "L = sort_key (\<lambda>r. (k r, tie r)) xs"
  have s: "sorted (map (\<lambda>r. (k r, tie r)) L)" by (simp add: L_def)
  have len: "length L = length xs" by (simp add: L_def)
  from assms(1) have "r1 \<in> set L" by (simp add: L_def)
  then obtain i where i: "i < length L" "L ! i = r1" by (auto simp: in_set_conv_nth)
  from assms(2) have "r2 \<in> set L" by (simp add: L_def)
  then obtain j where j: "j < length L" "L ! j = r2" by (auto simp: in_set_conv_nth)
  from i j assms(3) have ne: "i \<noteq> j" by auto
  have "\<not> j < i"
  proof
    assume "j < i"
    from sorted_map_nth [OF s this i(1)]
    have "(k r2, tie r2) \<le> (k r1, tie r1)" by (simp add: i j)
    then have "tie r2 \<le> tie r1" using assms(4) by (auto dest: lex_pair_snd)
    with assms(3) show False by (simp add: tie_def)
  qed
  with ne have "i < j" by simp
  with j i show ?thesis unfolding L_def len [unfolded L_def] by blast
qed

text \<open>
  C2 as stated: the candidates handed to the Dispatcher are ordered by priority descending
  with ties broken by the most recent update, in an order that is the same for identical
  inputs, and contain no inactive rule and no rule whose \<open>activationMode\<close> excludes the
  trigger path. Neither listing of the storage module does all of this.
  \<open>getActiveByUserId\<close> ("sorted by priority DESC") orders by priority only and does not
  look at \<open>activationMode\<close>: for user \<open>u1\<close> it returns the manual-only \<open>rule_2\<close>, and the
  order of \<open>rule_2\<close> and \<open>rule_3\<close>, equal in priority, is the engine's: one execution
  returns \<open>rule_2\<close> first, although \<open>rule_3\<close> was updated later, and another returns
  \<open>rule_3\<close> first, on the same table. A rule without a stored priority is sorted first and
  returned with priority 0, before \<open>rule_3\<close> of priority 5. \<open>getByUserId\<close> breaks ties by
  \<open>updatedAt\<close> but returns the inactive \<open>rule_5\<close>. Whatever the engine's choice among
  equal rows, \<open>rule_2\<close> and \<open>rule_5\<close> are returned.
\<close>

theorem candidate_order_counterexample:
  "select_activeByUserId ex_tableOrder ex_db3 ''u1'' = [ex_rule2, ex_rule3]
   \<and> select_activeByUserId ex_rule3First ex_db3 ''u1'' = [ex_rule3, ex_rule2]
   \<and> rules_getActiveByUserId False ex_tableOrder ex_db3 ''u1''
       = [mapRuleRow (ruleRowObject False ex_rule2), mapRuleRow (ruleRowObject False ex_rule3)]
   \<and> activationMode (mapRuleRow (ruleRowObject False ex_rule2)) = JStr ''manual''
   \<and> c_priority ex_rule2 = Some 5 \<and> c_priority ex_rule3 = Some 5
   \<and> c_updatedAt ex_rule2 = Some 1793000000000 \<and> c_updatedAt ex_rule3 = Some 1793400000000
   \<and> map priority (rules_getActiveByUserId False ex_tableOrder ex_db4 ''u1'') = [JNum 0, JNum 5]
   \<and> map priority (rules_getActiveByUserId False ex_rule3First ex_db4 ''u1'') = [JNum 0, JNum 5]
   \<and> select_byUserId ex_tableOrder ex_db3 ''u1'' = [ex_rule5, ex_rule3, ex_rule2]
   \<and> c_isActive ex_rule5 = Some False
   \<and> (\<forall>tie. mapRuleRow (ruleRowObject False ex_rule2)
                \<in> set (rules_getActiveByUserId False tie ex_db3 ''u1''))
   \<and> (\<forall>tie. mapRuleRow (ruleRowObject False ex_rule5)
                \<in> set (rules_getByUserId False tie ex_db3 ''u1''))"
proof -
  have c: "select_activeByUserId ex_tableOrder ex_db3 ''u1'' = [ex_rule2, ex_rule3]
   \<and> select_activeByUserId ex_rule3First ex_db3 ''u1'' = [ex_rule3, ex_rule2]
   \<and> rules_getActiveByUserId False ex_tableOrder ex_db3 ''u1''
       = [mapRuleRow (ruleRowObject False ex_rule2), mapRuleRow (ruleRowObject False ex_rule3)]
   \<and> activationMode (mapRuleRow (ruleRowObject False ex_rule2)) = JStr ''manual''
   \<and> c_priority ex_rule2 = Some 5 \<and> c_priority ex_rule3 = Some 5
   \<and> c_updatedAt ex_rule2 = Some 1793000000000 \<and> c_updatedAt ex_rule3 = Some 1793400000000
   \<and> map priority (rules_getActiveByUserId False ex_tableOrder ex_db4 ''u1'') = [JNum 0, JNum 5]
   \<and> map priority (rules_getActiveByUserId False ex_rule3First ex_db4 ''u1'') = [JNum 0, JNum 5]
   \<and> select_byUserId ex_tableOrder ex_db3 ''u1'' = [ex_rule5, ex_rule3, ex_rule2]
   \<and> c_isActive ex_rule5 = Some False"
    by code_simp
  have m: "ex_rule2 \<in> set (filter (\<lambda>r. c_userId r = Some ''u1'' \<and> c_isActive r = Some True)
                            (ruleTable ex_db3))"
    "ex_rule5 \<in> set (filter (\<lambda>r. c_userId r = Some ''u1'') (ruleTable ex_db3))"
    by code_simp+
  have a: "mapRuleRow (ruleRowObject False ex_rule2)
                \<in> set (rules_getActiveByUserId False tie ex_db3 ''u1'')" for tie
    unfolding rules_getActiveByUserId_def select_activeByUserId_def set_map set_sort
    using m(1) by (rule imageI)
  have b: "mapRuleRow (ruleRowObject False ex_rule5)
                \<in> set (rules_getByUserId False tie ex_db3 ''u1'')" for tie
    unfolding rules_getByUserId_def select_byUserId_def set_map set_sort
    using m(2) by (rule imageI)
  from c a b show ?thesis by blast
qed

text \<open>
  C2, amended: for every user and at every execution, \<open>getActiveByUserId\<close> returns exactly
  that user's rules whose \<open>isActive\<close> is true, whatever their \<open>activationMode\<close> and accepted
  triggers, each once, ordered by stored priority descending, the rules without a stored
  priority first; these are returned with priority 0. The order of rules of equal priority
  is left to the database: of two such rules either can come first. \<open>getByUserId\<close> returns
  exactly that user's rules, active or not, each once, in the same order of priority, rules
  of equal priority by \<open>updatedAt\<close> descending (those without one first), and rules equal
  in both in an order left to the database. Both return the row mapper's image of the
  selected rows, in their order.
\<close>

theorem candidate_order:
  "mset (select_activeByUserId tie d uid)
     = mset (filter (\<lambda>r. c_userId r = Some uid \<and> c_isActive r = Some True) (ruleTable d))
   \<and> (\<forall>i j. i < j \<and> j < length (select_activeByUserId tie d uid) \<longrightarrow>
         c_priority (select_activeByUserId tie d uid ! i) = None
         \<or> (\<exists>p q. c_priority (select_activeByUserId tie d uid ! i) = Some p
                  \<and> c_priority (select_activeByUserId tie d uid ! j) = Some q \<and> q \<le> p))
   \<and> rules_getActiveByUserId sb tie d uid
     = map (\<lambda>r. mapRuleRow (ruleRowObject sb r)) (select_activeByUserId tie d uid)
   \<and> (\<forall>i. i < length (select_activeByUserId tie d uid) \<longrightarrow>
         priority (rules_getActiveByUserId sb tie d uid ! i)
           = JNum (case c_priority (select_activeByUserId tie d uid ! i) of
                     None \<Rightarrow> 0 | Some p \<Rightarrow> p))
   \<and> (\<forall>rule\<in>set (rules_getActiveByUserId sb tie d uid). isActive rule)
   \<and> (\<forall>r1 r2. r1 \<in> set (select_activeByUserId tie d uid)
           \<and> r2 \<in> set (select_activeByUserId tie d uid) \<and> r1 \<noteq> r2
           \<and> c_priority r1 = c_priority r2 \<longrightarrow>
         (\<exists>tie' i j. i < j \<and> j < length (select_activeByUserId tie' d uid)
            \<and> select_activeByUserId tie' d uid ! i = r1
            \<and> select_activeByUserId tie' d uid ! j = r2))
   \<and> mset (select_byUserId tie d uid)
     = mset (filter (\<lambda>r. c_userId r = Some uid) (ruleTable d))
   \<and> (\<forall>i j. i < j \<and> j < length (select_byUserId tie d uid) \<longrightarrow>
         c_priority (select_byUserId tie d uid ! i) = None
         \<or> (\<exists>p q. c_priority (select_byUserId tie d uid ! i) = Some p
                  \<and> c_priority (select_byUserId tie d uid ! j) = Some q \<and> q \<le> p))
   \<and> (\<forall>i j. i < j \<and> j < length (select_byUserId tie d uid)
           \<and> c_priority (select_byUserId tie d uid ! i)
             = c_priority (select_byUserId tie d uid ! j) \<longrightarrow>
         c_updatedAt (select_byUserId tie d uid ! i) = None
         \<or> (\<exists>t u. c_updatedAt (select_byUserId tie d uid ! i) = Some t
                  \<and> c_updatedAt (select_byUserId tie d uid ! j) = Some u \<and> u \<le> t))
   \<and> rules_getByUserId sb tie d uid
     = map (\<lambda>r. mapRuleRow (ruleRowObject sb r)) (select_byUserId tie d uid)
   \<and> (\<forall>r1 r2. r1 \<in> set (select_byUserId tie d uid)
           \<and> r2 \<in> set (select_byUserId tie d uid) \<and> r1 \<noteq> r2
           \<and> c_priority r1 = c_priority r2 \<and> c_updatedAt r1 = c_updatedAt r2 \<longrightarrow>
         (\<exists>tie' i j. i < j \<and> j < length (select_byUserId tie' d uid)
            \<and> select_byUserId tie' d uid ! i = r1
            \<and> select_byUserId tie' d uid ! j = r2))"
proof -
  let ?A = "select_activeByUserId tie d uid" and ?B = "select_byUserId tie d uid"
  let ?FA = "filter (\<lambda>r. c_userId r = Some uid \<and> c_isActive r = Some True) (ruleTable d)"
  let ?FB = "filter (\<lambda>r. c_userId r = Some uid) (ruleTable d)"
  have sa: "sorted (map (\<lambda>r. (descKey (c_priority r), tie r)) ?A)"
    by (simp add: select_activeByUserId_def)
  have sb': "sorted (map (\<lambda>r. ((descKey (c_priority r), descKey (c_updatedAt r)), tie r)) ?B)"
    by (simp add: select_byUserId_def)
  have a0: "mset ?A = mset ?FA"
    by (simp add: select_activeByUserId_def)
  have setA: "set ?A = set ?FA"
    by (simp add: select_activeByUserId_def)
  have a1: "\<forall>i j. i < j \<and> j < length ?A \<longrightarrow>
         c_priority (?A ! i) = None
         \<or> (\<exists>p q. c_priority (?A ! i) = Some p \<and> c_priority (?A ! j) = Some q \<and> q \<le> p)"
  proof (intro allI impI)
    fix i j
    assume h: "i < j \<and> j < length ?A"
    then have "(descKey (c_priority (?A ! i)), tie (?A ! i)) \<le> (descKey (c_priority (?A ! j)), tie (?A ! j))"
      using sorted_map_nth [OF sa, of i j] by simp
    then have "descKey (c_priority (?A ! i)) \<le> descKey (c_priority (?A ! j))"
      by (rule lex_pair_fst)
    then show "c_priority (?A ! i) = None
         \<or> (\<exists>p q. c_priority (?A ! i) = Some p \<and> c_priority (?A ! j) = Some q \<and> q \<le> p)"
      by (rule descKey_order)
  qed
  have a2: "rules_getActiveByUserId sb tie d uid = map (\<lambda>r. mapRuleRow (ruleRowObject sb r)) ?A"
    by (simp add: rules_getActiveByUserId_def)
  have a3: "\<forall>i. i < length ?A \<longrightarrow>
         priority (rules_getActiveByUserId sb tie d uid ! i)
           = JNum (case c_priority (?A ! i) of None \<Rightarrow> 0 | Some p \<Rightarrow> p)"
    by (simp add: a2 mapped_priority)
  have a4: "\<forall>rule\<in>set (rules_getActiveByUserId sb tie d uid). isActive rule"
    using setA by (auto simp: a2 mapped_isActive)
  have a5: "\<forall>r1 r2. r1 \<in> set ?A \<and> r2 \<in> set ?A \<and> r1 \<noteq> r2
           \<and> c_priority r1 = c_priority r2 \<longrightarrow>
         (\<exists>tie' i j. i < j \<and> j < length (select_activeByUserId tie' d uid)
            \<and> select_activeByUserId tie' d uid ! i = r1
            \<and> select_activeByUserId tie' d uid ! j = r2)"
  proof (intro allI impI)
    fix r1 r2
    assume h: "r1 \<in> set ?A \<and> r2 \<in> set ?A \<and> r1 \<noteq> r2 \<and> c_priority r1 = c_priority r2"
    then have m: "r1 \<in> set ?FA" "r2 \<in> set ?FA" "r1 \<noteq> r2"
      "descKey (c_priority r1) = descKey (c_priority r2)"
      unfolding setA by simp_all
    from tie_open [of r1 ?FA r2 "\<lambda>r. descKey (c_priority r)", OF m]
    show "\<exists>tie' i j. i < j \<and> j < length (select_activeByUserId tie' d uid)
            \<and> select_activeByUserId tie' d uid ! i = r1
            \<and> select_activeByUserId tie' d uid ! j = r2"
      unfolding select_activeByUserId_def length_sort .
  qed
  have b0: "mset ?B = mset ?FB"
    by (simp add: select_byUserId_def)
  have setB: "set ?B = set ?FB"
    by (simp add: select_byUserId_def)
  have key: "(descKey (c_priority (?B ! i)), descKey (c_updatedAt (?B ! i)))
               \<le> (descKey (c_priority (?B ! j)), descKey (c_updatedAt (?B ! j)))"
    if "i < j" "j < length ?B" for i j
    using sorted_map_nth [OF sb' that] by (rule lex_pair_fst)
  have b1: "\<forall>i j. i < j \<and> j < length ?B \<longrightarrow>
         c_priority (?B ! i) = None
         \<or> (\<exists>p q. c_priority (?B ! i) = Some p \<and> c_priority (?B ! j) = Some q \<and> q \<le> p)"
  proof (intro allI impI)
    fix i j
    assume h: "i < j \<and> j < length ?B"
    with key [of i j] have "descKey (c_priority (?B ! i)) \<le> descKey (c_priority (?B ! j))"
      by (auto dest: lex_pair_fst)
    then show "c_priority (?B ! i) = None
         \<or> (\<exists>p q. c_priority (?B ! i) = Some p \<and> c_priority (?B ! j) = Some q \<and> q \<le> p)"
      by (rule descKey_order)
  qed
  have b2: "\<forall>i j. i < j \<and> j < length ?B \<and> c_priority (?B ! i) = c_priority (?B ! j) \<longrightarrow>
         c_updatedAt (?B ! i) = None
         \<or> (\<exists>t u. c_updatedAt (?B ! i) = Some t \<and> c_updatedAt (?B ! j) = Some u \<and> u \<le> t)"
  proof (intro allI impI)
    fix i j
    assume h: "i < j \<and> j < length ?B \<and> c_priority (?B ! i) = c_priority (?B ! j)"
    with key [of i j] have "descKey (c_updatedAt (?B ! i)) \<le> descKey (c_updatedAt (?B ! j))"
      by (auto dest: lex_pair_snd)
    then show "c_updatedAt (?B ! i) = None
         \<or> (\<exists>t u. c_updatedAt (?B ! i) = Some t \<and> c_updatedAt (?B ! j) = Some u \<and> u \<le> t)"
      by (rule descKey_order)
  qed
  have b3: "rules_getByUserId sb tie d uid = map (\<lambda>r. mapRuleRow (ruleRowObject sb r)) ?B"
    by (simp add: rules_getByUserId_def)
  have b4: "\<forall>r1 r2. r1 \<in> set ?B \<and> r2 \<in> set ?B \<and> r1 \<noteq> r2
           \<and> c_priority r1 = c_priority r2 \<and> c_updatedAt r1 = c_updatedAt r2 \<longrightarrow>
         (\<exists>tie' i j. i < j \<and> j < length (select_byUserId tie' d uid)
            \<and> select_byUserId tie' d uid ! i = r1
            \<and> select_byUserId tie' d uid ! j = r2)"
  proof (intro allI impI)
    fix r1 r2
    assume h: "r1 \<in> set ?B \<and> r2 \<in> set ?B \<and> r1 \<noteq> r2
           \<and> c_priority r1 = c_priority r2 \<and> c_updatedAt r1 = c_updatedAt r2"
    then have m: "r1 \<in> set ?FB" "r2 \<in> set ?FB" "r1 \<noteq> r2"
      "(descKey (c_priority r1), descKey (c_updatedAt r1))
         = (descKey (c_priority r2), descKey (c_updatedAt r2))"
      unfolding setB by simp_all
    from tie_open [of r1 ?FB r2 "\<lambda>r. (descKey (c_priority r), descKey (c_updatedAt r))", OF m]
    show "\<exists>tie' i j. i < j \<and> j < length (select_byUserId tie' d uid)
            \<and> select_byUserId tie' d uid ! i = r1
            \<and> select_byUserId tie' d uid ! j = r2"
      unfolding select_byUserId_def length_sort .
  qed
  from a0 a1 a2 a3 a4 a5 b0 b1 b2 b3 b4 show ?thesis by (intro conjI)
qed

text \<open>
  The amended C2 on the rules of user \<open>u1\<close>, and on \<open>rule_6\<close>, which has no stored
  priority.
\<close>

theorem candidate_order_witness:
  "select_byUserId ex_tableOrder ex_db3 ''u1'' = [ex_rule5, ex_rule3, ex_rule2]
   \<and> c_priority ex_rule5 = Some 9 \<and> c_priority ex_rule3 = Some 5 \<and> c_priority ex_rule2 = Some 5
   \<and> c_updatedAt ex_rule3 = Some 1793400000000 \<and> c_updatedAt ex_rule2 = Some 1793000000000
   \<and> (5::int) \<le> 9 \<and> (1793000000000::int) \<le> 1793400000000
   \<and> select_activeByUserId ex_tableOrder ex_db3 ''u1'' = [ex_rule2, ex_rule3]
   \<and> ex_rule3 \<noteq> ex_rule2
   \<and> mset [ex_rule2, ex_rule3]
       = mset (filter (\<lambda>r. c_userId r = Some ''u1'' \<and> c_isActive r = Some True) (ruleTable ex_db3))
   \<and> isActive (mapRuleRow (ruleRowObject False ex_rule2))
   \<and> isActive (mapRuleRow (ruleRowObject False ex_rule3))
   \<and> (\<exists>tie i j. i < j \<and> j < length (select_activeByUserId tie ex_db3 ''u1'')
          \<and> select_activeByUserId tie ex_db3 ''u1'' ! i = ex_rule3
          \<and> select_activeByUserId tie ex_db3 ''u1'' ! j = ex_rule2)
   \<and> select_activeByUserId ex_tableOrder ex_db4 ''u1'' = [ex_unranked, ex_rule3]
   \<and> c_priority ex_unranked = None
   \<and> priority (rules_getActiveByUserId False ex_tableOrder ex_db4 ''u1'' ! 0) = JNum 0
   \<and> priority (rules_getActiveByUserId False ex_tableOrder ex_db4 ''u1'' ! 1) = JNum 5"
proof -
  note T = candidate_order [where d = ex_db3 and uid = "''u1''" and sb = False
      and tie = ex_tableOrder]
  note U = candidate_order [where d = ex_db4 and uid = "''u1''" and sb = False
      and tie = ex_tableOrder]
  have B: "select_byUserId ex_tableOrder ex_db3 ''u1'' = [ex_rule5, ex_rule3, ex_rule2]" by code_simp
  have A: "select_activeByUserId ex_tableOrder ex_db3 ''u1'' = [ex_rule2, ex_rule3]" by code_simp
  have C: "select_activeByUserId ex_tableOrder ex_db4 ''u1'' = [ex_unranked, ex_rule3]" by code_simp
  have f: "c_priority ex_rule5 = Some 9" "c_priority ex_rule3 = Some 5" "c_priority ex_rule2 = Some 5"
    "c_updatedAt ex_rule3 = Some 1793400000000" "c_updatedAt ex_rule2 = Some 1793000000000"
    by (simp_all add: ex_rule1_def ex_rule2_def ex_rule3_def ex_rule5_def)
  have g: "c_priority ex_unranked = None" by (simp add: ex_unranked_def)
  have ne: "ex_rule3 \<noteq> ex_rule2" by code_simp
  note prio = T [THEN conjunct2, THEN conjunct2, THEN conjunct2, THEN conjunct2, THEN conjunct2, THEN conjunct2, THEN conjunct2, THEN conjunct1]
  from prio [rule_format, of 0 1] have p: "(5::int) \<le> 9" by (simp add: B f)
  note ties = T [THEN conjunct2, THEN conjunct2, THEN conjunct2, THEN conjunct2, THEN conjunct2, THEN conjunct2, THEN conjunct2, THEN conjunct2, THEN conjunct1]
  from ties [rule_format, of 1 2]
  have u: "(1793000000000::int) \<le> 1793400000000" by (simp add: B f)
  note m = T [THEN conjunct1, unfolded A]
  note mapped = T [THEN conjunct2, THEN conjunct2, THEN conjunct1]
  note act = T [THEN conjunct2, THEN conjunct2, THEN conjunct2, THEN conjunct2, THEN conjunct1]
  from act have a: "isActive (mapRuleRow (ruleRowObject False ex_rule2))"
    "isActive (mapRuleRow (ruleRowObject False ex_rule3))"
    by (simp_all add: mapped A)
  note op = T [THEN conjunct2, THEN conjunct2, THEN conjunct2, THEN conjunct2, THEN conjunct2, THEN conjunct1]
  from op [rule_format, of ex_rule3 ex_rule2]
  have o: "\<exists>tie i j. i < j \<and> j < length (select_activeByUserId tie ex_db3 ''u1'')
          \<and> select_activeByUserId tie ex_db3 ''u1'' ! i = ex_rule3
          \<and> select_activeByUserId tie ex_db3 ''u1'' ! j = ex_rule2"
    by (simp add: A f ne)
  note ret = U [THEN conjunct2, THEN conjunct2, THEN conjunct2, THEN conjunct1]
  from ret [rule_format, of 0] have z0:
    "priority (rules_getActiveByUserId False ex_tableOrder ex_db4 ''u1'' ! 0) = JNum 0"
    by (simp add: C g)
  from ret [rule_format, of 1] have z1:
    "priority (rules_getActiveByUserId False ex_tableOrder ex_db4 ''u1'' ! 1) = JNum 5"
    by (simp add: C f)
  from B f p u A ne m a o C g z0 z1 show ?thesis by (intro conjI)
qed

section \<open>C4: statistics\<close>

subsection \<open>Rounding to a Number\<close>

lemma bitlen_powi:
  fixes p :: int
  assumes "0 < p"
  shows "2 powi (bitlen p - 1) \<le> (of_int p :: rat)" "(of_int p :: rat) < 2 powi (bitlen p)"
proof -
  from bitlen_bounds [OF assms]
  have b: "2 ^ nat (bitlen p - 1) \<le> p" "p < 2 ^ nat (bitlen p)" by simp_all
  have pos: "1 \<le> bitlen p"
    using assms bitlen_eq_zero_iff [of p] bitlen_nonneg [of p] by linarith
  from b(1) have "(of_int (2 ^ nat (bitlen p - 1)) :: rat) \<le> of_int p"
    by (simp only: of_int_le_iff)
  then show "2 powi (bitlen p - 1) \<le> (of_int p :: rat)"
    using pos by (simp add: power_int_nonneg_exp)
  from b(2) have "(of_int p :: rat) < of_int (2 ^ nat (bitlen p))"
    by (simp only: of_int_less_iff)
  then show "(of_int p :: rat) < 2 powi (bitlen p)"
    using pos by (simp add: power_int_nonneg_exp)
qed


lemma powi_pred: "(2::rat) powi (e - 1) = 2 powi e / 2"
  by (simp add: power_int_diff)

lemma binade_bounds:
  assumes "x \<noteq> 0"
  shows "2 powi (binade x) \<le> \<bar>x\<bar>" "\<bar>x\<bar> < 2 powi (binade x + 1)"
proof -
  obtain p q where pq: "quotient_of \<bar>x\<bar> = (p, q)" by (cases "quotient_of \<bar>x\<bar>")
  from quotient_of_denom_pos [OF pq] have q: "0 < q" .
  from quotient_of_div [OF pq] have x: "\<bar>x\<bar> = of_int p / of_int q" .
  from assms have "0 < \<bar>x\<bar>" by simp
  with x q have p: "0 < p" by (simp add: zero_less_divide_iff)
  define e where "e = bitlen p - bitlen q"
  have Q: "(0::rat) < of_int q" using q by simp
  note bp = bitlen_powi [OF p] and bq = bitlen_powi [OF q]
  have split: "(2::rat) powi (bitlen p) = 2 powi (e + 1) * 2 powi (bitlen q - 1)"
    "(2::rat) powi (bitlen p - 1) = 2 powi (e - 1) * 2 powi (bitlen q)"
    by (simp_all add: e_def flip: power_int_add)
  have "(of_int p :: rat) < 2 powi (e + 1) * 2 powi (bitlen q - 1)"
    using bp(2) split(1) by simp
  also have "\<dots> \<le> 2 powi (e + 1) * of_int q"
    using bq(1) by (intro mult_left_mono) simp_all
  finally have up: "\<bar>x\<bar> < 2 powi (e + 1)"
    using Q by (simp add: x pos_divide_less_eq)
  have "(2::rat) powi (e - 1) * of_int q \<le> 2 powi (e - 1) * 2 powi (bitlen q)"
    using bq(2) by (intro mult_left_mono) simp_all
  also have "\<dots> \<le> of_int p"
    using bp(1) split(2) by simp
  finally have lo: "2 powi (e - 1) \<le> \<bar>x\<bar>"
    using Q by (simp add: x pos_le_divide_eq)
  have b: "binade x = (if 2 powi e \<le> \<bar>x\<bar> then e else e - 1)"
    by (simp add: binade_def pq e_def Let_def)
  show "2 powi (binade x) \<le> \<bar>x\<bar>"
    using lo by (simp add: b)
  show "\<bar>x\<bar> < 2 powi (binade x + 1)"
    using up by (auto simp: b)
qed

lemma binade_eqI:
  assumes "2 powi k \<le> \<bar>x\<bar>" "\<bar>x\<bar> < 2 powi (k + 1)"
  shows "binade x = k"
proof -
  have "0 < \<bar>x\<bar>"
    using assms(1) zero_less_power_int [of "2::rat" k] by linarith
  then have x: "x \<noteq> 0" by simp
  note b = binade_bounds [OF x]
  have "(2::rat) powi k < 2 powi (binade x + 1)" using assms(1) b(2) by linarith
  then have 1: "k < binade x + 1"
    by (metis linorder_not_less one_le_numeral power_int_increasing)
  have "(2::rat) powi (binade x) < 2 powi (k + 1)" using assms(2) b(1) by linarith
  then have 2: "binade x < k + 1"
    by (metis linorder_not_less one_le_numeral power_int_increasing)
  from 1 2 show ?thesis by simp
qed









lemma powi_53: "(2::rat) powi (e - 53) = 2 powi (e - 52) / 2"
  using powi_pred [of "e - 52"] by simp











subsection \<open>The statistics of a scope\<close>






section \<open>C6 and C9: the manual invocation route\<close>

lemma rules_getByIdAndUser_first:
  "filter (\<lambda>r. c_id r = rid \<and> c_userId r = Some uid) (ruleTable d) = r # rest \<Longrightarrow>
     rules_getByIdAndUser sb d rid uid = Some (mapRuleRow (ruleRowObject sb r))"
  by (simp add: rules_getByIdAndUser_def)

lemma rules_getByIdAndUser_none:
  "\<forall>r\<in>set (ruleTable d). c_id r = rid \<longrightarrow> c_userId r \<noteq> Some uid \<Longrightarrow>
     rules_getByIdAndUser sb d rid uid = None"
proof -
  assume a: "\<forall>r\<in>set (ruleTable d). c_id r = rid \<longrightarrow> c_userId r \<noteq> Some uid"
  then have "filter (\<lambda>r. c_id r = rid \<and> c_userId r = Some uid) (ruleTable d) = []"
    by (auto simp: filter_empty_conv)
  then show ?thesis by (simp add: rules_getByIdAndUser_def)
qed

lemma rules_getByIdAndUser_Some:
  assumes "rules_getByIdAndUser sb d rid uid = Some rule"
  shows "\<exists>r\<in>set (ruleTable d). c_id r = rid \<and> c_userId r = Some uid
           \<and> rule = mapRuleRow (ruleRowObject sb r)"
proof -
  from assms obtain r rest
    where f: "filter (\<lambda>r. c_id r = rid \<and> c_userId r = Some uid) (ruleTable d) = r # rest"
    by (auto simp: rules_getByIdAndUser_def split: list.splits)
  then have "r \<in> set (filter (\<lambda>r. c_id r = rid \<and> c_userId r = Some uid) (ruleTable d))" by simp
  then have "r \<in> set (ruleTable d)" "c_id r = rid" "c_userId r = Some uid" by simp_all
  moreover from assms f have "rule = mapRuleRow (ruleRowObject sb r)"
    by (simp add: rules_getByIdAndUser_def)
  ultimately show ?thesis by blast
qed

lemma POST_rule_lookup:
  assumes "req_ruleId b = JStr rid" and "rid \<noteq> []"
  shows "POST sb clock pm (Some s) (Some b) d =
    (case rules_getByIdAndUser sb d rid (session_userId s) of
       None \<Rightarrow> (errorResponse 404 ''Rule not found'', d)
     | Some rule \<Rightarrow>
         if \<not> isActive rule
         then (errorResponse 400 ''Rule is not active'', d)
         else if activationMode rule \<noteq> JStr ''manual'' \<and> activationMode rule \<noteq> JStr ''all''
         then (errorResponse 400 ''Rule does not support manual invocation'', d)
         else POST sb clock pm (Some s) (Some b) d)"
  using assms by (simp add: POST_def split: option.splits)

text \<open>
  C6: a signed-in user invokes a rule of theirs by id. If the stored rule is not active the
  route answers 400 with "Rule is not active"; if it is active and its \<open>activationMode\<close> is
  neither \<open>'manual'\<close> nor \<open>'all'\<close> (or null, which reads as \<open>'trigger'\<close>) it answers 400 with
  "Rule does not support manual invocation". In both cases the state is returned as it
  was, so no log entry is written, and the answer and the state are the same whatever
  \<open>processManual\<close> is: it is not called, and no step is executed.
\<close>

theorem invoke_rejected:
  assumes "req_ruleId b = JStr rid" and "rid \<noteq> []"
      and "filter (\<lambda>r. c_id r = rid \<and> c_userId r = Some (session_userId s)) (ruleTable d) = r # rest"
  shows "(c_isActive r \<noteq> Some True \<longrightarrow>
            POST sb clock pm (Some s) (Some b) d = (errorResponse 400 ''Rule is not active'', d))
       \<and> (c_isActive r = Some True \<and> c_activationMode r \<noteq> Some ''manual''
            \<and> c_activationMode r \<noteq> Some ''all'' \<longrightarrow>
            POST sb clock pm (Some s) (Some b) d
              = (errorResponse 400 ''Rule does not support manual invocation'', d))
       \<and> (c_isActive r \<noteq> Some True \<or> c_activationMode r \<noteq> Some ''manual''
            \<and> c_activationMode r \<noteq> Some ''all'' \<longrightarrow>
            status (fst (POST sb clock pm (Some s) (Some b) d)) = 400
            \<and> snd (POST sb clock pm (Some s) (Some b) d) = d
            \<and> logTable (snd (POST sb clock pm (Some s) (Some b) d)) = logTable d
            \<and> POST sb clock pm (Some s) (Some b) d = POST sb clock pm' (Some s) (Some b) d)"
proof -
  let ?rule = "mapRuleRow (ruleRowObject sb r)"
  have get: "rules_getByIdAndUser sb d rid (session_userId s) = Some ?rule"
    using assms(3) by (rule rules_getByIdAndUser_first)
  have act: "isActive ?rule = (c_isActive r = Some True)" by (rule mapped_isActive)
  have mode: "activationMode ?rule \<noteq> JStr ''manual'' \<and> activationMode ?rule \<noteq> JStr ''all''"
    if "c_activationMode r \<noteq> Some ''manual'' \<and> c_activationMode r \<noteq> Some ''all''"
    using that by (auto simp: mapped_activationMode split: option.splits)
  have inactive: "POST sb clock p (Some s) (Some b) d = (errorResponse 400 ''Rule is not active'', d)"
    if "c_isActive r \<noteq> Some True" for p
    using that by (simp add: POST_rule_lookup [OF assms(1,2)] get act)
  have unsupported: "POST sb clock p (Some s) (Some b) d
              = (errorResponse 400 ''Rule does not support manual invocation'', d)"
    if "c_isActive r = Some True" "c_activationMode r \<noteq> Some ''manual'' \<and> c_activationMode r \<noteq> Some ''all''"
    for p
    using that mode by (simp add: POST_rule_lookup [OF assms(1,2)] get act)
  have either: "status (fst (POST sb clock pm (Some s) (Some b) d)) = 400
            \<and> snd (POST sb clock pm (Some s) (Some b) d) = d
            \<and> logTable (snd (POST sb clock pm (Some s) (Some b) d)) = logTable d
            \<and> POST sb clock pm (Some s) (Some b) d = POST sb clock pm' (Some s) (Some b) d"
    if "c_isActive r \<noteq> Some True \<or> c_activationMode r \<noteq> Some ''manual''
            \<and> c_activationMode r \<noteq> Some ''all''"
  proof (cases "c_isActive r = Some True")
    case True
    with that have m: "c_activationMode r \<noteq> Some ''manual'' \<and> c_activationMode r \<noteq> Some ''all''"
      by simp
    show ?thesis by (simp add: unsupported [OF True m] errorResponse_def)
  next
    case False
    show ?thesis by (simp add: inactive [OF False] errorResponse_def)
  qed
  from inactive unsupported either show ?thesis by blast
qed

text \<open>
  C6 for user \<open>u1\<close>: the trigger-only \<open>rule_3\<close> and the inactive \<open>rule_5\<close> are rejected and
  the log is as before, where the same request for the manual \<open>rule_2\<close> writes a log entry.
\<close>

theorem invoke_rejected_witness:
  "req_ruleId (ex_invoke ''rule_3'') = JStr ''rule_3''
   \<and> filter (\<lambda>r. c_id r = ''rule_3'' \<and> c_userId r = Some (session_userId ex_session)) (ruleTable ex_db3)
       = [ex_rule3]
   \<and> c_isActive ex_rule3 = Some True \<and> c_activationMode ex_rule3 = Some ''trigger''
   \<and> POST False 1793448000000 ex_processManual (Some ex_session) (Some (ex_invoke ''rule_3'')) ex_db3
       = (errorResponse 400 ''Rule does not support manual invocation'', ex_db3)
   \<and> req_ruleId (ex_invoke ''rule_5'') = JStr ''rule_5''
   \<and> filter (\<lambda>r. c_id r = ''rule_5'' \<and> c_userId r = Some (session_userId ex_session)) (ruleTable ex_db3)
       = [ex_rule5]
   \<and> c_isActive ex_rule5 = Some False
   \<and> POST False 1793448000000 ex_processManual (Some ex_session) (Some (ex_invoke ''rule_5'')) ex_db3
       = (errorResponse 400 ''Rule is not active'', ex_db3)
   \<and> logTable (snd (POST False 1793448000000 ex_processManual (Some ex_session)
                        (Some (ex_invoke ''rule_3'')) ex_db3)) = logTable ex_db3
   \<and> logTable (snd (POST False 1793448000000 ex_processManual (Some ex_session)
                        (Some (ex_invoke ''rule_2'')) ex_db3)) \<noteq> logTable ex_db3"
proof -
  have r3: "req_ruleId (ex_invoke ''rule_3'') = JStr ''rule_3''" "''rule_3'' \<noteq> []"
    "filter (\<lambda>r. c_id r = ''rule_3'' \<and> c_userId r = Some (session_userId ex_session)) (ruleTable ex_db3)
       = [ex_rule3]"
    "c_isActive ex_rule3 = Some True" "c_activationMode ex_rule3 = Some ''trigger''"
    by code_simp+
  have r5: "req_ruleId (ex_invoke ''rule_5'') = JStr ''rule_5''" "''rule_5'' \<noteq> []"
    "filter (\<lambda>r. c_id r = ''rule_5'' \<and> c_userId r = Some (session_userId ex_session)) (ruleTable ex_db3)
       = [ex_rule5]"
    "c_isActive ex_rule5 = Some False"
    by code_simp+
  note T3 = invoke_rejected [where sb = False and clock = 1793448000000 and pm = ex_processManual
      and pm' = ex_processManual, OF r3(1) r3(2) r3(3)]
  note T5 = invoke_rejected [where sb = False and clock = 1793448000000 and pm = ex_processManual
      and pm' = ex_processManual, OF r5(1) r5(2) r5(3)]
  from T3 r3 have p3: "POST False 1793448000000 ex_processManual (Some ex_session) (Some (ex_invoke ''rule_3'')) ex_db3
       = (errorResponse 400 ''Rule does not support manual invocation'', ex_db3)"
    by simp
  from T3 r3 have l3: "logTable (snd (POST False 1793448000000 ex_processManual (Some ex_session)
                        (Some (ex_invoke ''rule_3'')) ex_db3)) = logTable ex_db3"
    by simp
  from T5 r5 have p5: "POST False 1793448000000 ex_processManual (Some ex_session) (Some (ex_invoke ''rule_5'')) ex_db3
       = (errorResponse 400 ''Rule is not active'', ex_db3)"
    by simp
  have ok: "logTable (snd (POST False 1793448000000 ex_processManual (Some ex_session)
                        (Some (ex_invoke ''rule_2'')) ex_db3)) \<noteq> logTable ex_db3"
    by code_simp
  from r3 r5 p3 p5 l3 ok show ?thesis by (intro conjI)
qed

text \<open>
  C9: when a rule with the requested id exists but no rule with that id belongs to the
  signed-in user, the route answers 404 with "Rule not found", returns the state as it was
  (no log entry), and does so whatever \<open>processManual\<close> is (no step is executed). The
  lookup is scoped to the user: whatever \<open>getByIdAndUser\<close> returns comes from a row with
  that id and that user id.
\<close>

theorem invoke_other_users_rule:
  assumes "req_ruleId b = JStr rid" and "rid \<noteq> []"
      and "r \<in> set (ruleTable d)" and "c_id r = rid"
      and "\<forall>r'\<in>set (ruleTable d). c_id r' = rid \<longrightarrow> c_userId r' \<noteq> Some (session_userId s)"
  shows "POST sb clock pm (Some s) (Some b) d = (errorResponse 404 ''Rule not found'', d)
       \<and> status (fst (POST sb clock pm (Some s) (Some b) d)) = 404
       \<and> logTable (snd (POST sb clock pm (Some s) (Some b) d)) = logTable d
       \<and> POST sb clock pm (Some s) (Some b) d = POST sb clock pm' (Some s) (Some b) d
       \<and> (\<forall>uid rule. rules_getByIdAndUser sb d rid uid = Some rule \<longrightarrow>
             (\<exists>r'\<in>set (ruleTable d). c_id r' = rid \<and> c_userId r' = Some uid
                  \<and> rule = mapRuleRow (ruleRowObject sb r')))"
proof -
  have none: "rules_getByIdAndUser sb d rid (session_userId s) = None"
    using assms(5) by (rule rules_getByIdAndUser_none)
  have nf: "POST sb clock p (Some s) (Some b) d = (errorResponse 404 ''Rule not found'', d)" for p
    by (simp add: POST_rule_lookup [OF assms(1,2)] none)
  have scoped: "\<forall>uid rule. rules_getByIdAndUser sb d rid uid = Some rule \<longrightarrow>
             (\<exists>r'\<in>set (ruleTable d). c_id r' = rid \<and> c_userId r' = Some uid
                  \<and> rule = mapRuleRow (ruleRowObject sb r'))"
    using rules_getByIdAndUser_Some by blast
  show ?thesis by (simp add: nf errorResponse_def scoped)
qed

text \<open>C9 for user \<open>u1\<close> asking for \<open>rule_4\<close> of user \<open>u2\<close>.\<close>

theorem invoke_other_users_rule_witness:
  "req_ruleId (ex_invoke ''rule_4'') = JStr ''rule_4''
   \<and> ex_rule4 \<in> set (ruleTable ex_db3) \<and> c_id ex_rule4 = ''rule_4''
   \<and> c_userId ex_rule4 = Some ''u2'' \<and> session_userId ex_session = ''u1''
   \<and> POST False 1793448000000 ex_processManual (Some ex_session) (Some (ex_invoke ''rule_4'')) ex_db3
       = (errorResponse 404 ''Rule not found'', ex_db3)
   \<and> status (fst (POST False 1793448000000 ex_processManual (Some ex_session)
                      (Some (ex_invoke ''rule_4'')) ex_db3)) = 404
   \<and> logTable (snd (POST False 1793448000000 ex_processManual (Some ex_session)
                        (Some (ex_invoke ''rule_4'')) ex_db3)) = logTable ex_db3"
proof -
  have h: "req_ruleId (ex_invoke ''rule_4'') = JStr ''rule_4''" "''rule_4'' \<noteq> []"
    "ex_rule4 \<in> set (ruleTable ex_db3)" "c_id ex_rule4 = ''rule_4''"
    "\<forall>r'\<in>set (ruleTable ex_db3). c_id r' = ''rule_4'' \<longrightarrow> c_userId r' \<noteq> Some (session_userId ex_session)"
    by code_simp+
  have o: "c_userId ex_rule4 = Some ''u2''" "session_userId ex_session = ''u1''"
    by code_simp+
  note T = invoke_other_users_rule [where sb = False and clock = 1793448000000
      and pm = ex_processManual and pm' = ex_processManual, OF h]
  from T have "POST False 1793448000000 ex_processManual (Some ex_session) (Some (ex_invoke ''rule_4'')) ex_db3
       = (errorResponse 404 ''Rule not found'', ex_db3)"
    and "status (fst (POST False 1793448000000 ex_processManual (Some ex_session)
                      (Some (ex_invoke ''rule_4'')) ex_db3)) = 404"
    and "logTable (snd (POST False 1793448000000 ex_processManual (Some ex_session)
                        (Some (ex_invoke ''rule_4'')) ex_db3)) = logTable ex_db3"
    by blast+
  with h o show ?thesis by (intro conjI)
qed

section \<open>C8: deleting a rule\<close>

lemma log_create_Inr:
  assumes "log_create dbNow newId sb d entry = Inr (e, d1)"
  shows "d1 = d\<lparr>logTable := logTable d @ [insertedLog newId entry dbNow]\<rparr>
         \<and> newId \<notin> set (map l_id (logTable d))"
  using assms by (auto simp: log_create_def Let_def split: if_splits list.splits)

lemma log_create_succeeds:
  assumes "newId \<notin> set (map l_id (logTable d))"
  shows "\<exists>e d1. log_create dbNow newId sb d entry = Inr (e, d1)"
proof -
  have "l_id (insertedLog newId entry dbNow) = newId" by (simp add: insertedLog_def)
  then have "filter (\<lambda>r. l_id r = newId) (logTable d @ [insertedLog newId entry dbNow])
               = [insertedLog newId entry dbNow]"
    using assms by (intro filter_fresh_snoc) simp_all
  then show ?thesis using assms by (simp add: log_create_def Let_def)
qed

text \<open>
  C8: deleting a rule removes every row with its id from the rule table, so that no lookup
  by id, no listing for a user and no listing of due schedules returns it afterwards, and
  leaves the log table as it was: an entry written before the deletion is still there, with
  the \<open>ruleId\<close> and \<open>ruleName\<close> it was written with, and the statistics are unchanged.
\<close>

theorem delete_keeps_logs:
  "logTable (snd (rules_delete d rid)) = logTable d
   \<and> log_getStatsByRuleId (snd (rules_delete d rid)) rid = log_getStatsByRuleId d rid
   \<and> log_getStats (snd (rules_delete d rid)) uid = log_getStats d uid
   \<and> ruleTable (snd (rules_delete d rid)) = filter (\<lambda>r. c_id r \<noteq> rid) (ruleTable d)
   \<and> fst (rules_delete d rid) = (\<exists>r\<in>set (ruleTable d). c_id r = rid)
   \<and> rules_get sb (snd (rules_delete d rid)) rid = None
   \<and> rules_getByIdAndUser sb (snd (rules_delete d rid)) rid uid = None
   \<and> (\<forall>r\<in>set (select_activeByUserId tie (snd (rules_delete d rid)) uid). c_id r \<noteq> rid)
   \<and> (\<forall>r\<in>set (select_byUserId tie (snd (rules_delete d rid)) uid). c_id r \<noteq> rid)
   \<and> (\<forall>r\<in>set (select_scheduledRulesDue tie dbNow (snd (rules_delete d rid))). c_id r \<noteq> rid)
   \<and> (\<forall>rule\<in>set (rules_getActiveByUserId sb tie (snd (rules_delete d rid)) uid). id' rule \<noteq> JStr rid)
   \<and> (\<forall>rule\<in>set (rules_getScheduledRulesDue sb tie dbNow (snd (rules_delete d rid))).
         id' rule \<noteq> JStr rid)
   \<and> (\<forall>e d1. log_create dbNow newId sb d entry = Inr (e, d1) \<longrightarrow>
         logTable (snd (rules_delete d1 rid)) = logTable d @ [insertedLog newId entry dbNow]
         \<and> l_ruleId (insertedLog newId entry dbNow) = li_ruleId entry
         \<and> l_ruleName (insertedLog newId entry dbNow) = li_ruleName entry)
   \<and> (newId \<notin> set (map l_id (logTable d)) \<longrightarrow>
         (\<exists>e d1. log_create dbNow newId sb d entry = Inr (e, d1)))"
proof -
  let ?d = "snd (rules_delete d rid)"
  have rt: "ruleTable ?d = filter (\<lambda>r. c_id r \<noteq> rid) (ruleTable d)"
    and lt: "logTable ?d = logTable d"
    by (simp_all add: rules_delete_def)
  have gone: "\<forall>r\<in>set (ruleTable ?d). c_id r \<noteq> rid" by (simp add: rt)
  have s1: "log_getStatsByRuleId ?d rid = log_getStatsByRuleId d rid"
    by (simp add: log_getStatsByRuleId_def select_stats_def lt)
  have s2: "log_getStats ?d uid = log_getStats d uid"
    by (simp add: log_getStats_def select_stats_def lt)
  have f: "fst (rules_delete d rid) = (\<exists>r\<in>set (ruleTable d). c_id r = rid)"
    by (auto simp: rules_delete_def filter_empty_conv)
  have g1: "rules_get sb ?d rid = None"
    by (simp add: rules_get_def rt)
  have g2: "rules_getByIdAndUser sb ?d rid uid = None"
    by (rule rules_getByIdAndUser_none) (simp add: rt)
  have q1: "\<forall>r\<in>set (select_activeByUserId tie ?d uid). c_id r \<noteq> rid"
    using gone by (auto simp: select_activeByUserId_def)
  have q2: "\<forall>r\<in>set (select_byUserId tie ?d uid). c_id r \<noteq> rid"
    using gone by (auto simp: select_byUserId_def)
  have q3: "\<forall>r\<in>set (select_scheduledRulesDue tie dbNow ?d). c_id r \<noteq> rid"
    using gone by (auto simp: select_scheduledRulesDue_def)
  have m1: "\<forall>rule\<in>set (rules_getActiveByUserId sb tie ?d uid). id' rule \<noteq> JStr rid"
    using q1 by (auto simp: rules_getActiveByUserId_def mapped_id)
  have m2: "\<forall>rule\<in>set (rules_getScheduledRulesDue sb tie dbNow ?d). id' rule \<noteq> JStr rid"
    using q3 by (auto simp: rules_getScheduledRulesDue_def mapped_id)
  have l1: "\<forall>e d1. log_create dbNow newId sb d entry = Inr (e, d1) \<longrightarrow>
         logTable (snd (rules_delete d1 rid)) = logTable d @ [insertedLog newId entry dbNow]
         \<and> l_ruleId (insertedLog newId entry dbNow) = li_ruleId entry
         \<and> l_ruleName (insertedLog newId entry dbNow) = li_ruleName entry"
  proof (intro allI impI)
    fix e d1
    assume "log_create dbNow newId sb d entry = Inr (e, d1)"
    from log_create_Inr [OF this]
    have "d1 = d\<lparr>logTable := logTable d @ [insertedLog newId entry dbNow]\<rparr>" by simp
    then show "logTable (snd (rules_delete d1 rid)) = logTable d @ [insertedLog newId entry dbNow]
         \<and> l_ruleId (insertedLog newId entry dbNow) = li_ruleId entry
         \<and> l_ruleName (insertedLog newId entry dbNow) = li_ruleName entry"
      by (simp add: rules_delete_def insertedLog_def)
  qed
  have l2: "newId \<notin> set (map l_id (logTable d)) \<longrightarrow>
         (\<exists>e d1. log_create dbNow newId sb d entry = Inr (e, d1))"
    using log_create_succeeds by blast
  from lt s1 s2 rt f g1 g2 q1 q2 q3 m1 m2 l1 l2 show ?thesis by (intro conjI)
qed

text \<open>C8: deleting \<open>rule_2\<close>, also after a log entry for it has been written.\<close>

theorem delete_keeps_logs_witness:
  "logTable (snd (rules_delete ex_db3 ''rule_2'')) = [ex_log1, ex_log2, ex_log3]
   \<and> fst (rules_delete ex_db3 ''rule_2'')
   \<and> rules_get False (snd (rules_delete ex_db3 ''rule_2'')) ''rule_2'' = None
   \<and> ex_rule3 \<in> set (select_activeByUserId ex_tableOrder (snd (rules_delete ex_db3 ''rule_2'')) ''u1'')
   \<and> c_id ex_rule3 \<noteq> ''rule_2''
   \<and> ''log_4'' \<notin> set (map l_id (logTable ex_db3))
   \<and> (\<exists>e d1. log_create 1793460000000 ''log_4'' False ex_db3 ex_logEntry = Inr (e, d1)
         \<and> logTable (snd (rules_delete d1 ''rule_2''))
             = [ex_log1, ex_log2, ex_log3, insertedLog ''log_4'' ex_logEntry 1793460000000]
         \<and> l_ruleId (insertedLog ''log_4'' ex_logEntry 1793460000000) = ''rule_2''
         \<and> l_ruleName (insertedLog ''log_4'' ex_logEntry 1793460000000) = ''Manual helper'')"
proof -
  note T = delete_keeps_logs [where d = ex_db3 and rid = "''rule_2''" and uid = "''u1''"
      and sb = False and dbNow = 1793460000000 and newId = "''log_4''" and entry = ex_logEntry
      and tie = ex_tableOrder]
  have logs: "logTable ex_db3 = [ex_log1, ex_log2, ex_log3]" by (simp add: ex_db3_def)
  have ex: "\<exists>r\<in>set (ruleTable ex_db3). c_id r = ''rule_2''" by code_simp
  have mem: "ex_rule3 \<in> set (select_activeByUserId ex_tableOrder (snd (rules_delete ex_db3 ''rule_2'')) ''u1'')"
    by code_simp
  have fresh: "''log_4'' \<notin> set (map l_id (logTable ex_db3))" by code_simp
  have entry: "li_ruleId ex_logEntry = ''rule_2''" "li_ruleName ex_logEntry = ''Manual helper''"
    by (simp_all add: ex_logEntry_def)
  from T have t1: "logTable (snd (rules_delete ex_db3 ''rule_2'')) = logTable ex_db3" by blast
  from T ex have t2: "fst (rules_delete ex_db3 ''rule_2'')" by blast
  from T have t3: "rules_get False (snd (rules_delete ex_db3 ''rule_2'')) ''rule_2'' = None" by blast
  from T mem have t4: "c_id ex_rule3 \<noteq> ''rule_2''" by blast
  from T fresh obtain e d1
    where c: "log_create 1793460000000 ''log_4'' False ex_db3 ex_logEntry = Inr (e, d1)" by blast
  from T c have t5: "logTable (snd (rules_delete d1 ''rule_2''))
         = logTable ex_db3 @ [insertedLog ''log_4'' ex_logEntry 1793460000000]
       \<and> l_ruleId (insertedLog ''log_4'' ex_logEntry 1793460000000) = li_ruleId ex_logEntry
       \<and> l_ruleName (insertedLog ''log_4'' ex_logEntry 1793460000000) = li_ruleName ex_logEntry"
    by blast
  from t1 t2 t3 mem t4 fresh c t5 show ?thesis
    by (auto simp: logs entry)
qed


section \<open>C10: the row mapper's defaults\<close>

lemma js_or_default:
  "truthy b \<Longrightarrow> truthy (js_or a b)"
  "truthy b \<Longrightarrow> js_or a b \<noteq> Null"
  "truthy b \<Longrightarrow> js_or a b \<noteq> Undefined"
  by (auto simp: js_or_def)

lemma mapRuleRow_fields:
  "priority (mapRuleRow row) = js_or (getProp row ''priority'') (JNum 0)"
  "executionCount (mapRuleRow row) =
     js_or (js_nullish (getProp row ''executionCount'') (getProp row ''execution_count'')) (JNum 0)"
  "acceptedTriggers (mapRuleRow row) =
     js_or (js_or (getProp row ''acceptedTriggers'') (getProp row ''accepted_triggers'')) (JArr [])"
  "executionSteps (mapRuleRow row) =
     js_or (js_or (getProp row ''executionSteps'') (getProp row ''execution_steps'')) (JArr [])"
  "outputConfig (mapRuleRow row) =
     js_or (js_or (getProp row ''outputConfig'') (getProp row ''output_config'')) defaultOutputConfig"
  "activationMode (mapRuleRow row) =
     js_or (js_or (getProp row ''activationMode'') (getProp row ''activation_mode'')) (JStr ''trigger'')"
  "isActive (mapRuleRow row) =
     Boolean (js_nullish (getProp row ''isActive'') (getProp row ''is_active''))"
  "scheduleEnabled (mapRuleRow row) =
     Boolean (js_nullish (getProp row ''scheduleEnabled'') (getProp row ''schedule_enabled''))"
  by (simp_all add: mapRuleRow_def Let_def)

text \<open>
  C10: every rule a read operation returns has gone through \<open>mapRuleRow\<close>, and whatever
  the row holds, \<open>priority\<close>, \<open>executionCount\<close>, \<open>acceptedTriggers\<close>,
  \<open>executionSteps\<close>, \<open>activationMode\<close> and \<open>outputConfig\<close> of the result are neither
  \<open>null\<close> nor \<open>undefined\<close>, and \<open>isActive\<close> and \<open>scheduleEnabled\<close> are booleans.
  Where the row's columns are null (under both spellings of the column name, or in the stored
  row under either naming convention), \<open>priority\<close> and \<open>executionCount\<close> are 0,
  \<open>acceptedTriggers\<close> and \<open>executionSteps\<close> are the empty list, \<open>activationMode\<close> is
  \<open>'trigger'\<close>, \<open>outputConfig\<close> is \<open>{platform: 'none', format: 'summary'}\<close>, and
  \<open>isActive\<close> and \<open>scheduleEnabled\<close> are false; a stored boolean is returned as it is, and
  so are a stored priority and execution count, stored triggers, steps and output
  configuration (JSON values that JavaScript takes as true, as every array and object is)
  and a stored activation mode that is not the empty string.
\<close>

theorem mapRuleRow_defaults:
  "priority (mapRuleRow row) \<noteq> Null \<and> priority (mapRuleRow row) \<noteq> Undefined
   \<and> executionCount (mapRuleRow row) \<noteq> Null \<and> executionCount (mapRuleRow row) \<noteq> Undefined
   \<and> acceptedTriggers (mapRuleRow row) \<noteq> Null \<and> acceptedTriggers (mapRuleRow row) \<noteq> Undefined
   \<and> executionSteps (mapRuleRow row) \<noteq> Null \<and> executionSteps (mapRuleRow row) \<noteq> Undefined
   \<and> activationMode (mapRuleRow row) \<noteq> Null \<and> activationMode (mapRuleRow row) \<noteq> Undefined
   \<and> outputConfig (mapRuleRow row) \<noteq> Null \<and> outputConfig (mapRuleRow row) \<noteq> Undefined
   \<and> (nullish (getProp row ''priority'') \<longrightarrow> priority (mapRuleRow row) = JNum 0)
   \<and> (nullish (getProp row ''executionCount'') \<and> nullish (getProp row ''execution_count'')
         \<longrightarrow> executionCount (mapRuleRow row) = JNum 0)
   \<and> (nullish (getProp row ''acceptedTriggers'') \<and> nullish (getProp row ''accepted_triggers'')
         \<longrightarrow> acceptedTriggers (mapRuleRow row) = JArr [])
   \<and> (nullish (getProp row ''executionSteps'') \<and> nullish (getProp row ''execution_steps'')
         \<longrightarrow> executionSteps (mapRuleRow row) = JArr [])
   \<and> (nullish (getProp row ''activationMode'') \<and> nullish (getProp row ''activation_mode'')
         \<longrightarrow> activationMode (mapRuleRow row) = JStr ''trigger'')
   \<and> (nullish (getProp row ''outputConfig'') \<and> nullish (getProp row ''output_config'')
         \<longrightarrow> outputConfig (mapRuleRow row)
               = JObj [(''platform'', JStr ''none''), (''format'', JStr ''summary'')])
   \<and> (nullish (getProp row ''isActive'') \<and> nullish (getProp row ''is_active'')
         \<longrightarrow> isActive (mapRuleRow row) = False)
   \<and> (nullish (getProp row ''scheduleEnabled'') \<and> nullish (getProp row ''schedule_enabled'')
         \<longrightarrow> scheduleEnabled (mapRuleRow row) = False)
   \<and> (c_priority r = None \<longrightarrow> priority (mapRuleRow (ruleRowObject sb r)) = JNum 0)
   \<and> (c_executionCount r = None \<longrightarrow> executionCount (mapRuleRow (ruleRowObject sb r)) = JNum 0)
   \<and> (c_acceptedTriggers r = None \<longrightarrow> acceptedTriggers (mapRuleRow (ruleRowObject sb r)) = JArr [])
   \<and> (c_executionSteps r = None \<longrightarrow> executionSteps (mapRuleRow (ruleRowObject sb r)) = JArr [])
   \<and> (c_activationMode r = None \<longrightarrow>
         activationMode (mapRuleRow (ruleRowObject sb r)) = JStr ''trigger'')
   \<and> (c_outputConfig r = None \<longrightarrow>
         outputConfig (mapRuleRow (ruleRowObject sb r))
           = JObj [(''platform'', JStr ''none''), (''format'', JStr ''summary'')])
   \<and> isActive (mapRuleRow (ruleRowObject sb r)) = (c_isActive r = Some True)
   \<and> scheduleEnabled (mapRuleRow (ruleRowObject sb r)) = (c_scheduleEnabled r = Some True)
   \<and> (c_priority r = Some p \<longrightarrow> priority (mapRuleRow (ruleRowObject sb r)) = JNum p)
   \<and> (c_executionCount r = Some n \<longrightarrow>
         executionCount (mapRuleRow (ruleRowObject sb r)) = JNum n)
   \<and> (c_acceptedTriggers r = Some ts \<and> truthy ts \<longrightarrow>
         acceptedTriggers (mapRuleRow (ruleRowObject sb r)) = ts)
   \<and> (c_executionSteps r = Some steps \<and> truthy steps \<longrightarrow>
         executionSteps (mapRuleRow (ruleRowObject sb r)) = steps)
   \<and> (c_activationMode r = Some mode \<and> mode \<noteq> [] \<longrightarrow>
         activationMode (mapRuleRow (ruleRowObject sb r)) = JStr mode)
   \<and> (c_outputConfig r = Some cfg \<and> truthy cfg \<longrightarrow>
         outputConfig (mapRuleRow (ruleRowObject sb r)) = cfg)
   \<and> (\<forall>rule. rules_get sb d rid = Some rule \<or> rules_getByIdAndUser sb d rid uid = Some rule
            \<or> rule \<in> set (rules_getByUserId sb tie d uid)
            \<or> rule \<in> set (rules_getActiveByUserId sb tie d uid)
            \<or> rule \<in> set (rules_getManualRules sb tie d uid)
            \<or> rule \<in> set (rules_getScheduledRulesDue sb tie dbNow d)
         \<longrightarrow> (\<exists>stored\<in>set (ruleTable d). rule = mapRuleRow (ruleRowObject sb stored))
             \<and> \<not> nullish (priority rule) \<and> \<not> nullish (executionCount rule)
             \<and> \<not> nullish (acceptedTriggers rule) \<and> \<not> nullish (executionSteps rule)
             \<and> \<not> nullish (activationMode rule) \<and> \<not> nullish (outputConfig rule))"
proof -
  have t: "truthy (JNum 0) = False" "truthy (JArr [])" "truthy (JStr ''trigger'')"
    "truthy defaultOutputConfig"
    by (simp_all add: defaultOutputConfig_def)
  have p: "priority (mapRuleRow row) \<noteq> Null \<and> priority (mapRuleRow row) \<noteq> Undefined"
    by (auto simp: mapRuleRow_fields js_or_def)
  have e: "executionCount (mapRuleRow row) \<noteq> Null \<and> executionCount (mapRuleRow row) \<noteq> Undefined"
    by (auto simp: mapRuleRow_fields js_or_def)
  have a: "acceptedTriggers (mapRuleRow row) \<noteq> Null \<and> acceptedTriggers (mapRuleRow row) \<noteq> Undefined"
    by (simp add: mapRuleRow_fields js_or_default)
  have s: "executionSteps (mapRuleRow row) \<noteq> Null \<and> executionSteps (mapRuleRow row) \<noteq> Undefined"
    by (simp add: mapRuleRow_fields js_or_default)
  have m: "activationMode (mapRuleRow row) \<noteq> Null \<and> activationMode (mapRuleRow row) \<noteq> Undefined"
    by (simp add: mapRuleRow_fields js_or_default)
  have oc: "outputConfig (mapRuleRow row) \<noteq> Null \<and> outputConfig (mapRuleRow row) \<noteq> Undefined"
    by (simp add: mapRuleRow_fields js_or_default t)
  have n1: "nullish (getProp row ''priority'') \<longrightarrow> priority (mapRuleRow row) = JNum 0"
    by (auto simp: nullish_def mapRuleRow_fields js_or_def)
  have n2: "nullish (getProp row ''executionCount'') \<and> nullish (getProp row ''execution_count'')
         \<longrightarrow> executionCount (mapRuleRow row) = JNum 0"
    by (auto simp: nullish_def mapRuleRow_fields js_or_def js_nullish_def)
  have n3: "nullish (getProp row ''acceptedTriggers'') \<and> nullish (getProp row ''accepted_triggers'')
         \<longrightarrow> acceptedTriggers (mapRuleRow row) = JArr []"
    by (auto simp: nullish_def mapRuleRow_fields js_or_def)
  have n4: "nullish (getProp row ''executionSteps'') \<and> nullish (getProp row ''execution_steps'')
         \<longrightarrow> executionSteps (mapRuleRow row) = JArr []"
    by (auto simp: nullish_def mapRuleRow_fields js_or_def)
  have n5: "nullish (getProp row ''activationMode'') \<and> nullish (getProp row ''activation_mode'')
         \<longrightarrow> activationMode (mapRuleRow row) = JStr ''trigger''"
    by (auto simp: nullish_def mapRuleRow_fields js_or_def)
  have n6: "nullish (getProp row ''outputConfig'') \<and> nullish (getProp row ''output_config'')
         \<longrightarrow> outputConfig (mapRuleRow row)
               = JObj [(''platform'', JStr ''none''), (''format'', JStr ''summary'')]"
    by (auto simp: nullish_def mapRuleRow_fields js_or_def defaultOutputConfig_def)
  have n7: "nullish (getProp row ''isActive'') \<and> nullish (getProp row ''is_active'')
         \<longrightarrow> isActive (mapRuleRow row) = False"
    by (auto simp: nullish_def mapRuleRow_fields js_nullish_def Boolean_def)
  have n8: "nullish (getProp row ''scheduleEnabled'') \<and> nullish (getProp row ''schedule_enabled'')
         \<longrightarrow> scheduleEnabled (mapRuleRow row) = False"
    by (auto simp: nullish_def mapRuleRow_fields js_nullish_def Boolean_def)
  have d1: "c_priority r = None \<longrightarrow> priority (mapRuleRow (ruleRowObject sb r)) = JNum 0"
    by (simp add: mapRuleRow_fields ruleRowObject_def getProp_def colKey_def jsInteger_def js_or_def)
  have d2: "c_executionCount r = None \<longrightarrow> executionCount (mapRuleRow (ruleRowObject sb r)) = JNum 0"
    by (simp add: mapRuleRow_fields ruleRowObject_def getProp_def colKey_def jsInteger_def js_or_def
        js_nullish_def)
  have d3: "c_acceptedTriggers r = None \<longrightarrow> acceptedTriggers (mapRuleRow (ruleRowObject sb r)) = JArr []"
    by (simp add: mapRuleRow_fields ruleRowObject_def getProp_def colKey_def jsJson_def js_or_def)
  have d4: "c_executionSteps r = None \<longrightarrow> executionSteps (mapRuleRow (ruleRowObject sb r)) = JArr []"
    by (simp add: mapRuleRow_fields ruleRowObject_def getProp_def colKey_def jsJson_def js_or_def)
  have d5: "c_activationMode r = None \<longrightarrow>
         activationMode (mapRuleRow (ruleRowObject sb r)) = JStr ''trigger''"
    by (simp add: mapped_activationMode)
  have d6: "c_outputConfig r = None \<longrightarrow>
         outputConfig (mapRuleRow (ruleRowObject sb r))
           = JObj [(''platform'', JStr ''none''), (''format'', JStr ''summary'')]"
    by (simp add: mapRuleRow_fields ruleRowObject_def getProp_def colKey_def jsJson_def js_or_def
        defaultOutputConfig_def)
  note d7 = mapped_isActive [of sb r] and d8 = mapped_scheduleEnabled [of sb r]
  have k1: "c_priority r = Some p \<longrightarrow> priority (mapRuleRow (ruleRowObject sb r)) = JNum p"
    by (simp add: mapped_priority)
  have k2: "c_executionCount r = Some n \<longrightarrow>
         executionCount (mapRuleRow (ruleRowObject sb r)) = JNum n"
    by (cases sb)
      (simp_all add: mapRuleRow_fields ruleRowObject_def getProp_def colKey_def jsInteger_def
        js_or_def js_nullish_def)
  have k3: "c_acceptedTriggers r = Some ts \<and> truthy ts \<longrightarrow>
         acceptedTriggers (mapRuleRow (ruleRowObject sb r)) = ts"
    by (cases sb)
      (simp_all add: mapRuleRow_fields ruleRowObject_def getProp_def colKey_def jsJson_def js_or_def)
  have k4: "c_executionSteps r = Some steps \<and> truthy steps \<longrightarrow>
         executionSteps (mapRuleRow (ruleRowObject sb r)) = steps"
    by (cases sb)
      (simp_all add: mapRuleRow_fields ruleRowObject_def getProp_def colKey_def jsJson_def js_or_def)
  have k5: "c_activationMode r = Some mode \<and> mode \<noteq> [] \<longrightarrow>
         activationMode (mapRuleRow (ruleRowObject sb r)) = JStr mode"
    by (simp add: mapped_activationMode)
  have k6: "c_outputConfig r = Some cfg \<and> truthy cfg \<longrightarrow>
         outputConfig (mapRuleRow (ruleRowObject sb r)) = cfg"
    by (cases sb)
      (simp_all add: mapRuleRow_fields ruleRowObject_def getProp_def colKey_def jsJson_def js_or_def)
  have keep: "\<not> nullish (js_or v w)" if "\<not> nullish w" for v w
    using that by (cases v) (auto simp: js_or_def nullish_def)
  have nn: "\<not> nullish (priority (mapRuleRow x)) \<and> \<not> nullish (executionCount (mapRuleRow x))
             \<and> \<not> nullish (acceptedTriggers (mapRuleRow x)) \<and> \<not> nullish (executionSteps (mapRuleRow x))
             \<and> \<not> nullish (activationMode (mapRuleRow x)) \<and> \<not> nullish (outputConfig (mapRuleRow x))"
    for x
    unfolding mapRuleRow_fields
    by (intro conjI keep) (simp_all add: nullish_def defaultOutputConfig_def)
  have reads: "\<exists>stored\<in>set (ruleTable d). rule = mapRuleRow (ruleRowObject sb stored)"
    if "rules_get sb d rid = Some rule \<or> rules_getByIdAndUser sb d rid uid = Some rule
            \<or> rule \<in> set (rules_getByUserId sb tie d uid)
            \<or> rule \<in> set (rules_getActiveByUserId sb tie d uid)
            \<or> rule \<in> set (rules_getManualRules sb tie d uid)
            \<or> rule \<in> set (rules_getScheduledRulesDue sb tie dbNow d)" for rule
    using that
  proof (elim disjE)
    assume "rules_get sb d rid = Some rule"
    from rules_get_Some [OF this] show ?thesis by blast
  next
    assume "rules_getByIdAndUser sb d rid uid = Some rule"
    from rules_getByIdAndUser_Some [OF this] show ?thesis by blast
  next
    assume "rule \<in> set (rules_getByUserId sb tie d uid)"
    then show ?thesis by (auto simp: rules_getByUserId_def select_byUserId_def)
  next
    assume "rule \<in> set (rules_getActiveByUserId sb tie d uid)"
    then show ?thesis by (auto simp: rules_getActiveByUserId_def select_activeByUserId_def)
  next
    assume "rule \<in> set (rules_getManualRules sb tie d uid)"
    then show ?thesis by (auto simp: rules_getManualRules_def select_manualRules_def)
  next
    assume "rule \<in> set (rules_getScheduledRulesDue sb tie dbNow d)"
    then show ?thesis by (auto simp: rules_getScheduledRulesDue_def select_scheduledRulesDue_def)
  qed
  have rd: "\<forall>rule. rules_get sb d rid = Some rule \<or> rules_getByIdAndUser sb d rid uid = Some rule
            \<or> rule \<in> set (rules_getByUserId sb tie d uid)
            \<or> rule \<in> set (rules_getActiveByUserId sb tie d uid)
            \<or> rule \<in> set (rules_getManualRules sb tie d uid)
            \<or> rule \<in> set (rules_getScheduledRulesDue sb tie dbNow d)
         \<longrightarrow> (\<exists>stored\<in>set (ruleTable d). rule = mapRuleRow (ruleRowObject sb stored))
             \<and> \<not> nullish (priority rule) \<and> \<not> nullish (executionCount rule)
             \<and> \<not> nullish (acceptedTriggers rule) \<and> \<not> nullish (executionSteps rule)
             \<and> \<not> nullish (activationMode rule) \<and> \<not> nullish (outputConfig rule)"
  proof (intro allI impI)
    fix rule
    assume h: "rules_get sb d rid = Some rule \<or> rules_getByIdAndUser sb d rid uid = Some rule
            \<or> rule \<in> set (rules_getByUserId sb tie d uid)
            \<or> rule \<in> set (rules_getActiveByUserId sb tie d uid)
            \<or> rule \<in> set (rules_getManualRules sb tie d uid)
            \<or> rule \<in> set (rules_getScheduledRulesDue sb tie dbNow d)"
    from reads [OF h] obtain stored
      where st: "stored \<in> set (ruleTable d)" "rule = mapRuleRow (ruleRowObject sb stored)"
      by blast
    from st nn [of "ruleRowObject sb stored"]
    show "(\<exists>stored\<in>set (ruleTable d). rule = mapRuleRow (ruleRowObject sb stored))
             \<and> \<not> nullish (priority rule) \<and> \<not> nullish (executionCount rule)
             \<and> \<not> nullish (acceptedTriggers rule) \<and> \<not> nullish (executionSteps rule)
             \<and> \<not> nullish (activationMode rule) \<and> \<not> nullish (outputConfig rule)"
      by blast
  qed
  note nonnull = p [THEN conjunct1] p [THEN conjunct2] e [THEN conjunct1] e [THEN conjunct2]
    a [THEN conjunct1] a [THEN conjunct2] s [THEN conjunct1] s [THEN conjunct2]
    m [THEN conjunct1] m [THEN conjunct2] oc [THEN conjunct1] oc [THEN conjunct2]
  from nonnull n1 n2 n3 n4 n5 n6 n7 n8 d1 d2 d3 d4 d5 d6 d7 d8 k1 k2 k3 k4 k5 k6 rd
  show ?thesis
    by (intro conjI)
qed

text \<open>
  C10 on a Supabase row whose defaulted columns are all \<open>NULL\<close>, and on \<open>rule_1\<close>, whose
  stored values are returned.
\<close>

theorem mapRuleRow_defaults_witness:
  "nullish (getProp (ruleRowObject True ex_legacyRule) ''priority'')
   \<and> nullish (getProp (ruleRowObject True ex_legacyRule) ''executionCount'')
   \<and> nullish (getProp (ruleRowObject True ex_legacyRule) ''execution_count'')
   \<and> nullish (getProp (ruleRowObject True ex_legacyRule) ''acceptedTriggers'')
   \<and> nullish (getProp (ruleRowObject True ex_legacyRule) ''accepted_triggers'')
   \<and> nullish (getProp (ruleRowObject True ex_legacyRule) ''executionSteps'')
   \<and> nullish (getProp (ruleRowObject True ex_legacyRule) ''execution_steps'')
   \<and> nullish (getProp (ruleRowObject True ex_legacyRule) ''activationMode'')
   \<and> nullish (getProp (ruleRowObject True ex_legacyRule) ''activation_mode'')
   \<and> nullish (getProp (ruleRowObject True ex_legacyRule) ''outputConfig'')
   \<and> nullish (getProp (ruleRowObject True ex_legacyRule) ''output_config'')
   \<and> nullish (getProp (ruleRowObject True ex_legacyRule) ''isActive'')
   \<and> nullish (getProp (ruleRowObject True ex_legacyRule) ''is_active'')
   \<and> nullish (getProp (ruleRowObject True ex_legacyRule) ''scheduleEnabled'')
   \<and> nullish (getProp (ruleRowObject True ex_legacyRule) ''schedule_enabled'')
   \<and> c_priority ex_legacyRule = None \<and> c_executionCount ex_legacyRule = None
   \<and> c_acceptedTriggers ex_legacyRule = None \<and> c_executionSteps ex_legacyRule = None
   \<and> c_activationMode ex_legacyRule = None \<and> c_outputConfig ex_legacyRule = None
   \<and> priority (mapRuleRow (ruleRowObject True ex_legacyRule)) = JNum 0
   \<and> executionCount (mapRuleRow (ruleRowObject True ex_legacyRule)) = JNum 0
   \<and> acceptedTriggers (mapRuleRow (ruleRowObject True ex_legacyRule)) = JArr []
   \<and> executionSteps (mapRuleRow (ruleRowObject True ex_legacyRule)) = JArr []
   \<and> activationMode (mapRuleRow (ruleRowObject True ex_legacyRule)) = JStr ''trigger''
   \<and> outputConfig (mapRuleRow (ruleRowObject True ex_legacyRule))
       = JObj [(''platform'', JStr ''none''), (''format'', JStr ''summary'')]
   \<and> isActive (mapRuleRow (ruleRowObject True ex_legacyRule)) = False
   \<and> scheduleEnabled (mapRuleRow (ruleRowObject True ex_legacyRule)) = False
   \<and> rules_get True ex_legacyDb ''rule_0'' = Some (mapRuleRow (ruleRowObject True ex_legacyRule))
   \<and> \<not> nullish (priority (mapRuleRow (ruleRowObject True ex_legacyRule)))
   \<and> \<not> nullish (outputConfig (mapRuleRow (ruleRowObject True ex_legacyRule)))
   \<and> c_priority ex_rule1 = Some 5
   \<and> priority (mapRuleRow (ruleRowObject True ex_rule1)) = JNum 5
   \<and> c_activationMode ex_rule1 = Some ''scheduled''
   \<and> activationMode (mapRuleRow (ruleRowObject True ex_rule1)) = JStr ''scheduled''
   \<and> c_outputConfig ex_rule1 = Some (JObj [(''platform'', JStr ''slack''), (''format'', JStr ''summary'')])
   \<and> outputConfig (mapRuleRow (ruleRowObject True ex_rule1)) = JObj [(''platform'', JStr ''slack''), (''format'', JStr ''summary'')]"
proof -
  note S = mapRuleRow_defaults [where sb = True and r = ex_rule1 and p = 5
      and mode = "''scheduled''" and cfg = "JObj [(''platform'', JStr ''slack''), (''format'', JStr ''summary'')]"]
  have s: "c_priority ex_rule1 = Some 5" "c_activationMode ex_rule1 = Some ''scheduled''"
    "c_outputConfig ex_rule1 = Some (JObj [(''platform'', JStr ''slack''), (''format'', JStr ''summary'')])"
    by (simp_all add: ex_rule1_def)
  from S [THEN conjunct2, THEN conjunct2, THEN conjunct2, THEN conjunct2, THEN conjunct2, THEN conjunct2, THEN conjunct2, THEN conjunct2, THEN conjunct2, THEN conjunct2, THEN conjunct2, THEN conjunct2, THEN conjunct2, THEN conjunct2, THEN conjunct2, THEN conjunct2, THEN conjunct2, THEN conjunct2, THEN conjunct2, THEN conjunct2, THEN conjunct2, THEN conjunct2, THEN conjunct2, THEN conjunct2, THEN conjunct2, THEN conjunct2, THEN conjunct2, THEN conjunct2, THEN conjunct1] s(1)
  have s1: "priority (mapRuleRow (ruleRowObject True ex_rule1)) = JNum 5" by blast
  from S [THEN conjunct2, THEN conjunct2, THEN conjunct2, THEN conjunct2, THEN conjunct2, THEN conjunct2, THEN conjunct2, THEN conjunct2, THEN conjunct2, THEN conjunct2, THEN conjunct2, THEN conjunct2, THEN conjunct2, THEN conjunct2, THEN conjunct2, THEN conjunct2, THEN conjunct2, THEN conjunct2, THEN conjunct2, THEN conjunct2, THEN conjunct2, THEN conjunct2, THEN conjunct2, THEN conjunct2, THEN conjunct2, THEN conjunct2, THEN conjunct2, THEN conjunct2, THEN conjunct2, THEN conjunct2, THEN conjunct2, THEN conjunct2, THEN conjunct1] s(2)
  have s5: "activationMode (mapRuleRow (ruleRowObject True ex_rule1)) = JStr ''scheduled''" by simp
  from S [THEN conjunct2, THEN conjunct2, THEN conjunct2, THEN conjunct2, THEN conjunct2, THEN conjunct2, THEN conjunct2, THEN conjunct2, THEN conjunct2, THEN conjunct2, THEN conjunct2, THEN conjunct2, THEN conjunct2, THEN conjunct2, THEN conjunct2, THEN conjunct2, THEN conjunct2, THEN conjunct2, THEN conjunct2, THEN conjunct2, THEN conjunct2, THEN conjunct2, THEN conjunct2, THEN conjunct2, THEN conjunct2, THEN conjunct2, THEN conjunct2, THEN conjunct2, THEN conjunct2, THEN conjunct2, THEN conjunct2, THEN conjunct2, THEN conjunct2, THEN conjunct1] s(3)
  have s6: "outputConfig (mapRuleRow (ruleRowObject True ex_rule1)) = JObj [(''platform'', JStr ''slack''), (''format'', JStr ''summary'')]" by simp
  note T = mapRuleRow_defaults [where row = "ruleRowObject True ex_legacyRule" and sb = True
      and r = ex_legacyRule and d = ex_legacyDb and rid = "''rule_0''" and uid = "''u1''"
      and dbNow = 1793448000000 and tie = ex_tableOrder]
  have h: "nullish (getProp (ruleRowObject True ex_legacyRule) ''priority'')"
    "nullish (getProp (ruleRowObject True ex_legacyRule) ''executionCount'')"
    "nullish (getProp (ruleRowObject True ex_legacyRule) ''execution_count'')"
    "nullish (getProp (ruleRowObject True ex_legacyRule) ''acceptedTriggers'')"
    "nullish (getProp (ruleRowObject True ex_legacyRule) ''accepted_triggers'')"
    "nullish (getProp (ruleRowObject True ex_legacyRule) ''executionSteps'')"
    "nullish (getProp (ruleRowObject True ex_legacyRule) ''execution_steps'')"
    "nullish (getProp (ruleRowObject True ex_legacyRule) ''activationMode'')"
    "nullish (getProp (ruleRowObject True ex_legacyRule) ''activation_mode'')"
    "nullish (getProp (ruleRowObject True ex_legacyRule) ''outputConfig'')"
    "nullish (getProp (ruleRowObject True ex_legacyRule) ''output_config'')"
    "nullish (getProp (ruleRowObject True ex_legacyRule) ''isActive'')"
    "nullish (getProp (ruleRowObject True ex_legacyRule) ''is_active'')"
    "nullish (getProp (ruleRowObject True ex_legacyRule) ''scheduleEnabled'')"
    "nullish (getProp (ruleRowObject True ex_legacyRule) ''schedule_enabled'')"
    by code_simp+
  have c: "c_priority ex_legacyRule = None" "c_executionCount ex_legacyRule = None"
    "c_acceptedTriggers ex_legacyRule = None" "c_executionSteps ex_legacyRule = None"
    "c_activationMode ex_legacyRule = None" "c_outputConfig ex_legacyRule = None"
    by (simp_all add: ex_legacyRule_def)
  have g: "rules_get True ex_legacyDb ''rule_0'' = Some (mapRuleRow (ruleRowObject True ex_legacyRule))"
    by (simp add: rules_get_def ex_legacyDb_def ex_legacyRule_def)
  from T [THEN conjunct2, THEN conjunct2, THEN conjunct2, THEN conjunct2, THEN conjunct2, THEN conjunct2, THEN conjunct2, THEN conjunct2, THEN conjunct2, THEN conjunct2, THEN conjunct2, THEN conjunct2, THEN conjunct1] h(1)
  have r1: "priority (mapRuleRow (ruleRowObject True ex_legacyRule)) = JNum 0" by blast
  from T [THEN conjunct2, THEN conjunct2, THEN conjunct2, THEN conjunct2, THEN conjunct2, THEN conjunct2, THEN conjunct2, THEN conjunct2, THEN conjunct2, THEN conjunct2, THEN conjunct2, THEN conjunct2, THEN conjunct2, THEN conjunct1] h(2,3)
  have r2: "executionCount (mapRuleRow (ruleRowObject True ex_legacyRule)) = JNum 0" by blast
  from T [THEN conjunct2, THEN conjunct2, THEN conjunct2, THEN conjunct2, THEN conjunct2, THEN conjunct2, THEN conjunct2, THEN conjunct2, THEN conjunct2, THEN conjunct2, THEN conjunct2, THEN conjunct2, THEN conjunct2, THEN conjunct2, THEN conjunct1] h(4,5)
  have r3: "acceptedTriggers (mapRuleRow (ruleRowObject True ex_legacyRule)) = JArr []" by blast
  from T [THEN conjunct2, THEN conjunct2, THEN conjunct2, THEN conjunct2, THEN conjunct2, THEN conjunct2, THEN conjunct2, THEN conjunct2, THEN conjunct2, THEN conjunct2, THEN conjunct2, THEN conjunct2, THEN conjunct2, THEN conjunct2, THEN conjunct2, THEN conjunct1] h(6,7)
  have r4: "executionSteps (mapRuleRow (ruleRowObject True ex_legacyRule)) = JArr []" by blast
  from T [THEN conjunct2, THEN conjunct2, THEN conjunct2, THEN conjunct2, THEN conjunct2, THEN conjunct2, THEN conjunct2, THEN conjunct2, THEN conjunct2, THEN conjunct2, THEN conjunct2, THEN conjunct2, THEN conjunct2, THEN conjunct2, THEN conjunct2, THEN conjunct2, THEN conjunct1] h(8,9)
  have r5: "activationMode (mapRuleRow (ruleRowObject True ex_legacyRule)) = JStr ''trigger''" by blast
  from T [THEN conjunct2, THEN conjunct2, THEN conjunct2, THEN conjunct2, THEN conjunct2, THEN conjunct2, THEN conjunct2, THEN conjunct2, THEN conjunct2, THEN conjunct2, THEN conjunct2, THEN conjunct2, THEN conjunct2, THEN conjunct2, THEN conjunct2, THEN conjunct2, THEN conjunct2, THEN conjunct1] h(10,11)
  have r6: "outputConfig (mapRuleRow (ruleRowObject True ex_legacyRule))
      = JObj [(''platform'', JStr ''none''), (''format'', JStr ''summary'')]" by blast
  from T [THEN conjunct2, THEN conjunct2, THEN conjunct2, THEN conjunct2, THEN conjunct2, THEN conjunct2, THEN conjunct2, THEN conjunct2, THEN conjunct2, THEN conjunct2, THEN conjunct2, THEN conjunct2, THEN conjunct2, THEN conjunct2, THEN conjunct2, THEN conjunct2, THEN conjunct2, THEN conjunct2, THEN conjunct1] h(12,13)
  have r7: "isActive (mapRuleRow (ruleRowObject True ex_legacyRule)) = False" by blast
  from T [THEN conjunct2, THEN conjunct2, THEN conjunct2, THEN conjunct2, THEN conjunct2, THEN conjunct2, THEN conjunct2, THEN conjunct2, THEN conjunct2, THEN conjunct2, THEN conjunct2, THEN conjunct2, THEN conjunct2, THEN conjunct2, THEN conjunct2, THEN conjunct2, THEN conjunct2, THEN conjunct2, THEN conjunct2, THEN conjunct1] h(14,15)
  have r8: "scheduleEnabled (mapRuleRow (ruleRowObject True ex_legacyRule)) = False" by blast
  from g have dj: "rules_get True ex_legacyDb ''rule_0'' = Some (mapRuleRow (ruleRowObject True ex_legacyRule))
      \<or> rules_getByIdAndUser True ex_legacyDb ''rule_0'' ''u1'' = Some (mapRuleRow (ruleRowObject True ex_legacyRule))
      \<or> mapRuleRow (ruleRowObject True ex_legacyRule) \<in> set (rules_getByUserId True ex_tableOrder ex_legacyDb ''u1'')
      \<or> mapRuleRow (ruleRowObject True ex_legacyRule) \<in> set (rules_getActiveByUserId True ex_tableOrder ex_legacyDb ''u1'')
      \<or> mapRuleRow (ruleRowObject True ex_legacyRule) \<in> set (rules_getManualRules True ex_tableOrder ex_legacyDb ''u1'')
      \<or> mapRuleRow (ruleRowObject True ex_legacyRule) \<in> set (rules_getScheduledRulesDue True ex_tableOrder 1793448000000 ex_legacyDb)"
    by (rule disjI1)
  note rd = T [THEN conjunct2, THEN conjunct2, THEN conjunct2, THEN conjunct2, THEN conjunct2, THEN conjunct2, THEN conjunct2, THEN conjunct2, THEN conjunct2, THEN conjunct2, THEN conjunct2, THEN conjunct2, THEN conjunct2, THEN conjunct2, THEN conjunct2, THEN conjunct2, THEN conjunct2, THEN conjunct2, THEN conjunct2, THEN conjunct2, THEN conjunct2, THEN conjunct2, THEN conjunct2, THEN conjunct2, THEN conjunct2, THEN conjunct2, THEN conjunct2, THEN conjunct2, THEN conjunct2, THEN conjunct2, THEN conjunct2, THEN conjunct2, THEN conjunct2, THEN conjunct2]
  note rd' = rd [THEN spec, THEN mp, OF dj]
  note q1 = rd' [THEN conjunct2, THEN conjunct1]
    and q6 = rd' [THEN conjunct2, THEN conjunct2, THEN conjunct2, THEN conjunct2, THEN conjunct2,
      THEN conjunct2]
  from h c r1 r2 r3 r4 r5 r6 r7 r8 g q1 q6 s(1) s1 s(2) s5 s(3) s6 show ?thesis
    by (intro conjI)
qed

end
